theory Spec2Isabelle
  imports Complex_Main
begin

section \<open>Data model (src/src/types/index.ts)\<close>

text \<open>
  A TypeScript \<open>number\<close> is modelled as a \<open>real\<close>: a double is a real number. The
  arithmetic of the engine is read as exact arithmetic, epoch milliseconds included,
  except in the clearance time and in the timeline, where the rounding of every operation
  to double precision is written out (\<open>f64\<close>, below). Interfaces become records and
  string unions become datatypes. Record fields live in one name space, so a field whose
  name is used by two interfaces (\<open>id\<close>, \<open>name\<close>, \<open>type\<close>, \<open>magnitude\<close>) carries a short
  prefix. The purely presentational fields (\<open>description\<close>, \<open>mechanism\<close>, \<open>color\<close>,
  \<open>iconEmoji\<close>) are never read by the engine and are left out.
\<close>

datatype StatusEffectType =
  Agonist | Antagonist | Upregulation | Downregulation | Modulation | Precursor

datatype SubstanceCategory = Stimulant | Nootropic | Depressant | Supplement | Psychedelic

datatype NTStatus = Rising | Falling | Stable | Blocked | Enhanced

record StatusEffect =
  se_type :: StatusEffectType
  source :: string
  se_magnitude :: real
  startTime :: real

record Receptor =
  rc_id :: string
  subtype :: string
  label :: string
  sensitivity :: real
  occupancy :: real
  statusEffects :: "StatusEffect list"

record ReceptorInteraction =
  receptorId :: string
  ntId :: string
  ri_type :: StatusEffectType
  magnitude :: real

record Neurotransmitter =
  nt_id :: string
  nt_name :: string
  abbrev :: string
  baselineLevel :: real
  currentLevel :: real
  status :: NTStatus
  receptors :: "Receptor list"
  circadianRhythm :: "real \<Rightarrow> real"

record DosePK =
  halfLife :: real
  onsetTime :: real
  peakTime :: real
  duration :: real
  toleranceRate :: real

record Substance =
  sub_id :: string
  sub_name :: string
  category :: SubstanceCategory
  dosageUnit :: string
  commonDoses :: "real list"
  defaultPK :: DosePK
  getDosePK :: "real \<Rightarrow> DosePK"
  receptorInteractions :: "ReceptorInteraction list"

record SubstanceLog =
  log_id :: string
  substanceId :: string
  dosage :: real
  timestamp :: real
  expectedClearance :: real

section \<open>Neurotransmitter catalog (src/src/data/neurotransmitters.ts)\<close>

definition adenosine_getLevel :: "real \<Rightarrow> real" where
  "adenosine_getLevel hour =
     (if hour \<ge> 23 \<or> hour < 7 then 10
      else let wakeHours = hour - 7 in min (10 + wakeHours * 5.6) 100)"

definition dopamine_getLevel :: "real \<Rightarrow> real" where
  "dopamine_getLevel hour =
     (if hour \<ge> 23 \<or> hour < 7 then 40
      else if hour \<ge> 7 \<and> hour < 10 then 40 + ((hour - 7) / 3) * 30
      else if hour \<ge> 10 \<and> hour < 14 then 70
      else if hour \<ge> 14 \<and> hour < 18 then 70 - ((hour - 14) / 4) * 20
      else 50 - ((hour - 18) / 5) * 10)"

definition serotonin_getLevel :: "real \<Rightarrow> real" where
  "serotonin_getLevel hour =
     (if hour \<ge> 22 \<or> hour < 6 then 35
      else if hour \<ge> 6 \<and> hour < 12 then 35 + ((hour - 6) / 6) * 35
      else if hour \<ge> 12 \<and> hour < 16 then 70
      else 70 - ((hour - 16) / 6) * 35)"

definition gaba_getLevel :: "real \<Rightarrow> real" where
  "gaba_getLevel hour =
     (if hour \<ge> 22 \<or> hour < 6 then 75
      else if hour \<ge> 6 \<and> hour < 10 then 75 - ((hour - 6) / 4) * 30
      else if hour \<ge> 10 \<and> hour < 18 then 45
      else 45 + ((hour - 18) / 4) * 30)"

definition mkReceptor :: "string \<Rightarrow> string \<Rightarrow> string \<Rightarrow> real \<Rightarrow> real \<Rightarrow> Receptor" where
  "mkReceptor i st lb sens occ =
     \<lparr>rc_id = i, subtype = st, label = lb, sensitivity = sens, occupancy = occ,
      statusEffects = []\<rparr>"

definition nt_adenosine :: Neurotransmitter where
  "nt_adenosine =
     \<lparr>nt_id = ''adenosine'', nt_name = ''Adenosine'', abbrev = ''ADO'',
      baselineLevel = 20, currentLevel = 20, status = Rising,
      receptors =
        [mkReceptor ''a1'' ''A1'' ''A1 (Sleep Pressure)'' 100 20,
         mkReceptor ''a2a'' ''A2A'' ''A2A (Alertness)'' 100 20],
      circadianRhythm = adenosine_getLevel\<rparr>"

definition nt_dopamine :: Neurotransmitter where
  "nt_dopamine =
     \<lparr>nt_id = ''dopamine'', nt_name = ''Dopamine'', abbrev = ''DA'',
      baselineLevel = 60, currentLevel = 60, status = Stable,
      receptors =
        [mkReceptor ''d1'' ''D1'' ''D1 (Motivation)'' 100 50,
         mkReceptor ''d2'' ''D2'' ''D2 (Reward)'' 100 50],
      circadianRhythm = dopamine_getLevel\<rparr>"

definition nt_serotonin :: Neurotransmitter where
  "nt_serotonin =
     \<lparr>nt_id = ''serotonin'', nt_name = ''Serotonin'', abbrev = ''5-HT'',
      baselineLevel = 55, currentLevel = 55, status = Stable,
      receptors =
        [mkReceptor ''5ht1a'' ''5-HT1A'' ''5-HT1A (Mood)'' 100 50,
         mkReceptor ''5ht2a'' ''5-HT2A'' ''5-HT2A (Perception)'' 100 50],
      circadianRhythm = serotonin_getLevel\<rparr>"

definition nt_gaba :: Neurotransmitter where
  "nt_gaba =
     \<lparr>nt_id = ''gaba'', nt_name = ''GABA'', abbrev = ''GABA'',
      baselineLevel = 50, currentLevel = 50, status = Stable,
      receptors =
        [mkReceptor ''gabaa'' ''GABA-A'' ''GABA-A (Fast Inhibition)'' 100 50,
         mkReceptor ''gabab'' ''GABA-B'' ''GABA-B (Slow Inhibition)'' 100 50],
      circadianRhythm = gaba_getLevel\<rparr>"

definition defaultNeurotransmitters :: "Neurotransmitter list" where
  "defaultNeurotransmitters = [nt_adenosine, nt_dopamine, nt_serotonin, nt_gaba]"

section \<open>Substance catalog (the second module of src/src/data/neurotransmitters.ts)\<close>

text \<open>
  \<open>lerp\<close> clamps its parameter with \<open>Math.max(0, Math.min(1, t))\<close>. \<open>Math.round\<close> rounds
  to the nearest integer, a half upwards: \<open>\<lfloor>x + 1/2\<rfloor>\<close>.
\<close>

definition lerp :: "real \<Rightarrow> real \<Rightarrow> real \<Rightarrow> real" where
  "lerp a b t = a + (b - a) * max 0 (min 1 t)"

definition Math_round :: "real \<Rightarrow> real" where
  "Math_round x = of_int \<lfloor>x + 1 / 2\<rfloor>"

definition r1 :: "real \<Rightarrow> real" where
  "r1 n = Math_round (n * 10) / 10"

definition mkInteraction ::
  "string \<Rightarrow> string \<Rightarrow> StatusEffectType \<Rightarrow> real \<Rightarrow> ReceptorInteraction" where
  "mkInteraction r n ty m = \<lparr>receptorId = r, ntId = n, ri_type = ty, magnitude = m\<rparr>"

definition mkPK :: "real \<Rightarrow> real \<Rightarrow> real \<Rightarrow> real \<Rightarrow> real \<Rightarrow> DosePK" where
  "mkPK hl onset peak dur tol =
     \<lparr>halfLife = hl, onsetTime = onset, peakTime = peak, duration = dur, toleranceRate = tol\<rparr>"

definition caffeine_getDosePK :: "real \<Rightarrow> DosePK" where
  "caffeine_getDosePK dose =
     (let t = (dose - 50) / 350;
          hl = r1 (lerp 4.5 6.5 t);
          onset = 15;
          peak = Math_round (lerp 40 50 t);
          dur = r1 (hl * 2.2);
          tol = 5
      in mkPK hl onset peak dur tol)"

definition caffeine :: Substance where
  "caffeine =
     \<lparr>sub_id = ''caffeine'', sub_name = ''Caffeine'', category = Stimulant,
      dosageUnit = ''mg'', commonDoses = [50, 100, 200],
      defaultPK = mkPK 5 15 45 10 5,
      getDosePK = caffeine_getDosePK,
      receptorInteractions =
        [mkInteraction ''a1'' ''adenosine'' Antagonist 80,
         mkInteraction ''a2a'' ''adenosine'' Antagonist 70,
         mkInteraction ''d2'' ''dopamine'' Modulation 20]\<rparr>"

definition theanine_getDosePK :: "real \<Rightarrow> DosePK" where
  "theanine_getDosePK dose =
     (let t = (dose - 100) / 300;
          hl = 1.1;
          onset = Math_round (lerp 35 25 t);
          peak = 50;
          dur = r1 (lerp 3 7 t);
          tol = 1
      in mkPK hl onset peak dur tol)"

definition theanine :: Substance where
  "theanine =
     \<lparr>sub_id = ''l-theanine'', sub_name = ''L-Theanine'', category = Nootropic,
      dosageUnit = ''mg'', commonDoses = [100, 200, 400],
      defaultPK = mkPK 1.1 30 50 4 1,
      getDosePK = theanine_getDosePK,
      receptorInteractions =
        [mkInteraction ''gabaa'' ''gaba'' Agonist 35,
         mkInteraction ''5ht1a'' ''serotonin'' Modulation 20,
         mkInteraction ''d1'' ''dopamine'' Modulation 15]\<rparr>"

definition nicotine_getDosePK :: "real \<Rightarrow> DosePK" where
  "nicotine_getDosePK dose =
     (let hl = 2;
          onset = 5;
          peak = 15;
          t = (dose - 1) / 5;
          dur = r1 (lerp 3.5 5 t);
          tol = 12
      in mkPK hl onset peak dur tol)"

definition nicotine :: Substance where
  "nicotine =
     \<lparr>sub_id = ''nicotine'', sub_name = ''Nicotine'', category = Stimulant,
      dosageUnit = ''mg'', commonDoses = [1, 2, 4],
      defaultPK = mkPK 2 5 15 4 12,
      getDosePK = nicotine_getDosePK,
      receptorInteractions =
        [mkInteraction ''d1'' ''dopamine'' Agonist 55,
         mkInteraction ''d2'' ''dopamine'' Agonist 45]\<rparr>"

definition tyrosine_getDosePK :: "real \<Rightarrow> DosePK" where
  "tyrosine_getDosePK dose =
     (let t = (dose - 250) / 750;
          hl = r1 (lerp 1.8 2.5 t);
          onset = 30;
          peak = Math_round (lerp 75 120 t);
          dur = r1 (lerp 4 6 t);
          tol = 2
      in mkPK hl onset peak dur tol)"

definition tyrosine :: Substance where
  "tyrosine =
     \<lparr>sub_id = ''l-tyrosine'', sub_name = ''L-Tyrosine'', category = Nootropic,
      dosageUnit = ''mg'', commonDoses = [250, 500, 1000],
      defaultPK = mkPK 2 30 90 5 2,
      getDosePK = tyrosine_getDosePK,
      receptorInteractions =
        [mkInteraction ''d1'' ''dopamine'' Precursor 40,
         mkInteraction ''d2'' ''dopamine'' Precursor 35]\<rparr>"

definition flmodafinil_getDosePK :: "real \<Rightarrow> DosePK" where
  "flmodafinil_getDosePK dose =
     (let t = (dose - 25) / 75;
          hl = r1 (lerp 12 15 t);
          onset = Math_round (lerp 15 25 t);
          peak = Math_round (lerp 180 300 t);
          dur = r1 (lerp 14 18 t);
          tol = 3
      in mkPK hl onset peak dur tol)"

definition flmodafinil :: Substance where
  "flmodafinil =
     \<lparr>sub_id = ''flmodafinil'', sub_name = ''Flmodafinil'', category = Stimulant,
      dosageUnit = ''mg'', commonDoses = [25, 50, 100],
      defaultPK = mkPK 13 20 240 16 3,
      getDosePK = flmodafinil_getDosePK,
      receptorInteractions =
        [mkInteraction ''d1'' ''dopamine'' Agonist 50,
         mkInteraction ''a2a'' ''adenosine'' Antagonist 25,
         mkInteraction ''5ht1a'' ''serotonin'' Modulation 12]\<rparr>"

definition bromantane_getDosePK :: "real \<Rightarrow> DosePK" where
  "bromantane_getDosePK dose =
     (let t = (dose - 25) / 75;
          hl = 11;
          onset = 90;
          peak = Math_round (lerp 165 210 t);
          dur = 24;
          tol = 1
      in mkPK hl onset peak dur tol)"

definition bromantane :: Substance where
  "bromantane =
     \<lparr>sub_id = ''bromantane'', sub_name = ''Bromantane'', category = Nootropic,
      dosageUnit = ''mg'', commonDoses = [25, 50, 100],
      defaultPK = mkPK 11 90 180 24 1,
      getDosePK = bromantane_getDosePK,
      receptorInteractions =
        [mkInteraction ''d1'' ''dopamine'' Upregulation 50,
         mkInteraction ''d2'' ''dopamine'' Upregulation 45]\<rparr>"

definition shilajit_getDosePK :: "real \<Rightarrow> DosePK" where
  "shilajit_getDosePK dose =
     (let t = (dose - 250) / 250;
          hl = 7;
          onset = 60;
          peak = Math_round (lerp 150 210 t);
          dur = r1 (lerp 10 14 t);
          tol = 2
      in mkPK hl onset peak dur tol)"

definition shilajit :: Substance where
  "shilajit =
     \<lparr>sub_id = ''shilajit'', sub_name = ''Shilajit'', category = Supplement,
      dosageUnit = ''mg'', commonDoses = [250, 500],
      defaultPK = mkPK 7 60 180 12 2,
      getDosePK = shilajit_getDosePK,
      receptorInteractions =
        [mkInteraction ''d1'' ''dopamine'' Modulation 30,
         mkInteraction ''d2'' ''dopamine'' Modulation 25]\<rparr>"

definition substances :: "Substance list" where
  "substances = [caffeine, theanine, nicotine, tyrosine, flmodafinil, bromantane, shilajit]"

text \<open>
  \<open>new Map(entries)\<close> keeps, for a key given twice, the last entry; \<open>map_of\<close> keeps the
  first, so the entries are reversed.
\<close>

definition mkSubstanceMap :: "Substance list \<Rightarrow> (string \<rightharpoonup> Substance)" where
  "mkSubstanceMap ss = map_of (rev (map (\<lambda>s. (sub_id s, s)) ss))"

definition substanceMap :: "string \<rightharpoonup> Substance" where
  "substanceMap = mkSubstanceMap substances"

section \<open>Double-precision numbers\<close>

text \<open>
  A JavaScript number is an IEEE 754 double, and every arithmetic operation rounds its
  exact result to the nearest double, ties to the even significand. \<open>f64\<close> is that
  rounding: the doubles with \<open>2 ^ e \<le> \<bar>x\<bar> < 2 ^ (e + 1)\<close> are the integer multiples of
  \<open>2 ^ (e - 52)\<close>, and below \<open>2 ^ (- 1022)\<close> they are the multiples of \<open>2 ^ (- 1074)\<close>.
  It is exact for results below \<open>2 ^ 1024\<close> in magnitude; the overflow to \<open>Infinity\<close> is
  not modelled, and the statements bound their inputs well below it. A decimal literal
  such as \<open>4.3\<close> denotes the double nearest to it, \<open>f64 4.3\<close>.

  The rounding is written out in the functions whose result the specification reads to
  the last digit or counts: the clearance time, and the counter, bound and times of the
  timeline. The other functions are read over the reals.
\<close>

definition roundToEven :: "real \<Rightarrow> int" where
  "roundToEven x =
     (let f = \<lfloor>x\<rfloor>; r = x - of_int f
      in if r < 1 / 2 then f else if 1 / 2 < r then f + 1 else if even f then f else f + 1)"

definition binade :: "real \<Rightarrow> int" where
  "binade x = max \<lfloor>log 2 \<bar>x\<bar>\<rfloor> (- 1022)"

definition f64 :: "real \<Rightarrow> real" where
  "f64 x = of_int (roundToEven (x * 2 powr of_int (52 - binade x))) * 2 powr of_int (binade x - 52)"

section \<open>Pharmacokinetic engine (src/src/engine/pharmacokinetics.ts)\<close>

text \<open>
  \<open>Math.pow(0.5, x)\<close> is \<open>0.5 powr x\<close>. The code divides by \<open>halfLife\<close>; the theorems
  that mention the decay phase assume it positive, as the data model does.
\<close>

definition calculateDecay :: "real \<Rightarrow> real \<Rightarrow> real \<Rightarrow> real" where
  "calculateDecay dose hl elapsedHours =
     (if elapsedHours < 0 then 0 else dose * (0.5 powr (elapsedHours / hl)))"

definition getEffectiveness :: "SubstanceLog \<Rightarrow> Substance \<Rightarrow> real \<Rightarrow> real" where
  "getEffectiveness lg substance nowMs =
     (let elapsedMs = nowMs - timestamp lg;
          elapsedMinutes = elapsedMs / (1000 * 60)
      in if elapsedMinutes < 0 then 0
         else let pk = getDosePK substance (dosage lg);
                  peakMin = peakTime pk
              in if elapsedMinutes \<le> peakMin
                 then let progress = (if peakMin > 0 then elapsedMinutes / peakMin else 1)
                      in sin ((pi / 2) * min progress 1) * 100
                 else let hoursPastPeak = (elapsedMinutes - peakMin) / 60
                      in calculateDecay 100 (halfLife pk) hoursPastPeak)"

text \<open>
  The \<open>Map\<close> of impacts is a partial function; \<open>impact.get(id) ?? 0\<close> reads a missing key
  as 0. The \<open>for\<close> loop over the interactions is a left fold.
\<close>

definition impactStep ::
  "real \<Rightarrow> ReceptorInteraction \<Rightarrow> (string \<rightharpoonup> real) \<Rightarrow> (string \<rightharpoonup> real)" where
  "impactStep effectivenessPercent interaction impact =
     (let effectiveMagnitude = (magnitude interaction * effectivenessPercent) / 100;
          current = (case impact (receptorId interaction) of None \<Rightarrow> 0 | Some c \<Rightarrow> c)
      in impact(receptorId interaction \<mapsto> min (current + effectiveMagnitude) 100))"

definition calculateReceptorImpact ::
  "ReceptorInteraction list \<Rightarrow> real \<Rightarrow> (string \<rightharpoonup> real)" where
  "calculateReceptorImpact interactions effectivenessPercent =
     fold (impactStep effectivenessPercent) interactions Map.empty"


text \<open>
  The sampling loop \<open>for (let m = 0; m <= totalMinutes; m += intervalMinutes)\<close> does not
  end when the counter never exceeds the bound (as with an interval that is not positive),
  so it is a partial function: \<open>None\<close> is a loop that never returns. \<open>points.push\<close>
  appends to the accumulator. The counter, the bound \<open>pk.duration * 60\<close> and the time
  \<open>log.timestamp + m * 60 * 1000\<close> are rounded as the code rounds them.
\<close>

record TimelinePoint =
  time :: real
  level :: real

partial_function (option) timelineLoop ::
  "SubstanceLog \<Rightarrow> Substance \<Rightarrow> real \<Rightarrow> real \<Rightarrow> real \<Rightarrow> TimelinePoint list
     \<Rightarrow> TimelinePoint list option" where
  "timelineLoop lg substance intervalMinutes totalMinutes m points =
     (if m \<le> totalMinutes
      then let timeMs = f64 (timestamp lg + f64 (f64 (m * 60) * 1000));
               level = getEffectiveness lg substance timeMs
           in timelineLoop lg substance intervalMinutes totalMinutes (f64 (m + intervalMinutes))
                (points @ [\<lparr>time = timeMs, level = level\<rparr>])
      else Some points)"

definition generateTimeline ::
  "SubstanceLog \<Rightarrow> Substance \<Rightarrow> real \<Rightarrow> TimelinePoint list option" where
  "generateTimeline lg substance intervalMinutes =
     (let pk = getDosePK substance (dosage lg);
          totalMinutes = f64 (f64 (duration pk) * 60)
      in timelineLoop lg substance intervalMinutes totalMinutes 0 [])"

text \<open>
  \<open>calculateTolerance\<close> reads each timestamp through the host's \<open>Date\<close> object
  (\<open>getFullYear\<close>, \<open>getMonth\<close>, \<open>getDate\<close>, in local time). The host's calendar and time
  zone are not part of the repository: they are the parameter \<open>localDate\<close>. The day key is
  the template string \<open>`${year}-${month}-${date}`\<close>, with JavaScript's decimal rendering of
  an integer.
\<close>

record LocalDate =
  fullYear :: int
  month :: int
  date :: int

definition digitChar :: "nat \<Rightarrow> char" where
  "digitChar n = char_of (48 + n)"

fun showNat :: "nat \<Rightarrow> string" where
  "showNat n = (if n < 10 then [digitChar n] else showNat (n div 10) @ [digitChar (n mod 10)])"

definition showInt :: "int \<Rightarrow> string" where
  "showInt i = (if i < 0 then CHR ''-'' # showNat (nat (- i)) else showNat (nat i))"

definition dayKey :: "LocalDate \<Rightarrow> string" where
  "dayKey d = showInt (fullYear d) @ ''-'' @ showInt (month d) @ ''-'' @ showInt (date d)"

text \<open>
  \<open>Array.prototype.sort\<close> is stable, and so is \<open>sort_key\<close>; the comparator orders by
  ascending timestamp. The \<open>Set\<close> of day keys is filled by the loop over \<open>recentLogs\<close>.
\<close>

definition calculateTolerance ::
  "(real \<Rightarrow> LocalDate) \<Rightarrow> SubstanceLog list \<Rightarrow> Substance \<Rightarrow> real \<Rightarrow> real" where
  "calculateTolerance localDate logs substance nowMs =
     (let sevenDaysAgo = nowMs - 7 * 24 * 60 * 60 * 1000;
          recentLogs = sort_key timestamp
            (filter (\<lambda>l. substanceId l = sub_id substance \<and> timestamp l > sevenDaysAgo) logs)
      in if length recentLogs = 0 then 100
         else let daySet = fold (\<lambda>l s. insert (dayKey (localDate (timestamp l))) s) recentLogs {};
                  consecutiveDays = real (card daySet);
                  lastDose = dosage (last recentLogs);
                  pk = getDosePK substance lastDose;
                  toleranceLoss = consecutiveDays * toleranceRate pk
              in max (100 - toleranceLoss) 10)"

section \<open>The store (the store module, last part of src/src/components/SubstancePanel.tsx)\<close>

datatype ViewMode = Simple | Advanced

record SleepSchedule =
  wakeTime :: string
  sleepTime :: string

record NeuroState =
  neurotransmitters :: "Neurotransmitter list"
  substanceLogs :: "SubstanceLog list"
  sleepSchedule :: SleepSchedule
  viewMode :: ViewMode
  selectedSubstanceId :: "string option"


subsection \<open>updateNTLevels\<close>

text \<open>
  The snapshot starts from copies of the default neurotransmitters: the spread
  \<open>{...baseNT, currentLevel, receptors, status}\<close> is a record update, and every receptor
  is copied with a fresh, empty \<open>statusEffects\<close> array. The loops below mutate only these
  copies; the model with an explicit object store, further down, is proved to compute the
  values of this one and to write no object that existed before the call.
\<close>

definition resetReceptor :: "Neurotransmitter \<Rightarrow> real \<Rightarrow> Receptor \<Rightarrow> Receptor" where
  "resetReceptor baseNT hour r =
     r\<lparr>occupancy := circadianRhythm baseNT hour * (occupancy r / baselineLevel baseNT),
       sensitivity := 100,
       statusEffects := []\<rparr>"

definition resetNT :: "real \<Rightarrow> Neurotransmitter \<Rightarrow> Neurotransmitter" where
  "resetNT hour baseNT =
     baseNT\<lparr>currentLevel := circadianRhythm baseNT hour,
            receptors := map (resetReceptor baseNT hour) (receptors baseNT),
            status := Stable\<rparr>"

text \<open>
  The body of the innermost loop, for one receptor of one neurotransmitter. The fields
  of the neurotransmitter that the body writes are \<open>currentLevel\<close> and \<open>status\<close>; they are
  threaded as a pair, next to the receptor, which gets the new status effect and,
  for the regulation types, a new sensitivity.
\<close>

definition applyInteraction ::
  "StatusEffectType \<Rightarrow> real \<Rightarrow> real \<times> NTStatus \<Rightarrow> Receptor \<Rightarrow> (real \<times> NTStatus) \<times> Receptor" where
  "applyInteraction ty impact st receptor =
     (case st of (lvl, stat) \<Rightarrow>
        (case ty of
           Agonist \<Rightarrow> ((min (lvl + impact * 0.3) 100, Enhanced), receptor)
         | Precursor \<Rightarrow> ((min (lvl + impact * 0.3) 100, Enhanced), receptor)
         | Antagonist \<Rightarrow> ((max (lvl - impact * 0.3) 0, Blocked), receptor)
         | Upregulation \<Rightarrow>
             ((lvl, Enhanced), receptor\<lparr>sensitivity := min (sensitivity receptor + impact * 0.2) 150\<rparr>)
         | Downregulation \<Rightarrow>
             ((lvl, Falling), receptor\<lparr>sensitivity := max (sensitivity receptor - impact * 0.2) 20\<rparr>)
         | Modulation \<Rightarrow>
             ((min (lvl + impact * 0.15) 100, if stat = Stable then Enhanced else stat), receptor)))"

definition receptorStep ::
  "Substance \<Rightarrow> (string \<rightharpoonup> real) \<Rightarrow> SubstanceLog \<Rightarrow> real \<times> NTStatus \<Rightarrow> Receptor
     \<Rightarrow> (real \<times> NTStatus) \<times> Receptor" where
  "receptorStep substance impacts lg st receptor =
     (case impacts (rc_id receptor) of
        None \<Rightarrow> (st, receptor)
      | Some impact \<Rightarrow>
          (case find (\<lambda>i. receptorId i = rc_id receptor) (receptorInteractions substance) of
             None \<Rightarrow> (st, receptor)
           | Some interaction \<Rightarrow>
               let effect = \<lparr>se_type = ri_type interaction, source = sub_name substance,
                             se_magnitude = impact, startTime = timestamp lg\<rparr>;
                   pushed = receptor\<lparr>statusEffects := statusEffects receptor @ [effect]\<rparr>
               in applyInteraction (ri_type interaction) impact st pushed))"

fun receptorLoop ::
  "Substance \<Rightarrow> (string \<rightharpoonup> real) \<Rightarrow> SubstanceLog \<Rightarrow> real \<times> NTStatus \<Rightarrow> Receptor list
     \<Rightarrow> (real \<times> NTStatus) \<times> Receptor list" where
  "receptorLoop substance impacts lg st [] = (st, [])"
| "receptorLoop substance impacts lg st (r # rs) =
     (case receptorStep substance impacts lg st r of
        (st', r') \<Rightarrow>
          (case receptorLoop substance impacts lg st' rs of
             (st'', rs') \<Rightarrow> (st'', r' # rs')))"

definition applyToNT ::
  "Substance \<Rightarrow> (string \<rightharpoonup> real) \<Rightarrow> SubstanceLog \<Rightarrow> Neurotransmitter \<Rightarrow> Neurotransmitter" where
  "applyToNT substance impacts lg nt =
     (case receptorLoop substance impacts lg (currentLevel nt, status nt) (receptors nt) of
        ((lvl, stat), rs) \<Rightarrow> nt\<lparr>currentLevel := lvl, status := stat, receptors := rs\<rparr>)"

text \<open>
  One round of the loop over the active logs. An unknown substance id and an
  effectiveness below 1 both \<open>continue\<close>.
\<close>

definition applyLog ::
  "(string \<rightharpoonup> Substance) \<Rightarrow> real \<Rightarrow> SubstanceLog \<Rightarrow> Neurotransmitter list
     \<Rightarrow> Neurotransmitter list" where
  "applyLog catalog now lg updated =
     (case catalog (substanceId lg) of
        None \<Rightarrow> updated
      | Some substance \<Rightarrow>
          let effectiveness = getEffectiveness lg substance now
          in if effectiveness < 1 then updated
             else let impacts = calculateReceptorImpact (receptorInteractions substance) effectiveness
                  in map (applyToNT substance impacts lg) updated)"

text \<open>
  The whole recomputation, with the catalog and the default neurotransmitters as
  parameters; \<open>recompute\<close> is the code's instance, on the two module constants.
  \<open>Date.now()\<close> and \<open>getCurrentHour()\<close> are the inputs \<open>now\<close> and \<open>hour\<close>.
\<close>

definition recomputeOn ::
  "(string \<rightharpoonup> Substance) \<Rightarrow> Neurotransmitter list \<Rightarrow> real \<Rightarrow> real \<Rightarrow> SubstanceLog list
     \<Rightarrow> Neurotransmitter list" where
  "recomputeOn catalog defaults now hour logs =
     (let updated = map (resetNT hour) defaults;
          activeLogs = filter (\<lambda>l. expectedClearance l > now) logs
      in fold (applyLog catalog now) activeLogs updated)"

definition recompute :: "real \<Rightarrow> real \<Rightarrow> SubstanceLog list \<Rightarrow> Neurotransmitter list" where
  "recompute now hour logs = recomputeOn substanceMap defaultNeurotransmitters now hour logs"

definition updateNTLevels :: "real \<Rightarrow> real \<Rightarrow> NeuroState \<Rightarrow> NeuroState" where
  "updateNTLevels now hour st = st\<lparr>neurotransmitters := recompute now hour (substanceLogs st)\<rparr>"

subsection \<open>The other actions\<close>










section \<open>The objects behind a snapshot\<close>

text \<open>
  To see that no recomputation writes an object that another one reads, the same code is
  modelled once more, on an explicit object store. A reference is a number; the store has
  one map per kind of object (neurotransmitter objects, receptor objects, arrays of status
  effects) and the next free reference. JavaScript references never dangle, so the maps are
  total, and what lies at or above \<open>nextRef\<close> is not allocated yet. An array of receptors
  is never written after it is built, so it is a field of its neurotransmitter object.
\<close>

type_synonym ref = nat

record ReceptorObj =
  o_id :: string
  o_subtype :: string
  o_label :: string
  o_sensitivity :: real
  o_occupancy :: real
  o_statusEffects :: ref

record NeurotransmitterObj =
  n_id :: string
  n_name :: string
  n_abbrev :: string
  n_baselineLevel :: real
  n_currentLevel :: real
  n_status :: NTStatus
  n_receptors :: "ref list"
  n_circadianRhythm :: "real \<Rightarrow> real"

record Heap =
  ntObjs :: "ref \<Rightarrow> NeurotransmitterObj"
  rcObjs :: "ref \<Rightarrow> ReceptorObj"
  arrays :: "ref \<Rightarrow> StatusEffect list"
  nextRef :: ref

definition newArray :: "StatusEffect list \<Rightarrow> Heap \<Rightarrow> Heap \<times> ref" where
  "newArray xs h = (h\<lparr>arrays := (arrays h)(nextRef h := xs), nextRef := Suc (nextRef h)\<rparr>, nextRef h)"

definition newReceptor :: "ReceptorObj \<Rightarrow> Heap \<Rightarrow> Heap \<times> ref" where
  "newReceptor ob h = (h\<lparr>rcObjs := (rcObjs h)(nextRef h := ob), nextRef := Suc (nextRef h)\<rparr>, nextRef h)"

definition newNeurotransmitter :: "NeurotransmitterObj \<Rightarrow> Heap \<Rightarrow> Heap \<times> ref" where
  "newNeurotransmitter ob h =
     (h\<lparr>ntObjs := (ntObjs h)(nextRef h := ob), nextRef := Suc (nextRef h)\<rparr>, nextRef h)"

definition copyReceptor :: "NeurotransmitterObj \<Rightarrow> real \<Rightarrow> ref \<Rightarrow> Heap \<Rightarrow> Heap \<times> ref" where
  "copyReceptor baseNT hour r h =
     (case newArray [] h of
        (h1, a) \<Rightarrow>
          newReceptor
            ((rcObjs h r)\<lparr>o_occupancy :=
                 n_circadianRhythm baseNT hour * (o_occupancy (rcObjs h r) / n_baselineLevel baseNT),
               o_sensitivity := 100,
               o_statusEffects := a\<rparr>) h1)"

fun copyReceptors :: "NeurotransmitterObj \<Rightarrow> real \<Rightarrow> ref list \<Rightarrow> Heap \<Rightarrow> Heap \<times> ref list" where
  "copyReceptors baseNT hour [] h = (h, [])"
| "copyReceptors baseNT hour (r # rs) h =
     (case copyReceptor baseNT hour r h of
        (h1, b) \<Rightarrow>
          (case copyReceptors baseNT hour rs h1 of
             (h2, bs) \<Rightarrow> (h2, b # bs)))"

definition copyNT :: "real \<Rightarrow> ref \<Rightarrow> Heap \<Rightarrow> Heap \<times> ref" where
  "copyNT hour n h =
     (case copyReceptors (ntObjs h n) hour (n_receptors (ntObjs h n)) h of
        (h1, bs) \<Rightarrow>
          newNeurotransmitter
            ((ntObjs h n)\<lparr>n_currentLevel := n_circadianRhythm (ntObjs h n) hour,
               n_receptors := bs,
               n_status := Stable\<rparr>) h1)"

fun copyNTs :: "real \<Rightarrow> ref list \<Rightarrow> Heap \<Rightarrow> Heap \<times> ref list" where
  "copyNTs hour [] h = (h, [])"
| "copyNTs hour (n # ns) h =
     (case copyNT hour n h of
        (h1, m) \<Rightarrow>
          (case copyNTs hour ns h1 of
             (h2, ms) \<Rightarrow> (h2, m # ms)))"

definition objReceptorStep ::
  "Substance \<Rightarrow> (string \<rightharpoonup> real) \<Rightarrow> SubstanceLog \<Rightarrow> ref \<Rightarrow> ref \<Rightarrow> Heap \<Rightarrow> Heap" where
  "objReceptorStep substance impacts lg n b h =
     (case impacts (o_id (rcObjs h b)) of
        None \<Rightarrow> h
      | Some impact \<Rightarrow>
          (case find (\<lambda>i. receptorId i = o_id (rcObjs h b)) (receptorInteractions substance) of
             None \<Rightarrow> h
           | Some interaction \<Rightarrow>
               let effect = \<lparr>se_type = ri_type interaction, source = sub_name substance,
                             se_magnitude = impact, startTime = timestamp lg\<rparr>;
                   a = o_statusEffects (rcObjs h b);
                   h1 = h\<lparr>arrays := (arrays h)(a := arrays h a @ [effect])\<rparr>;
                   nt = ntObjs h1 n;
                   receptor = rcObjs h1 b
               in (case ri_type interaction of
                     Agonist \<Rightarrow>
                       h1\<lparr>ntObjs := (ntObjs h1)(n := nt\<lparr>n_currentLevel :=
                              min (n_currentLevel nt + impact * 0.3) 100, n_status := Enhanced\<rparr>)\<rparr>
                   | Precursor \<Rightarrow>
                       h1\<lparr>ntObjs := (ntObjs h1)(n := nt\<lparr>n_currentLevel :=
                              min (n_currentLevel nt + impact * 0.3) 100, n_status := Enhanced\<rparr>)\<rparr>
                   | Antagonist \<Rightarrow>
                       h1\<lparr>ntObjs := (ntObjs h1)(n := nt\<lparr>n_currentLevel :=
                              max (n_currentLevel nt - impact * 0.3) 0, n_status := Blocked\<rparr>)\<rparr>
                   | Upregulation \<Rightarrow>
                       h1\<lparr>rcObjs := (rcObjs h1)(b := receptor\<lparr>o_sensitivity :=
                              min (o_sensitivity receptor + impact * 0.2) 150\<rparr>),
                          ntObjs := (ntObjs h1)(n := nt\<lparr>n_status := Enhanced\<rparr>)\<rparr>
                   | Downregulation \<Rightarrow>
                       h1\<lparr>rcObjs := (rcObjs h1)(b := receptor\<lparr>o_sensitivity :=
                              max (o_sensitivity receptor - impact * 0.2) 20\<rparr>),
                          ntObjs := (ntObjs h1)(n := nt\<lparr>n_status := Falling\<rparr>)\<rparr>
                   | Modulation \<Rightarrow>
                       h1\<lparr>ntObjs := (ntObjs h1)(n := nt\<lparr>n_currentLevel :=
                              min (n_currentLevel nt + impact * 0.15) 100,
                              n_status := (if n_status nt = Stable then Enhanced else n_status nt)\<rparr>)\<rparr>)))"

definition objApplyToNT ::
  "Substance \<Rightarrow> (string \<rightharpoonup> real) \<Rightarrow> SubstanceLog \<Rightarrow> ref \<Rightarrow> Heap \<Rightarrow> Heap" where
  "objApplyToNT substance impacts lg n h =
     fold (objReceptorStep substance impacts lg n) (n_receptors (ntObjs h n)) h"

definition objApplyLog ::
  "(string \<rightharpoonup> Substance) \<Rightarrow> real \<Rightarrow> ref list \<Rightarrow> SubstanceLog \<Rightarrow> Heap \<Rightarrow> Heap" where
  "objApplyLog catalog now updated lg h =
     (case catalog (substanceId lg) of
        None \<Rightarrow> h
      | Some substance \<Rightarrow>
          let effectiveness = getEffectiveness lg substance now
          in if effectiveness < 1 then h
             else let impacts = calculateReceptorImpact (receptorInteractions substance) effectiveness
                  in fold (objApplyToNT substance impacts lg) updated h)"

definition objRecompute ::
  "(string \<rightharpoonup> Substance) \<Rightarrow> ref list \<Rightarrow> real \<Rightarrow> real \<Rightarrow> SubstanceLog list \<Rightarrow> Heap
     \<Rightarrow> Heap \<times> ref list" where
  "objRecompute catalog defaults now hour logs h =
     (case copyNTs hour defaults h of
        (h1, updated) \<Rightarrow>
          let activeLogs = filter (\<lambda>l. expectedClearance l > now) logs
          in (fold (objApplyLog catalog now updated) activeLogs h1, updated))"

text \<open>
  The module's initialisation evaluates the object literals of
  \<open>defaultNeurotransmitters\<close>: every literal allocates an object, arrays first.
\<close>

definition loadReceptor :: "Receptor \<Rightarrow> Heap \<Rightarrow> Heap \<times> ref" where
  "loadReceptor r h =
     (case newArray (statusEffects r) h of
        (h1, a) \<Rightarrow>
          newReceptor
            \<lparr>o_id = rc_id r, o_subtype = subtype r, o_label = label r,
             o_sensitivity = sensitivity r, o_occupancy = occupancy r, o_statusEffects = a\<rparr> h1)"

fun loadReceptors :: "Receptor list \<Rightarrow> Heap \<Rightarrow> Heap \<times> ref list" where
  "loadReceptors [] h = (h, [])"
| "loadReceptors (r # rs) h =
     (case loadReceptor r h of
        (h1, b) \<Rightarrow>
          (case loadReceptors rs h1 of
             (h2, bs) \<Rightarrow> (h2, b # bs)))"

definition loadNT :: "Neurotransmitter \<Rightarrow> Heap \<Rightarrow> Heap \<times> ref" where
  "loadNT nt h =
     (case loadReceptors (receptors nt) h of
        (h1, bs) \<Rightarrow>
          newNeurotransmitter
            \<lparr>n_id = nt_id nt, n_name = nt_name nt, n_abbrev = abbrev nt,
             n_baselineLevel = baselineLevel nt, n_currentLevel = currentLevel nt,
             n_status = status nt, n_receptors = bs,
             n_circadianRhythm = circadianRhythm nt\<rparr> h1)"

fun loadNTs :: "Neurotransmitter list \<Rightarrow> Heap \<Rightarrow> Heap \<times> ref list" where
  "loadNTs [] h = (h, [])"
| "loadNTs (nt # nts) h =
     (case loadNT nt h of
        (h1, n) \<Rightarrow>
          (case loadNTs nts h1 of
             (h2, ns) \<Rightarrow> (h2, n # ns)))"

definition emptyHeap :: Heap where
  "emptyHeap =
     \<lparr>ntObjs = (\<lambda>x. \<lparr>n_id = [], n_name = [], n_abbrev = [], n_baselineLevel = 0,
                        n_currentLevel = 0, n_status = Stable, n_receptors = [],
                        n_circadianRhythm = (\<lambda>hour. 0)\<rparr>),
      rcObjs = (\<lambda>x. \<lparr>o_id = [], o_subtype = [], o_label = [], o_sensitivity = 0,
                        o_occupancy = 0, o_statusEffects = 0\<rparr>),
      arrays = (\<lambda>x. []),
      nextRef = 0\<rparr>"

definition moduleHeap :: Heap where
  "moduleHeap = fst (loadNTs defaultNeurotransmitters emptyHeap)"

definition defaultRefs :: "ref list" where
  "defaultRefs = snd (loadNTs defaultNeurotransmitters emptyHeap)"

section \<open>Predicates and inputs of the statements\<close>

text \<open>
  The ranges of the data model, as predicates on a receptor, on a neurotransmitter and on
  a map of impacts; and the part of a neurotransmitter that no recomputation changes
  (its id, the ids of its receptors in order, and its circadian function).
\<close>

definition receptorInRange :: "Receptor \<Rightarrow> bool" where
  "receptorInRange r =
     (20 \<le> sensitivity r \<and> sensitivity r \<le> 150 \<and> 0 \<le> occupancy r \<and> occupancy r \<le> 100)"

definition ntInRange :: "Neurotransmitter \<Rightarrow> bool" where
  "ntInRange nt =
     (0 \<le> currentLevel nt \<and> currentLevel nt \<le> 100 \<and> list_all receptorInRange (receptors nt))"

definition impactsInRange :: "(string \<rightharpoonup> real) \<Rightarrow> bool" where
  "impactsInRange impacts = (\<forall>r m. impacts r = Some m \<longrightarrow> 0 \<le> m \<and> m \<le> 100)"

definition ntShape :: "Neurotransmitter \<Rightarrow> string \<times> string list \<times> (real \<Rightarrow> real)" where
  "ntShape nt = (nt_id nt, map rc_id (receptors nt), circadianRhythm nt)"

text \<open>
  The bound of the sampling loop for a log; the value of its counter after \<open>k\<close> rounds;
  the point that a round pushes when its counter is \<open>m\<close>; and the number of multiples of
  an interval from 0 up to a bound.
\<close>

definition loopBound :: "SubstanceLog \<Rightarrow> Substance \<Rightarrow> real" where
  "loopBound lg substance = f64 (f64 (duration (getDosePK substance (dosage lg))) * 60)"

definition counterAt :: "real \<Rightarrow> nat \<Rightarrow> real" where
  "counterAt intervalMinutes k = ((\<lambda>m. f64 (m + intervalMinutes)) ^^ k) 0"

definition timelinePoint :: "SubstanceLog \<Rightarrow> Substance \<Rightarrow> real \<Rightarrow> TimelinePoint" where
  "timelinePoint lg substance m =
     \<lparr>time = f64 (timestamp lg + f64 (f64 (m * 60) * 1000)),
      level = getEffectiveness lg substance (f64 (timestamp lg + f64 (f64 (m * 60) * 1000)))\<rparr>"

definition sampleCount :: "real \<Rightarrow> real \<Rightarrow> nat" where
  "sampleCount totalMinutes intervalMinutes =
     (if 0 \<le> totalMinutes then nat \<lfloor>totalMinutes / intervalMinutes\<rfloor> + 1 else 0)"

text \<open>
  The logs that \<open>calculateTolerance\<close> keeps, in history order, and the log whose dose it
  resolves: the last one, in that order, among those with the greatest timestamp. Then
  the tolerance in the words of the specification: the logs of the substance in the 7 days
  that end at \<open>now\<close>, the number of distinct local calendar days that hold one of them, the
  rate resolved at the dose of the most recent of them, and the clamp to \<open>[10,100]\<close>.
\<close>

definition recentLogs :: "SubstanceLog list \<Rightarrow> Substance \<Rightarrow> real \<Rightarrow> SubstanceLog list" where
  "recentLogs logs substance nowMs =
     filter (\<lambda>l. substanceId l = sub_id substance \<and>
                 timestamp l > nowMs - 7 * 24 * 60 * 60 * 1000) logs"

definition mostRecent :: "SubstanceLog list \<Rightarrow> SubstanceLog" where
  "mostRecent ls = last (filter (\<lambda>l. timestamp l = Max (timestamp ` set ls)) ls)"

definition trailingWindow :: "SubstanceLog list \<Rightarrow> Substance \<Rightarrow> real \<Rightarrow> SubstanceLog list" where
  "trailingWindow logs substance nowMs =
     filter (\<lambda>l. substanceId l = sub_id substance \<and>
                 nowMs - 7 * 24 * 60 * 60 * 1000 < timestamp l \<and> timestamp l \<le> nowMs) logs"

definition clamp :: "real \<Rightarrow> real \<Rightarrow> real \<Rightarrow> real" where
  "clamp x lo hi = max lo (min x hi)"

definition toleranceSpec ::
  "(real \<Rightarrow> LocalDate) \<Rightarrow> SubstanceLog list \<Rightarrow> Substance \<Rightarrow> real \<Rightarrow> real" where
  "toleranceSpec localDate logs substance nowMs =
     (let inWindow = trailingWindow logs substance nowMs
      in if inWindow = [] then 100
         else let distinctDays = card ((\<lambda>l. localDate (timestamp l)) ` set inWindow);
                  rate = toleranceRate (getDosePK substance (dosage (mostRecent inWindow)))
              in clamp (100 - real distinctDays * rate) 10 100)"

text \<open>
  Inputs for the scenarios of the specification that the catalog has no instance of: a
  substance with one agonist interaction on the D1 receptor, of a given magnitude and with
  the same given kinetics at every dose, and a log of it taken at time 0.
\<close>

definition scenarioSubstance :: "string \<Rightarrow> DosePK \<Rightarrow> real \<Rightarrow> Substance" where
  "scenarioSubstance i pk m =
     \<lparr>sub_id = i, sub_name = i, category = Stimulant, dosageUnit = ''mg'', commonDoses = [1],
      defaultPK = pk, getDosePK = (\<lambda>dose. pk),
      receptorInteractions = [mkInteraction ''d1'' ''dopamine'' Agonist m]\<rparr>"

definition scenarioLog :: "string \<Rightarrow> SubstanceLog" where
  "scenarioLog i = \<lparr>log_id = i, substanceId = i, dosage = 1, timestamp = 0, expectedClearance = 1\<rparr>"

text \<open>
  The value of an object: what a reader of the snapshot sees through a reference.
\<close>

definition readReceptor :: "Heap \<Rightarrow> ref \<Rightarrow> Receptor" where
  "readReceptor h b =
     \<lparr>rc_id = o_id (rcObjs h b), subtype = o_subtype (rcObjs h b), label = o_label (rcObjs h b),
      sensitivity = o_sensitivity (rcObjs h b), occupancy = o_occupancy (rcObjs h b),
      statusEffects = arrays h (o_statusEffects (rcObjs h b))\<rparr>"

definition readNT :: "Heap \<Rightarrow> ref \<Rightarrow> Neurotransmitter" where
  "readNT h n =
     \<lparr>nt_id = n_id (ntObjs h n), nt_name = n_name (ntObjs h n), abbrev = n_abbrev (ntObjs h n),
      baselineLevel = n_baselineLevel (ntObjs h n), currentLevel = n_currentLevel (ntObjs h n),
      status = n_status (ntObjs h n),
      receptors = map (readReceptor h) (n_receptors (ntObjs h n)),
      circadianRhythm = n_circadianRhythm (ntObjs h n)\<rparr>"

text \<open>
  Predicates on stores: the references held by an object; two stores with the same
  references everywhere; two stores that agree outside given sets of references; the
  neurotransmitters that share no receptor and no array; a store that extends another one
  without writing what was allocated; references that reach allocated objects only, or
  objects allocated from a given reference on; and a store in which the module constant
  is as loaded.
\<close>

definition recsOf :: "Heap \<Rightarrow> ref \<Rightarrow> ref list" where
  "recsOf h n = n_receptors (ntObjs h n)"

definition arrOf :: "Heap \<Rightarrow> ref \<Rightarrow> ref" where
  "arrOf h b = o_statusEffects (rcObjs h b)"

definition sameShape :: "Heap \<Rightarrow> Heap \<Rightarrow> bool" where
  "sameShape h h' = (nextRef h' = nextRef h \<and> recsOf h' = recsOf h \<and> arrOf h' = arrOf h)"

definition agreesOutside :: "ref set \<Rightarrow> ref set \<Rightarrow> ref set \<Rightarrow> Heap \<Rightarrow> Heap \<Rightarrow> bool" where
  "agreesOutside N R A h h' =
     ((\<forall>x. x \<notin> N \<longrightarrow> ntObjs h' x = ntObjs h x) \<and>
      (\<forall>x. x \<notin> R \<longrightarrow> rcObjs h' x = rcObjs h x) \<and>
      (\<forall>x. x \<notin> A \<longrightarrow> arrays h' x = arrays h x))"

definition rcsOfList :: "Heap \<Rightarrow> ref list \<Rightarrow> ref list" where
  "rcsOfList h us = concat (map (recsOf h) us)"

definition owned :: "Heap \<Rightarrow> ref list \<Rightarrow> bool" where
  "owned h us =
     (distinct us \<and> distinct (rcsOfList h us) \<and> distinct (map (arrOf h) (rcsOfList h us)))"

definition extends :: "Heap \<Rightarrow> Heap \<Rightarrow> bool" where
  "extends h h' =
     (nextRef h \<le> nextRef h' \<and>
      (\<forall>x < nextRef h. ntObjs h' x = ntObjs h x \<and> rcObjs h' x = rcObjs h x \<and>
                        arrays h' x = arrays h x))"

definition ntClosed :: "Heap \<Rightarrow> ref \<Rightarrow> bool" where
  "ntClosed h n =
     (n < nextRef h \<and> (\<forall>b \<in> set (recsOf h n). b < nextRef h \<and> arrOf h b < nextRef h))"

definition freshIn :: "ref \<Rightarrow> Heap \<Rightarrow> ref list \<Rightarrow> bool" where
  "freshIn lo h us =
     (\<forall>n \<in> set us. lo \<le> n \<and> n < nextRef h \<and>
        (\<forall>b \<in> set (recsOf h n). lo \<le> b \<and> b < nextRef h \<and>
                                  lo \<le> arrOf h b \<and> arrOf h b < nextRef h))"

definition moduleLoaded :: "Heap \<Rightarrow> bool" where
  "moduleLoaded h =
     (map (readNT h) defaultRefs = defaultNeurotransmitters \<and>
      (\<forall>n \<in> set defaultRefs. ntClosed h n))"

text \<open>
  A calendar for the witnesses: the UTC dates of January 1970, which is the host's
  calendar for timestamps from 0 to 31 days in a host on UTC. And a log of 2 mg of
  nicotine at a given time.
\<close>

definition january1970 :: "real \<Rightarrow> LocalDate" where
  "january1970 t = \<lparr>fullYear = 1970, month = 0, date = 1 + \<lfloor>t / 86400000\<rfloor>\<rparr>"

definition nicotineLog :: "real \<Rightarrow> SubstanceLog" where
  "nicotineLog t =
     \<lparr>log_id = ''n'', substanceId = ''nicotine'', dosage = 2, timestamp = t,
      expectedClearance = t + 30960000\<rparr>"

text \<open>
  What one round of the loop over the active logs pushes on the receptor with a given id:
  nothing when the round is skipped or the substance has no impact on that receptor, else
  one status effect whose magnitude is the impact of that substance alone. And the status
  effects of a neurotransmitter, receptor by receptor.
\<close>

definition pushedEffects ::
  "Substance \<Rightarrow> (string \<rightharpoonup> real) \<Rightarrow> SubstanceLog \<Rightarrow> string \<Rightarrow> StatusEffect list" where
  "pushedEffects substance impacts lg r =
     (case impacts r of
        None \<Rightarrow> []
      | Some impact \<Rightarrow>
          (case find (\<lambda>i. receptorId i = r) (receptorInteractions substance) of
             None \<Rightarrow> []
           | Some interaction \<Rightarrow>
               [\<lparr>se_type = ri_type interaction, source = sub_name substance,
                 se_magnitude = impact, startTime = timestamp lg\<rparr>]))"

definition logEffects ::
  "(string \<rightharpoonup> Substance) \<Rightarrow> real \<Rightarrow> SubstanceLog \<Rightarrow> string \<Rightarrow> StatusEffect list" where
  "logEffects catalog now lg r =
     (case catalog (substanceId lg) of
        None \<Rightarrow> []
      | Some substance \<Rightarrow>
          let effectiveness = getEffectiveness lg substance now
          in if effectiveness < 1 then []
             else pushedEffects substance
                    (calculateReceptorImpact (receptorInteractions substance) effectiveness) lg r)"

definition receptorEffects :: "Neurotransmitter \<Rightarrow> (string \<times> StatusEffect list) list" where
  "receptorEffects nt = map (\<lambda>rc. (rc_id rc, statusEffects rc)) (receptors nt)"

section \<open>The dose resolver clamps (claim C1)\<close>


lemma lerp_low: "t \<le> 0 \<Longrightarrow> lerp a b t = a"
  by (simp add: lerp_def max_def min_def)

lemma lerp_high: "1 \<le> t \<Longrightarrow> lerp a b t = b"
  by (simp add: lerp_def max_def min_def)

lemma lerp_between: "a \<le> b \<Longrightarrow> a \<le> lerp a b t \<and> lerp a b t \<le> b"
proof -
  assume ab: "a \<le> b"
  let ?c = "max 0 (min 1 t)"
  have c: "0 \<le> ?c" "?c \<le> 1" by auto
  have "0 \<le> (b - a) * ?c" using ab c by simp
  moreover have "(b - a) * ?c \<le> (b - a) * 1" using ab c by (intro mult_left_mono) auto
  ultimately show ?thesis by (simp add: lerp_def)
qed

lemma Math_round_mono: "x \<le> y \<Longrightarrow> Math_round x \<le> Math_round y"
  by (simp add: Math_round_def floor_mono)

lemma r1_mono: "x \<le> y \<Longrightarrow> r1 x \<le> r1 y"
  by (simp add: r1_def Math_round_mono divide_right_mono)

lemmas pk_unfold = lerp_low lerp_high r1_def Math_round_def Let_def

lemma caffeine_low: "dose \<le> 50 \<Longrightarrow> getDosePK caffeine dose = mkPK 4.5 15 40 9.9 5"
  by (simp add: caffeine_def caffeine_getDosePK_def pk_unfold)

lemma caffeine_high: "400 \<le> dose \<Longrightarrow> getDosePK caffeine dose = mkPK 6.5 15 50 14.3 5"
  by (simp add: caffeine_def caffeine_getDosePK_def pk_unfold)

lemma theanine_low: "dose \<le> 100 \<Longrightarrow> getDosePK theanine dose = mkPK 1.1 35 50 3 1"
  by (simp add: theanine_def theanine_getDosePK_def pk_unfold)

lemma theanine_high: "400 \<le> dose \<Longrightarrow> getDosePK theanine dose = mkPK 1.1 25 50 7 1"
  by (simp add: theanine_def theanine_getDosePK_def pk_unfold)

lemma nicotine_low: "dose \<le> 1 \<Longrightarrow> getDosePK nicotine dose = mkPK 2 5 15 3.5 12"
  by (simp add: nicotine_def nicotine_getDosePK_def pk_unfold)

lemma nicotine_high: "6 \<le> dose \<Longrightarrow> getDosePK nicotine dose = mkPK 2 5 15 5 12"
  by (simp add: nicotine_def nicotine_getDosePK_def pk_unfold)

lemma tyrosine_low: "dose \<le> 250 \<Longrightarrow> getDosePK tyrosine dose = mkPK 1.8 30 75 4 2"
  by (simp add: tyrosine_def tyrosine_getDosePK_def pk_unfold)

lemma tyrosine_high: "1000 \<le> dose \<Longrightarrow> getDosePK tyrosine dose = mkPK 2.5 30 120 6 2"
  by (simp add: tyrosine_def tyrosine_getDosePK_def pk_unfold)

lemma flmodafinil_low: "dose \<le> 25 \<Longrightarrow> getDosePK flmodafinil dose = mkPK 12 15 180 14 3"
  by (simp add: flmodafinil_def flmodafinil_getDosePK_def pk_unfold)

lemma flmodafinil_high: "100 \<le> dose \<Longrightarrow> getDosePK flmodafinil dose = mkPK 15 25 300 18 3"
  by (simp add: flmodafinil_def flmodafinil_getDosePK_def pk_unfold)

lemma bromantane_low: "dose \<le> 25 \<Longrightarrow> getDosePK bromantane dose = mkPK 11 90 165 24 1"
  by (simp add: bromantane_def bromantane_getDosePK_def pk_unfold)

lemma bromantane_high: "100 \<le> dose \<Longrightarrow> getDosePK bromantane dose = mkPK 11 90 210 24 1"
  by (simp add: bromantane_def bromantane_getDosePK_def pk_unfold)

lemma shilajit_low: "dose \<le> 250 \<Longrightarrow> getDosePK shilajit dose = mkPK 7 60 150 10 2"
  by (simp add: shilajit_def shilajit_getDosePK_def pk_unfold)

lemma shilajit_high: "500 \<le> dose \<Longrightarrow> getDosePK shilajit dose = mkPK 7 60 210 14 2"
  by (simp add: shilajit_def shilajit_getDosePK_def pk_unfold)

text \<open>Rounding keeps a value between two fixed points of the rounding.\<close>

lemma Math_round_between:
  "of_int lo \<le> x \<Longrightarrow> x \<le> of_int hi \<Longrightarrow> of_int lo \<le> Math_round x \<and> Math_round x \<le> of_int hi"
  unfolding Math_round_def by (simp add: le_floor_iff floor_le_iff)

lemma r1_between:
  assumes "of_int lo / 10 \<le> x" "x \<le> of_int hi / 10"
  shows "of_int lo / 10 \<le> r1 x \<and> r1 x \<le> of_int hi / 10"
proof -
  have "of_int lo \<le> x * 10" "x * 10 \<le> of_int hi" using assms by auto
  from Math_round_between[OF this] show ?thesis by (simp add: r1_def)
qed

lemma caffeine_halfLife_range:
  "4.5 \<le> halfLife (getDosePK caffeine dose) \<and> halfLife (getDosePK caffeine dose) \<le> 6.5"
proof -
  have "4.5 \<le> lerp 4.5 6.5 ((dose - 50) / 350) \<and> lerp 4.5 6.5 ((dose - 50) / 350) \<le> 6.5"
    by (rule lerp_between) simp
  then show ?thesis
    using r1_between[of 45 "lerp 4.5 6.5 ((dose - 50) / 350)" 65]
    by (simp add: caffeine_def caffeine_getDosePK_def Let_def mkPK_def)
qed

lemma caffeine_peakTime_range:
  "40 \<le> peakTime (getDosePK caffeine dose) \<and> peakTime (getDosePK caffeine dose) \<le> 50"
proof -
  have "40 \<le> lerp 40 50 ((dose - 50) / 350) \<and> lerp 40 50 ((dose - 50) / 350) \<le> 50"
    by (rule lerp_between) simp
  then show ?thesis
    using Math_round_between[of 40 "lerp 40 50 ((dose - 50) / 350)" 50]
    by (simp add: caffeine_def caffeine_getDosePK_def Let_def mkPK_def)
qed

text \<open>
  Claim C1, as amended. The resolver does not extrapolate: \<open>lerp\<close> clamps its parameter to
  \<open>[0,1]\<close>. For every substance of the catalog, a dose at or below the low calibration
  anchor resolves to the kinetics of the low anchor, and a dose at or above the high
  anchor to the kinetics of the high anchor, so no resolved field leaves the interval
  between its two anchor values.
\<close>

theorem getDosePK_clamps_outside_anchors:
  "(dose \<le> 50 \<longrightarrow> getDosePK caffeine dose = mkPK 4.5 15 40 9.9 5) \<and>
   (400 \<le> dose \<longrightarrow> getDosePK caffeine dose = mkPK 6.5 15 50 14.3 5) \<and>
   (dose \<le> 100 \<longrightarrow> getDosePK theanine dose = mkPK 1.1 35 50 3 1) \<and>
   (400 \<le> dose \<longrightarrow> getDosePK theanine dose = mkPK 1.1 25 50 7 1) \<and>
   (dose \<le> 1 \<longrightarrow> getDosePK nicotine dose = mkPK 2 5 15 3.5 12) \<and>
   (6 \<le> dose \<longrightarrow> getDosePK nicotine dose = mkPK 2 5 15 5 12) \<and>
   (dose \<le> 250 \<longrightarrow> getDosePK tyrosine dose = mkPK 1.8 30 75 4 2) \<and>
   (1000 \<le> dose \<longrightarrow> getDosePK tyrosine dose = mkPK 2.5 30 120 6 2) \<and>
   (dose \<le> 25 \<longrightarrow> getDosePK flmodafinil dose = mkPK 12 15 180 14 3) \<and>
   (100 \<le> dose \<longrightarrow> getDosePK flmodafinil dose = mkPK 15 25 300 18 3) \<and>
   (dose \<le> 25 \<longrightarrow> getDosePK bromantane dose = mkPK 11 90 165 24 1) \<and>
   (100 \<le> dose \<longrightarrow> getDosePK bromantane dose = mkPK 11 90 210 24 1) \<and>
   (dose \<le> 250 \<longrightarrow> getDosePK shilajit dose = mkPK 7 60 150 10 2) \<and>
   (500 \<le> dose \<longrightarrow> getDosePK shilajit dose = mkPK 7 60 210 14 2)"
  using caffeine_low caffeine_high theanine_low theanine_high nicotine_low nicotine_high
    tyrosine_low tyrosine_high flmodafinil_low flmodafinil_high bromantane_low bromantane_high
    shilajit_low shilajit_high
  by blast

theorem getDosePK_clamps_witness:
  "getDosePK caffeine 750 = mkPK 6.5 15 50 14.3 5 \<and>
   getDosePK caffeine 750 = getDosePK caffeine 400 \<and>
   getDosePK nicotine 0 = mkPK 2 5 15 3.5 12"
  using getDosePK_clamps_outside_anchors[of 750] getDosePK_clamps_outside_anchors[of 400]
    getDosePK_clamps_outside_anchors[of 0]
  by simp

text \<open>
  The claim as stated fails: at 750 mg of caffeine the parameter is \<open>t = 2\<close>, linear
  extrapolation of the half-life would give 8.5 h, and the code gives the anchor value
  6.5 h; no dose outside the anchors takes the half-life or the peak time of caffeine
  outside the anchor values.
\<close>

theorem extrapolation_counterexample:
  "lerp 4.5 6.5 ((750 - 50) / 350) = 6.5 \<and>
   4.5 + (6.5 - 4.5) * ((750 - 50) / 350) = (8.5::real) \<and>
   \<not> (\<exists>dose. (dose < 50 \<or> 400 < dose) \<and>
          (halfLife (getDosePK caffeine dose) < 4.5 \<or> 6.5 < halfLife (getDosePK caffeine dose) \<or>
           peakTime (getDosePK caffeine dose) < 40 \<or> 50 < peakTime (getDosePK caffeine dose)))"
proof -
  have "lerp 4.5 6.5 ((750 - 50) / 350) = 6.5" by (simp add: lerp_def)
  moreover have "4.5 + (6.5 - 4.5) * ((750 - 50) / 350) = (8.5::real)" by simp
  moreover have "\<not> (\<exists>dose. (dose < 50 \<or> 400 < dose) \<and>
          (halfLife (getDosePK caffeine dose) < 4.5 \<or> 6.5 < halfLife (getDosePK caffeine dose) \<or>
           peakTime (getDosePK caffeine dose) < 40 \<or> 50 < peakTime (getDosePK caffeine dose)))"
    using caffeine_halfLife_range caffeine_peakTime_range by (auto simp: not_less)
  ultimately show ?thesis by blast
qed

section \<open>Recomputation from an empty or partly unknown history (claims C8, C9)\<close>

lemmas nt_defs = defaultNeurotransmitters_def nt_adenosine_def nt_dopamine_def
  nt_serotonin_def nt_gaba_def mkReceptor_def

lemmas catalog_defs = substanceMap_def mkSubstanceMap_def substances_def caffeine_def
  theanine_def nicotine_def tyrosine_def flmodafinil_def bromantane_def shilajit_def

lemma recomputeOn_no_logs:
  "recomputeOn catalog defaults now hour [] = map (resetNT hour) defaults"
  by (simp add: recomputeOn_def)

text \<open>
  Claim C8. With an empty log history, for every hour of the day (no bound on \<open>h\<close> is
  needed), the snapshot holds the four neurotransmitters at their circadian level with
  status stable, and each receptor with sensitivity 100, an occupancy of the circadian
  level times the receptor's original occupancy over the baseline level, and no status
  effect.
\<close>

theorem recompute_no_logs_is_baseline:
  "map nt_id (recompute now h []) = [''adenosine'', ''dopamine'', ''serotonin'', ''gaba''] \<and>
   map currentLevel (recompute now h []) =
     [adenosine_getLevel h, dopamine_getLevel h, serotonin_getLevel h, gaba_getLevel h] \<and>
   map status (recompute now h []) = [Stable, Stable, Stable, Stable] \<and>
   map (map rc_id \<circ> receptors) (recompute now h []) =
     [[''a1'', ''a2a''], [''d1'', ''d2''], [''5ht1a'', ''5ht2a''], [''gabaa'', ''gabab'']] \<and>
   map (map sensitivity \<circ> receptors) (recompute now h []) =
     [[100, 100], [100, 100], [100, 100], [100, 100]] \<and>
   map (map occupancy \<circ> receptors) (recompute now h []) =
     [[adenosine_getLevel h * (20 / 20), adenosine_getLevel h * (20 / 20)],
      [dopamine_getLevel h * (50 / 60), dopamine_getLevel h * (50 / 60)],
      [serotonin_getLevel h * (50 / 55), serotonin_getLevel h * (50 / 55)],
      [gaba_getLevel h * (50 / 50), gaba_getLevel h * (50 / 50)]] \<and>
   map (map statusEffects \<circ> receptors) (recompute now h []) =
     [[[], []], [[], []], [[], []], [[], []]]"
  by (simp add: recompute_def recomputeOn_no_logs resetNT_def resetReceptor_def nt_defs)

theorem recompute_no_logs_witness:
  "map currentLevel (recompute 0 12 []) = [38, 70, 70, 45] \<and>
   map (map occupancy \<circ> receptors) (recompute 0 12 []) =
     [[38, 38], [175 / 3, 175 / 3], [700 / 11, 700 / 11], [45, 45]]"
  using recompute_no_logs_is_baseline[of 0 12]
  by (simp add: adenosine_getLevel_def dopamine_getLevel_def serotonin_getLevel_def
      gaba_getLevel_def)

lemma applyLog_unknown: "catalog (substanceId l) = None \<Longrightarrow> applyLog catalog now l = id"
  by (rule ext) (simp add: applyLog_def)

lemma recomputeOn_skip_unknown:
  assumes "catalog (substanceId l) = None"
  shows "recomputeOn catalog defaults now hour (xs @ l # ys) =
         recomputeOn catalog defaults now hour (xs @ ys)"
  using assms by (simp add: recomputeOn_def applyLog_unknown)

lemma recomputeOn_filter_known:
  "recomputeOn catalog defaults now hour (filter (\<lambda>l. catalog (substanceId l) \<noteq> None) logs) =
   recomputeOn catalog defaults now hour logs"
proof -
  have "fold (applyLog catalog now) (filter (\<lambda>l. catalog (substanceId l) \<noteq> None) ls) u =
        fold (applyLog catalog now) ls u" for ls u
    by (induction ls arbitrary: u) (auto simp: applyLog_unknown)
  moreover have
    "filter (\<lambda>l. expectedClearance l > now) (filter (\<lambda>l. catalog (substanceId l) \<noteq> None) logs) =
     filter (\<lambda>l. catalog (substanceId l) \<noteq> None) (filter (\<lambda>l. expectedClearance l > now) logs)"
    by (simp add: conj_commute)
  ultimately show ?thesis by (simp add: recomputeOn_def del: filter_filter)
qed


lemma substanceMap_modafinil: "substanceMap ''modafinil'' = None"
  by (simp add: catalog_defs)

text \<open>
  Claim C9. A log whose substance id is not in the catalog is skipped: the snapshot of a
  history is the snapshot of the same history with that log taken out, wherever the log
  stands in it; and so the snapshot of a history is the snapshot of its logs of known
  substances. The recomputation is a total function, so it never aborts.
\<close>

theorem recompute_skips_unknown_substance:
  "(substanceMap (substanceId l) = None \<longrightarrow>
      recompute now hour (xs @ l # ys) = recompute now hour (xs @ ys) \<and>
      neurotransmitters (updateNTLevels now hour (st\<lparr>substanceLogs := xs @ l # ys\<rparr>)) =
      neurotransmitters (updateNTLevels now hour (st\<lparr>substanceLogs := xs @ ys\<rparr>))) \<and>
   recompute now hour (filter (\<lambda>l. substanceMap (substanceId l) \<noteq> None) logs) =
     recompute now hour logs"
proof -
  have "recompute now hour (filter (\<lambda>l. substanceMap (substanceId l) \<noteq> None) logs) =
        recompute now hour logs"
    unfolding recompute_def by (rule recomputeOn_filter_known)
  then show ?thesis
    by (simp only: recompute_def updateNTLevels_def)
       (simp add: recomputeOn_skip_unknown)
qed

theorem recompute_skips_unknown_witness:
  "substanceMap ''modafinil'' = None \<and>
   recompute 0 12
     [\<lparr>log_id = ''a'', substanceId = ''modafinil'', dosage = 100, timestamp = 0,
        expectedClearance = 1000\<rparr>,
      \<lparr>log_id = ''b'', substanceId = ''caffeine'', dosage = 100, timestamp = 0,
        expectedClearance = 1000\<rparr>] =
   recompute 0 12
     [\<lparr>log_id = ''b'', substanceId = ''caffeine'', dosage = 100, timestamp = 0,
        expectedClearance = 1000\<rparr>]"
  using recompute_skips_unknown_substance[of
      "\<lparr>log_id = ''a'', substanceId = ''modafinil'', dosage = 100, timestamp = 0,
        expectedClearance = 1000\<rparr>" 0 12 "[]"
      "[\<lparr>log_id = ''b'', substanceId = ''caffeine'', dosage = 100, timestamp = 0,
        expectedClearance = 1000\<rparr>]"]
    substanceMap_modafinil
  by simp

section \<open>Every snapshot respects the ranges of the data model (claim C10)\<close>


lemma impactStep_range:
  assumes "impactsInRange impact" "0 \<le> magnitude i" "0 \<le> e"
  shows "impactsInRange (impactStep e i impact)"
proof -
  have m: "0 \<le> magnitude i * e / 100" using assms by simp
  show ?thesis
    using assms(1) m
    by (auto simp: impactsInRange_def impactStep_def Let_def split: option.splits)
qed

lemma fold_impactStep_range:
  "impactsInRange impact \<Longrightarrow> \<forall>i \<in> set is. 0 \<le> magnitude i \<Longrightarrow> 0 \<le> e \<Longrightarrow>
   impactsInRange (fold (impactStep e) is impact)"
  by (induction "is" arbitrary: impact) (simp_all add: impactStep_range)

lemma calculateReceptorImpact_range:
  "\<forall>i \<in> set is. 0 \<le> magnitude i \<Longrightarrow> 0 \<le> e \<Longrightarrow> impactsInRange (calculateReceptorImpact is e)"
  unfolding calculateReceptorImpact_def
  by (rule fold_impactStep_range) (simp_all add: impactsInRange_def)

lemma applyInteraction_range:
  assumes "0 \<le> impact" "0 \<le> fst st" "fst st \<le> 100" "receptorInRange r"
    and "applyInteraction ty impact st r = (st', r')"
  shows "0 \<le> fst st' \<and> fst st' \<le> 100 \<and> receptorInRange r'"
proof -
  obtain lvl stat where st: "st = (lvl, stat)" by (cases st)
  have p: "0 \<le> impact * 0.3" "0 \<le> impact * 0.15" "0 \<le> impact * 0.2" using assms(1) by simp_all
  show ?thesis
    using assms(2-5) p unfolding st
    by (cases ty) (auto simp: applyInteraction_def receptorInRange_def)
qed

lemma receptorStep_range:
  assumes "impactsInRange impacts" "0 \<le> fst st" "fst st \<le> 100" "receptorInRange r"
    and "receptorStep s impacts lg st r = (st', r')"
  shows "0 \<le> fst st' \<and> fst st' \<le> 100 \<and> receptorInRange r'"
proof (cases "impacts (rc_id r)")
  case None
  with assms show ?thesis by (simp add: receptorStep_def)
next
  case (Some impact)
  then have i: "0 \<le> impact" using assms(1) by (simp add: impactsInRange_def)
  show ?thesis
  proof (cases "find (\<lambda>i. receptorId i = rc_id r) (receptorInteractions s)")
    case None
    with Some assms show ?thesis by (simp add: receptorStep_def)
  next
    case (Some interaction)
    let ?pushed = "r\<lparr>statusEffects := statusEffects r @
        [\<lparr>se_type = ri_type interaction, source = sub_name s, se_magnitude = impact,
          startTime = timestamp lg\<rparr>]\<rparr>"
    have "receptorInRange ?pushed" using assms(4) by (simp add: receptorInRange_def)
    moreover have "applyInteraction (ri_type interaction) impact st ?pushed = (st', r')"
      using assms(5) Some \<open>impacts (rc_id r) = Some impact\<close> by (simp add: receptorStep_def Let_def)
    ultimately show ?thesis using applyInteraction_range[OF i assms(2,3)] by blast
  qed
qed

lemma receptorLoop_range:
  "impactsInRange impacts \<Longrightarrow> 0 \<le> fst st \<Longrightarrow> fst st \<le> 100 \<Longrightarrow> list_all receptorInRange rs \<Longrightarrow>
   receptorLoop s impacts lg st rs = (st', rs') \<Longrightarrow>
   0 \<le> fst st' \<and> fst st' \<le> 100 \<and> list_all receptorInRange rs'"
proof (induction rs arbitrary: st st' rs')
  case Nil
  then show ?case by simp
next
  case (Cons r rs)
  obtain st1 r1 where s1: "receptorStep s impacts lg st r = (st1, r1)" by (cases "receptorStep s impacts lg st r")
  obtain st2 rs2 where s2: "receptorLoop s impacts lg st1 rs = (st2, rs2)"
    by (cases "receptorLoop s impacts lg st1 rs")
  from Cons.prems have r: "receptorInRange r" and rs: "list_all receptorInRange rs" by simp_all
  from receptorStep_range[OF Cons.prems(1-3) r s1]
  have a: "0 \<le> fst st1" "fst st1 \<le> 100" "receptorInRange r1" by simp_all
  from Cons.IH[OF Cons.prems(1) a(1,2) rs s2]
  have b: "0 \<le> fst st2" "fst st2 \<le> 100" "list_all receptorInRange rs2" by simp_all
  from Cons.prems(5) s1 s2 have "st' = st2" "rs' = r1 # rs2" by simp_all
  with a b show ?case by simp
qed

lemma applyToNT_range:
  assumes "impactsInRange impacts" "ntInRange nt"
  shows "ntInRange (applyToNT s impacts lg nt)"
proof -
  obtain lvl stat rs where l: "receptorLoop s impacts lg (currentLevel nt, status nt) (receptors nt) = ((lvl, stat), rs)"
    by (metis surj_pair)
  from assms(2) have "0 \<le> fst (currentLevel nt, status nt)" "fst (currentLevel nt, status nt) \<le> 100"
    "list_all receptorInRange (receptors nt)" by (simp_all add: ntInRange_def)
  from receptorLoop_range[OF assms(1) this l] show ?thesis
    by (simp add: applyToNT_def l ntInRange_def)
qed

lemma applyLog_range:
  assumes cat: "\<And>sid s. catalog sid = Some s \<Longrightarrow> \<forall>i \<in> set (receptorInteractions s). 0 \<le> magnitude i"
    and "list_all ntInRange nts"
  shows "list_all ntInRange (applyLog catalog now lg nts)"
proof (cases "catalog (substanceId lg)")
  case None
  with assms(2) show ?thesis by (simp add: applyLog_def)
next
  case (Some s)
  show ?thesis
  proof (cases "getEffectiveness lg s now < 1")
    case True
    with Some assms(2) show ?thesis by (simp add: applyLog_def)
  next
    case False
    then have "0 \<le> getEffectiveness lg s now" by simp
    from calculateReceptorImpact_range[OF cat[OF Some] this]
    have "impactsInRange (calculateReceptorImpact (receptorInteractions s) (getEffectiveness lg s now))" .
    with assms(2) Some False show ?thesis
      by (simp add: applyLog_def Let_def list_all_iff applyToNT_range)
  qed
qed

lemma recomputeOn_range:
  assumes cat: "\<And>sid s. catalog sid = Some s \<Longrightarrow> \<forall>i \<in> set (receptorInteractions s). 0 \<le> magnitude i"
    and "list_all ntInRange (map (resetNT hour) defaults)"
  shows "list_all ntInRange (recomputeOn catalog defaults now hour logs)"
proof -
  have "list_all ntInRange nts \<Longrightarrow> list_all ntInRange (fold (applyLog catalog now) ls nts)" for ls nts
    by (induction ls arbitrary: nts) (simp_all add: applyLog_range[OF cat])
  with assms(2) show ?thesis by (simp add: recomputeOn_def Let_def)
qed

lemma adenosine_range: "10 \<le> adenosine_getLevel h \<and> adenosine_getLevel h \<le> 100"
  by (simp add: adenosine_getLevel_def Let_def)

lemma dopamine_range: "40 \<le> dopamine_getLevel h \<and> dopamine_getLevel h \<le> 70"
  by (auto simp: dopamine_getLevel_def field_simps)

lemma serotonin_range: "35 \<le> serotonin_getLevel h \<and> serotonin_getLevel h \<le> 70"
  by (auto simp: serotonin_getLevel_def field_simps)

lemma gaba_range: "45 \<le> gaba_getLevel h \<and> gaba_getLevel h \<le> 75"
  by (auto simp: gaba_getLevel_def field_simps)

lemma defaults_reset_range: "list_all ntInRange (map (resetNT hour) defaultNeurotransmitters)"
  using adenosine_range[of hour] dopamine_range[of hour] serotonin_range[of hour] gaba_range[of hour]
  by (simp add: nt_defs resetNT_def resetReceptor_def ntInRange_def receptorInRange_def)

lemma substanceMap_in_substances: "substanceMap sid = Some s \<Longrightarrow> s \<in> set substances"
  unfolding substanceMap_def mkSubstanceMap_def
  by (drule map_of_SomeD) auto

lemma catalog_magnitudes:
  "substanceMap sid = Some s \<Longrightarrow> \<forall>i \<in> set (receptorInteractions s). 0 \<le> magnitude i"
  by (drule substanceMap_in_substances)
     (auto simp: substances_def caffeine_def theanine_def nicotine_def tyrosine_def
        flmodafinil_def bromantane_def shilajit_def mkInteraction_def)



lemma applyInteraction_id: "rc_id (snd (applyInteraction ty impact st r)) = rc_id r"
  by (cases st; cases ty) (simp_all add: applyInteraction_def)

lemma receptorStep_id: "rc_id (snd (receptorStep s impacts lg st r)) = rc_id r"
  by (simp add: receptorStep_def Let_def applyInteraction_id split: option.split)

lemma receptorLoop_ids: "map rc_id (snd (receptorLoop s impacts lg st rs)) = map rc_id rs"
proof (induction rs arbitrary: st)
  case Nil
  show ?case by simp
next
  case (Cons r rs)
  obtain st1 r1 where s1: "receptorStep s impacts lg st r = (st1, r1)"
    by (cases "receptorStep s impacts lg st r")
  obtain st2 rs2 where s2: "receptorLoop s impacts lg st1 rs = (st2, rs2)"
    by (cases "receptorLoop s impacts lg st1 rs")
  from receptorStep_id[of s impacts lg st r] s1 have "rc_id r1 = rc_id r" by simp
  moreover from Cons.IH[of st1] s2 have "map rc_id rs2 = map rc_id rs" by simp
  ultimately show ?case by (simp add: s1 s2)
qed

lemma applyToNT_shape: "ntShape (applyToNT s impacts lg nt) = ntShape nt"
proof -
  obtain lvl stat rs where l:
    "receptorLoop s impacts lg (currentLevel nt, status nt) (receptors nt) = ((lvl, stat), rs)"
    by (metis surj_pair)
  from receptorLoop_ids[of s impacts lg "(currentLevel nt, status nt)" "receptors nt"] l
  have "map rc_id rs = map rc_id (receptors nt)" by simp
  then show ?thesis by (simp add: applyToNT_def l ntShape_def)
qed

lemma applyLog_shape: "map ntShape (applyLog catalog now lg nts) = map ntShape nts"
  by (simp add: applyLog_def Let_def applyToNT_shape comp_def split: option.split)

lemma recomputeOn_shape:
  "map ntShape (recomputeOn catalog defaults now hour logs) = map ntShape defaults"
proof -
  have "map ntShape (fold (applyLog catalog now) ls nts) = map ntShape nts" for ls nts
    by (induction ls arbitrary: nts) (simp_all add: applyLog_shape)
  moreover have "map ntShape (map (resetNT hour) defaults) = map ntShape defaults"
    by (simp add: ntShape_def resetNT_def resetReceptor_def comp_def)
  ultimately show ?thesis by (simp add: recomputeOn_def Let_def)
qed

lemma default_shapes:
  "map ntShape defaultNeurotransmitters =
     [(''adenosine'', [''a1'', ''a2a''], adenosine_getLevel),
      (''dopamine'', [''d1'', ''d2''], dopamine_getLevel),
      (''serotonin'', [''5ht1a'', ''5ht2a''], serotonin_getLevel),
      (''gaba'', [''gabaa'', ''gabab''], gaba_getLevel)]"
  by (simp add: ntShape_def nt_defs)

text \<open>The second neurotransmitter of any snapshot is dopamine, and its first receptor is D1.\<close>

lemma snapshot_dopamine_d1:
  fixes res
  assumes "res = recomputeOn catalog defaultNeurotransmitters now hour logs"
  shows "res ! 1 \<in> set res" "hd (receptors (res ! 1)) \<in> set (receptors (res ! 1))"
    "rc_id (hd (receptors (res ! 1))) = ''d1''" "circadianRhythm (res ! 1) = dopamine_getLevel"
proof -
  have sh: "map ntShape res = map ntShape defaultNeurotransmitters"
    unfolding assms by (rule recomputeOn_shape)
  have "length (map ntShape res) = 4" unfolding sh default_shapes by simp
  then have len: "length res = 4" by simp
  show "res ! 1 \<in> set res" using len by simp
  have "ntShape (res ! 1) = map ntShape res ! 1" using len by simp
  also have "\<dots> = (''dopamine'', [''d1'', ''d2''], dopamine_getLevel)"
    unfolding sh default_shapes by simp
  finally have s1: "ntShape (res ! 1) = (''dopamine'', [''d1'', ''d2''], dopamine_getLevel)" .
  then have ids: "map rc_id (receptors (res ! 1)) = [''d1'', ''d2'']" by (simp add: ntShape_def)
  then show "hd (receptors (res ! 1)) \<in> set (receptors (res ! 1))" by (cases "receptors (res ! 1)") auto
  from ids show "rc_id (hd (receptors (res ! 1))) = ''d1''" by (cases "receptors (res ! 1)") auto
  from s1 show "circadianRhythm (res ! 1) = dopamine_getLevel" by (simp add: ntShape_def)
qed

text \<open>
  Claim C10. For every hour (no bound on it is needed), every time and every log history,
  each neurotransmitter of the snapshot has its current level in \<open>[0,100]\<close>, and each of
  its receptors has its sensitivity in \<open>[20,150]\<close> and its occupancy in \<open>[0,100]\<close>.
\<close>

theorem recompute_ranges:
  "\<forall>nt \<in> set (recompute now hour logs).
     0 \<le> currentLevel nt \<and> currentLevel nt \<le> 100 \<and>
     (\<forall>r \<in> set (receptors nt).
        20 \<le> sensitivity r \<and> sensitivity r \<le> 150 \<and> 0 \<le> occupancy r \<and> occupancy r \<le> 100)"
  using recomputeOn_range[of substanceMap hour defaultNeurotransmitters now logs,
      OF catalog_magnitudes defaults_reset_range]
  by (simp add: recompute_def list_all_iff ntInRange_def receptorInRange_def)

theorem recompute_ranges_witness:
  "recompute 2700000 12
      [\<lparr>log_id = ''k1'', substanceId = ''caffeine'', dosage = 100, timestamp = 0,
        expectedClearance = 77400000\<rparr>] ! 1
     \<in> set (recompute 2700000 12
      [\<lparr>log_id = ''k1'', substanceId = ''caffeine'', dosage = 100, timestamp = 0,
        expectedClearance = 77400000\<rparr>]) \<and>
   0 \<le> currentLevel (recompute 2700000 12
      [\<lparr>log_id = ''k1'', substanceId = ''caffeine'', dosage = 100, timestamp = 0,
        expectedClearance = 77400000\<rparr>] ! 1) \<and>
   currentLevel (recompute 2700000 12
      [\<lparr>log_id = ''k1'', substanceId = ''caffeine'', dosage = 100, timestamp = 0,
        expectedClearance = 77400000\<rparr>] ! 1) \<le> 100 \<and>
   sensitivity (hd (receptors (recompute 2700000 12
      [\<lparr>log_id = ''k1'', substanceId = ''caffeine'', dosage = 100, timestamp = 0,
        expectedClearance = 77400000\<rparr>] ! 1))) \<le> 150"
proof -
  let ?res = "recompute 2700000 12
      [\<lparr>log_id = ''k1'', substanceId = ''caffeine'', dosage = 100, timestamp = 0,
        expectedClearance = 77400000\<rparr>]"
  have m: "?res ! 1 \<in> set ?res" "hd (receptors (?res ! 1)) \<in> set (receptors (?res ! 1))"
    by (rule snapshot_dopamine_d1[OF recompute_def])+
  from recompute_ranges[of 2700000 12
      "[\<lparr>log_id = ''k1'', substanceId = ''caffeine'', dosage = 100, timestamp = 0,
        expectedClearance = 77400000\<rparr>]"] m
  show ?thesis by blast
qed

section \<open>Rounding to a double\<close>

text \<open>
  Integers are rounded to themselves; where the binade of a number is known, its double
  is computed by rounding an integer; and a number in the normal range is rounded with a
  relative error of at most \<open>2 ^ (- 53)\<close>.
\<close>

lemma two_powr_cancel: "2 powr of_int (52 - b) * 2 powr of_int (b - 52) = (1::real)"
proof -
  have "2 powr of_int (52 - b) * 2 powr of_int (b - 52) =
        (2::real) powr (of_int (52 - b) + of_int (b - 52))" by (rule powr_add[symmetric])
  also have "of_int (52 - b) + of_int (b - 52) = (0::real)" by simp
  finally show ?thesis by simp
qed

lemma roundToEven_of_int: "roundToEven (of_int z) = z"
  by (simp add: roundToEven_def)


lemma binade_eq:
  assumes "2 powr of_int e \<le> \<bar>x\<bar>" and "\<bar>x\<bar> < 2 powr of_int (e + 1)" and "- 1022 \<le> e"
  shows "binade x = e"
proof -
  have pos: "0 < \<bar>x\<bar>" using assms(1) powr_gt_zero[of 2 "of_int e"] by linarith
  have "of_int e \<le> log 2 \<bar>x\<bar>" using assms(1) pos by (simp add: le_log_iff)
  moreover have "log 2 \<bar>x\<bar> < of_int e + 1" using assms(2) pos by (simp add: log_less_iff)
  ultimately have "\<lfloor>log 2 \<bar>x\<bar>\<rfloor> = e" by (intro floor_unique) simp_all
  then show ?thesis using assms(3) by (simp add: binade_def)
qed

lemma two_powr_nat: "(2::real) powr of_int (int k) = 2 ^ k"
  unfolding of_int_of_nat_eq by (rule powr_realpow) simp

lemma two_powr_neg_nat: "(2::real) powr of_int (- int k) = 1 / 2 ^ k"
proof -
  have "(2::real) powr of_int (- int k) = 2 powr (- real k)" by simp
  also have "\<dots> = inverse (2 powr real k)" by (rule powr_minus)
  also have "2 powr real k = (2::real) ^ k" by (rule powr_realpow) simp
  finally show ?thesis by (simp only: inverse_eq_divide)
qed

lemma f64_eval:
  assumes "2 ^ e \<le> \<bar>x\<bar>" and "\<bar>x\<bar> < 2 ^ Suc e" and "e \<le> 52"
  shows "f64 x = of_int (roundToEven (x * 2 ^ (52 - e))) / 2 ^ (52 - e)"
proof -
  have s: "int e + 1 = int (Suc e)" by simp
  have a': "2 powr of_int (int e) \<le> \<bar>x\<bar>" unfolding two_powr_nat by (rule assms(1))
  have b': "\<bar>x\<bar> < 2 powr of_int (int e + 1)" unfolding s two_powr_nat by (rule assms(2))
  have be: "binade x = int e" by (rule binade_eq[OF a' b']) simp
  have c: "52 - int e = int (52 - e)" using assms(3) by simp
  have d: "int e - 52 = - int (52 - e)" using assms(3) by simp
  show ?thesis unfolding f64_def be c d two_powr_nat two_powr_neg_nat by (simp only: times_divide_eq_right mult_1_right)
qed

lemma f64_exact:
  assumes "x * 2 powr of_int (52 - binade x) = of_int n"
  shows "f64 x = x"
proof -
  have "f64 x = x * 2 powr of_int (52 - binade x) * 2 powr of_int (binade x - 52)"
    unfolding f64_def assms roundToEven_of_int ..
  also have "\<dots> = x * (2 powr of_int (52 - binade x) * 2 powr of_int (binade x - 52))" by simp
  also have "2 powr of_int (52 - binade x) * 2 powr of_int (binade x - 52) = (1::real)"
    by (rule two_powr_cancel)
  finally show ?thesis by simp
qed

lemma f64_of_int:
  assumes "\<bar>z\<bar> < 2 ^ 53"
  shows "f64 (of_int z) = of_int z"
proof (cases "z = 0")
  case True
  then show ?thesis by (simp add: f64_def roundToEven_def)
next
  case False
  let ?x = "of_int z :: real"
  have one: "1 \<le> \<bar>?x\<bar>" using False by (simp add: abs_if)
  have lt: "\<bar>?x\<bar> < 2 ^ 53" using assms by (metis of_int_abs of_int_less_numeral_power_cancel_iff)
  have "0 \<le> log 2 \<bar>?x\<bar>" using one by simp
  then have f0: "0 \<le> \<lfloor>log 2 \<bar>?x\<bar>\<rfloor>" by simp
  have "log 2 \<bar>?x\<bar> < 53"
    using lt one log_less_iff[of 2 "\<bar>?x\<bar>" 53] powr_realpow[of 2 53] by simp
  then have f1: "\<lfloor>log 2 \<bar>?x\<bar>\<rfloor> \<le> 52" by (simp add: floor_le_iff)
  have b: "binade ?x = \<lfloor>log 2 \<bar>?x\<bar>\<rfloor>" using f0 by (simp add: binade_def)
  define k where "k = nat (52 - binade ?x)"
  have k: "52 - binade ?x = int k" using f1 b by (simp add: k_def)
  have "?x * 2 powr of_int (52 - binade ?x) = of_int (z * 2 ^ k)"
    unfolding k two_powr_nat by simp
  then show ?thesis by (rule f64_exact)
qed

lemma f64_of_nat: "n < 2 ^ 53 \<Longrightarrow> f64 (real n) = real n"
  using f64_of_int[of "int n"] by simp



lemma f64_41: "f64 4.1 = 4616189618054758 / 2 ^ 50"
  by (subst f64_eval[of 2]) (simp_all add: roundToEven_def Let_def)

lemma f64_99: "f64 9.9 = 5573204538870989 / 2 ^ 49"
  by (subst f64_eval[of 3]) (simp_all add: roundToEven_def Let_def)




section \<open>A log's clearance time is set once (claim C5)\<close>

lemma updateNTLevels_logs: "substanceLogs (updateNTLevels now hour st) = substanceLogs st"
  by (simp add: updateNTLevels_def)

lemma updateNTLevels_snapshot:
  "neurotransmitters (updateNTLevels now hour st) = recompute now hour (substanceLogs st)"
  by (simp add: updateNTLevels_def)








lemma caffeine_50: "getDosePK caffeine 50 = mkPK 4.5 15 40 9.9 5"
  by (rule caffeine_low) simp






section \<open>Impacts are capped per substance only (claim C3)\<close>


lemma calculateReceptorImpact_snoc:
  "calculateReceptorImpact (is @ [i]) e = impactStep e i (calculateReceptorImpact is e)"
  by (simp add: calculateReceptorImpact_def)

lemma min_cap_add: "0 \<le> (m::real) \<Longrightarrow> min (min s 100 + m) 100 = min (s + m) 100"
  by (simp add: min_def)

lemma calculateReceptorImpact_closed:
  assumes "\<forall>i \<in> set is. 0 \<le> magnitude i" "0 \<le> e"
  shows "calculateReceptorImpact is e r =
           (if r \<in> receptorId ` set is
            then Some (min (\<Sum>i \<leftarrow> filter (\<lambda>i. receptorId i = r) is. magnitude i * e / 100) 100)
            else None)"
  using assms(1)
proof (induction "is" arbitrary: r rule: rev_induct)
  case Nil
  show ?case by (simp add: calculateReceptorImpact_def)
next
  case (snoc i "is")
  then have IH: "calculateReceptorImpact is e r' =
           (if r' \<in> receptorId ` set is
            then Some (min (\<Sum>i \<leftarrow> filter (\<lambda>i. receptorId i = r') is. magnitude i * e / 100) 100)
            else None)" for r' by simp
  have m: "0 \<le> magnitude i * e / 100" using snoc.prems assms(2) by simp
  have e0: "r' \<notin> receptorId ` set is \<Longrightarrow> filter (\<lambda>i. receptorId i = r') is = []" for r'
    by (auto simp: filter_empty_conv)
  show ?case
  proof (cases "r = receptorId i")
    case True
    show ?thesis
    proof (cases "r \<in> receptorId ` set is")
      case True
      with \<open>r = receptorId i\<close> m show ?thesis
        by (simp add: calculateReceptorImpact_snoc impactStep_def Let_def IH min_cap_add)
    next
      case False
      with \<open>r = receptorId i\<close> e0[of r] show ?thesis
        by (simp add: calculateReceptorImpact_snoc impactStep_def Let_def IH)
    qed
  next
    case False
    then show ?thesis
      by (simp add: calculateReceptorImpact_snoc impactStep_def Let_def IH)
  qed
qed

lemma scenario_impact:
  "calculateReceptorImpact [mkInteraction r n ty m] 100 = [r \<mapsto> min m 100]"
  by (simp add: calculateReceptorImpact_def impactStep_def mkInteraction_def)

lemma receptorStep_single_agonist:
  assumes "receptorInteractions s = [mkInteraction r n Agonist mag]"
    and "impacts = [r \<mapsto> mag]"
  shows "receptorStep s impacts lg (lvl, stat) rc =
           (if rc_id rc = r
            then ((min (lvl + mag * 0.3) 100, Enhanced),
                  rc\<lparr>statusEffects := statusEffects rc @
                     [\<lparr>se_type = Agonist, source = sub_name s, se_magnitude = mag,
                       startTime = timestamp lg\<rparr>]\<rparr>)
            else ((lvl, stat), rc))"
  using assms by (simp add: receptorStep_def mkInteraction_def applyInteraction_def Let_def)

lemma receptorLoop_single_agonist:
  assumes "receptorInteractions s = [mkInteraction r n Agonist mag]"
    and "impacts = [r \<mapsto> mag]"
  shows "receptorLoop s impacts lg (lvl, stat) rs =
           ((fold (\<lambda>rc x. if rc_id rc = r then min (x + mag * 0.3) 100 else x) rs lvl,
             fold (\<lambda>rc x. if rc_id rc = r then Enhanced else x) rs stat),
            map (\<lambda>rc. if rc_id rc = r
                      then rc\<lparr>statusEffects := statusEffects rc @
                             [\<lparr>se_type = Agonist, source = sub_name s, se_magnitude = mag,
                               startTime = timestamp lg\<rparr>]\<rparr>
                      else rc) rs)"
proof (induction rs arbitrary: lvl stat)
  case Nil
  show ?case by simp
next
  case (Cons rc rs)
  show ?case
    by (cases "rc_id rc = r") (simp_all add: receptorStep_single_agonist[OF assms] Cons.IH)
qed

lemma applyToNT_single_agonist:
  assumes "receptorInteractions s = [mkInteraction r n Agonist mag]"
    and "impacts = [r \<mapsto> mag]"
  shows "applyToNT s impacts lg =
           (\<lambda>nt. nt\<lparr>currentLevel :=
                fold (\<lambda>rc x. if rc_id rc = r then min (x + mag * 0.3) 100 else x) (receptors nt)
                  (currentLevel nt),
              status := fold (\<lambda>rc x. if rc_id rc = r then Enhanced else x) (receptors nt) (status nt),
              receptors := map (\<lambda>rc. if rc_id rc = r
                      then rc\<lparr>statusEffects := statusEffects rc @
                             [\<lparr>se_type = Agonist, source = sub_name s, se_magnitude = mag,
                               startTime = timestamp lg\<rparr>]\<rparr>
                      else rc) (receptors nt)\<rparr>)"
  by (rule ext) (simp add: applyToNT_def receptorLoop_single_agonist[OF assms])


lemma fold_cond_absent:
  "r \<notin> rc_id ` set rs \<Longrightarrow> fold (\<lambda>rc x. if rc_id rc = r then F x else x) rs x = x"
  by (induction rs arbitrary: x) auto

lemma fold_cond_once:
  "distinct (map rc_id rs) \<Longrightarrow> r \<in> rc_id ` set rs \<Longrightarrow>
   fold (\<lambda>rc x. if rc_id rc = r then F x else x) rs x = F x"
proof (induction rs arbitrary: x)
  case Nil
  then show ?case by simp
next
  case (Cons rc rs)
  show ?case
  proof (cases "rc_id rc = r")
    case True
    with Cons.prems have "r \<notin> rc_id ` set rs" by auto
    with True show ?thesis by (simp add: fold_cond_absent)
  next
    case False
    with Cons show ?thesis by auto
  qed
qed

lemma defaults_distinct_receptors:
  "base \<in> set defaultNeurotransmitters \<Longrightarrow> distinct (map rc_id (receptors base))"
  by (auto simp: nt_defs)

lemma single_agonist_fields:
  assumes i: "receptorInteractions s = [mkInteraction r n Agonist mag]"
    and d: "distinct (map rc_id (receptors nt))"
  shows "map rc_id (receptors (applyToNT s [r \<mapsto> mag] lg nt)) = map rc_id (receptors nt)"
    and "currentLevel (applyToNT s [r \<mapsto> mag] lg nt) =
           (if r \<in> rc_id ` set (receptors nt) then min (currentLevel nt + mag * 0.3) 100
            else currentLevel nt)"
    and "status (applyToNT s [r \<mapsto> mag] lg nt) =
           (if r \<in> rc_id ` set (receptors nt) then Enhanced else status nt)"
    and "circadianRhythm (applyToNT s [r \<mapsto> mag] lg nt) = circadianRhythm nt"
    and "map (\<lambda>rc. (rc_id rc, statusEffects rc)) (receptors (applyToNT s [r \<mapsto> mag] lg nt)) =
           map (\<lambda>(i, es). (i, if i = r
                      then es @
                        [\<lparr>se_type = Agonist, source = sub_name s, se_magnitude = mag,
                          startTime = timestamp lg\<rparr>]
                      else es)) (map (\<lambda>rc. (rc_id rc, statusEffects rc)) (receptors nt))"
proof -
  note eq = applyToNT_single_agonist[OF i refl, of lg]
  show "map rc_id (receptors (applyToNT s [r \<mapsto> mag] lg nt)) = map rc_id (receptors nt)"
    by (simp add: eq comp_def if_distrib[where f = rc_id])
  show "currentLevel (applyToNT s [r \<mapsto> mag] lg nt) =
           (if r \<in> rc_id ` set (receptors nt) then min (currentLevel nt + mag * 0.3) 100
            else currentLevel nt)"
    using fold_cond_once[OF d, of r "\<lambda>x. min (x + mag * 0.3) 100" "currentLevel nt"]
      fold_cond_absent[of r "receptors nt" "\<lambda>x. min (x + mag * 0.3) 100" "currentLevel nt"]
    by (simp add: eq)
  show "status (applyToNT s [r \<mapsto> mag] lg nt) =
           (if r \<in> rc_id ` set (receptors nt) then Enhanced else status nt)"
    using fold_cond_once[OF d, of r "\<lambda>x. Enhanced" "status nt"]
      fold_cond_absent[of r "receptors nt" "\<lambda>x. Enhanced" "status nt"]
    by (simp add: eq)
  show "circadianRhythm (applyToNT s [r \<mapsto> mag] lg nt) = circadianRhythm nt"
    by (simp add: eq)
  show "map (\<lambda>rc. (rc_id rc, statusEffects rc)) (receptors (applyToNT s [r \<mapsto> mag] lg nt)) =
           map (\<lambda>(i, es). (i, if i = r
                      then es @
                        [\<lparr>se_type = Agonist, source = sub_name s, se_magnitude = mag,
                          startTime = timestamp lg\<rparr>]
                      else es)) (map (\<lambda>rc. (rc_id rc, statusEffects rc)) (receptors nt))"
    by (simp add: eq comp_def if_distrib[where f = statusEffects] if_distrib[where f = rc_id])
qed

lemma resetNT_fields:
  "map rc_id (receptors (resetNT hour base)) = map rc_id (receptors base)"
  "currentLevel (resetNT hour base) = circadianRhythm base hour"
  "status (resetNT hour base) = Stable"
  "circadianRhythm (resetNT hour base) = circadianRhythm base"
  "map (\<lambda>rc. (rc_id rc, statusEffects rc)) (receptors (resetNT hour base)) =
     map (\<lambda>rc. (rc_id rc, [])) (receptors base)"
  "map sensitivity (receptors (resetNT hour base)) = map (\<lambda>rc. 100) (receptors base)"
  by (simp_all add: resetNT_def resetReceptor_def comp_def)


text \<open>
  The status effects that one round pushes: each receptor keeps its id and gets, at the
  end of its array, what \<open>pushedEffects\<close> says for its id, whatever the array held before.
\<close>

lemma receptorStep_effects:
  "rc_id (snd (receptorStep s impacts lg st rc)) = rc_id rc \<and>
   statusEffects (snd (receptorStep s impacts lg st rc)) =
     statusEffects rc @ pushedEffects s impacts lg (rc_id rc)"
  by (cases st)
    (simp add: receptorStep_def pushedEffects_def applyInteraction_def Let_def
      split: option.splits StatusEffectType.splits)

lemma receptorLoop_effects:
  "map (\<lambda>rc. (rc_id rc, statusEffects rc)) (snd (receptorLoop s impacts lg st rs)) =
   map (\<lambda>rc. (rc_id rc, statusEffects rc @ pushedEffects s impacts lg (rc_id rc))) rs"
proof (induction rs arbitrary: st)
  case Nil
  show ?case by simp
next
  case (Cons rc rs)
  obtain st' rc' where a: "receptorStep s impacts lg st rc = (st', rc')"
    by (cases "receptorStep s impacts lg st rc")
  obtain st'' rs' where b: "receptorLoop s impacts lg st' rs = (st'', rs')"
    by (cases "receptorLoop s impacts lg st' rs")
  from receptorStep_effects[of s impacts lg st rc] a
  have c: "rc_id rc' = rc_id rc"
    "statusEffects rc' = statusEffects rc @ pushedEffects s impacts lg (rc_id rc)" by simp_all
  from Cons.IH[of st'] b
  have d: "map (\<lambda>rc. (rc_id rc, statusEffects rc)) rs' =
      map (\<lambda>rc. (rc_id rc, statusEffects rc @ pushedEffects s impacts lg (rc_id rc))) rs" by simp
  show ?case by (simp add: a b c d)
qed

lemma applyToNT_effects:
  "receptorEffects (applyToNT s impacts lg nt) =
   map (\<lambda>(i, es). (i, es @ pushedEffects s impacts lg i)) (receptorEffects nt)"
proof -
  obtain lvl stat rs where
    a: "receptorLoop s impacts lg (currentLevel nt, status nt) (receptors nt) = ((lvl, stat), rs)"
    by (cases "receptorLoop s impacts lg (currentLevel nt, status nt) (receptors nt)") auto
  from receptorLoop_effects[of s impacts lg "(currentLevel nt, status nt)" "receptors nt"] a
  show ?thesis by (simp add: applyToNT_def receptorEffects_def comp_def)
qed

lemma applyLog_effects:
  "map receptorEffects (applyLog catalog now lg nts) =
   map (\<lambda>nt. map (\<lambda>(i, es). (i, es @ logEffects catalog now lg i)) (receptorEffects nt)) nts"
proof (cases "catalog (substanceId lg)")
  case None
  then show ?thesis by (simp add: applyLog_def logEffects_def case_prod_unfold)
next
  case (Some s)
  show ?thesis
  proof (cases "getEffectiveness lg s now < 1")
    case True
    with Some show ?thesis by (simp add: applyLog_def logEffects_def case_prod_unfold)
  next
    case False
    with Some show ?thesis
      by (simp add: applyLog_def logEffects_def Let_def comp_def applyToNT_effects)
  qed
qed

lemma applyLogs_effects:
  "map receptorEffects (fold (applyLog catalog now) ls nts) =
   map (\<lambda>nt. map (\<lambda>(i, es). (i, es @ concat (map (\<lambda>l. logEffects catalog now l i) ls)))
               (receptorEffects nt)) nts"
proof (induction ls arbitrary: nts)
  case Nil
  show ?case by (simp add: case_prod_unfold)
next
  case (Cons l ls)
  have "map receptorEffects (fold (applyLog catalog now) (l # ls) nts) =
        map (\<lambda>nt. map (\<lambda>(i, es). (i, es @ concat (map (\<lambda>l. logEffects catalog now l i) ls)))
               (receptorEffects nt)) (applyLog catalog now l nts)"
    using Cons.IH[of "applyLog catalog now l nts"] by simp
  also have "\<dots> =
        map (map (\<lambda>(i, es). (i, es @ concat (map (\<lambda>l. logEffects catalog now l i) ls))))
          (map receptorEffects (applyLog catalog now l nts))"
    by (simp add: comp_def)
  finally show ?case
    unfolding applyLog_effects by (simp add: comp_def case_prod_unfold)
qed

lemma resetNT_effects:
  "receptorEffects (resetNT hour base) = map (\<lambda>rc. (rc_id rc, [])) (receptors base)"
  by (simp add: receptorEffects_def resetNT_def resetReceptor_def comp_def)

lemma recomputeOn_effects:
  assumes nt: "nt \<in> set (recomputeOn catalog defaults now hour logs)"
    and rc: "rc \<in> set (receptors nt)"
  shows "statusEffects rc =
           concat (map (\<lambda>l. logEffects catalog now l (rc_id rc))
                    (filter (\<lambda>l. now < expectedClearance l) logs))"
proof -
  let ?act = "filter (\<lambda>l. now < expectedClearance l) logs"
  let ?res = "recomputeOn catalog defaults now hour logs"
  have eq: "map receptorEffects ?res =
      map (\<lambda>base. map (\<lambda>rc. (rc_id rc, concat (map (\<lambda>l. logEffects catalog now l (rc_id rc)) ?act)))
                    (receptors base)) defaults"
    unfolding recomputeOn_def Let_def applyLogs_effects
    by (simp add: comp_def resetNT_effects)
  from nt have "receptorEffects nt \<in> set (map receptorEffects ?res)" by simp
  then obtain base where
    b: "receptorEffects nt =
          map (\<lambda>rc. (rc_id rc, concat (map (\<lambda>l. logEffects catalog now l (rc_id rc)) ?act)))
            (receptors base)" and "base \<in> set defaults"
    unfolding eq set_map by (rule imageE)
  from rc have "(rc_id rc, statusEffects rc) \<in> set (receptorEffects nt)"
    unfolding receptorEffects_def by (simp add: image_iff) blast
  then show ?thesis unfolding b by auto
qed

text \<open>
  Two substances whose only interaction is an agonist one on the same receptor, of
  magnitudes \<open>m1\<close> and \<open>m2\<close> within the range of the data model.
\<close>

lemma scenario_nt:
  assumes i1: "receptorInteractions s1 = [mkInteraction r n1 Agonist m1]"
    and i2: "receptorInteractions s2 = [mkInteraction r n2 Agonist m2]"
    and m2: "0 \<le> m2"
    and d: "distinct (map rc_id (receptors base))"
    and nt: "nt = applyToNT s2 [r \<mapsto> m2] l2 (applyToNT s1 [r \<mapsto> m1] l1 (resetNT hour base))"
    and rc: "rc \<in> set (receptors nt)"
  shows "if rc_id rc = r
         then statusEffects rc =
                [\<lparr>se_type = Agonist, source = sub_name s1, se_magnitude = m1, startTime = timestamp l1\<rparr>,
                 \<lparr>se_type = Agonist, source = sub_name s2, se_magnitude = m2, startTime = timestamp l2\<rparr>] \<and>
              currentLevel nt = min (circadianRhythm nt hour + (m1 + m2) * 0.3) 100 \<and>
              status nt = Enhanced
         else statusEffects rc = []"
proof -
  let ?nt0 = "resetNT hour base"
  let ?nt1 = "applyToNT s1 [r \<mapsto> m1] l1 ?nt0"
  have d0: "distinct (map rc_id (receptors ?nt0))" using d by (simp only: resetNT_fields)
  note f1 = single_agonist_fields[OF i1 d0, of l1]
  have d1: "distinct (map rc_id (receptors ?nt1))" using d by (simp only: f1 resetNT_fields)
  note f2 = single_agonist_fields[OF i2 d1, of l2]
  have ids: "rc_id ` set (receptors ?nt1) = rc_id ` set (receptors base)"
    "rc_id ` set (receptors ?nt0) = rc_id ` set (receptors base)"
    using f1(1) resetNT_fields(1)[of hour base] by (metis set_map)+
  have pairs: "map (\<lambda>rc. (rc_id rc, statusEffects rc)) (receptors nt) =
      map (\<lambda>rb. (rc_id rb, if rc_id rb = r
             then [\<lparr>se_type = Agonist, source = sub_name s1, se_magnitude = m1, startTime = timestamp l1\<rparr>,
                   \<lparr>se_type = Agonist, source = sub_name s2, se_magnitude = m2, startTime = timestamp l2\<rparr>]
             else [])) (receptors base)"
    unfolding nt f2(5) f1(5) resetNT_fields(5) by (simp add: comp_def)
  from rc have "(rc_id rc, statusEffects rc) \<in> set (map (\<lambda>rc. (rc_id rc, statusEffects rc)) (receptors nt))"
    by (simp add: image_iff) blast
  then obtain rb where rb: "rb \<in> set (receptors base)" "rc_id rc = rc_id rb"
    "statusEffects rc = (if rc_id rb = r
             then [\<lparr>se_type = Agonist, source = sub_name s1, se_magnitude = m1, startTime = timestamp l1\<rparr>,
                   \<lparr>se_type = Agonist, source = sub_name s2, se_magnitude = m2, startTime = timestamp l2\<rparr>]
             else [])"
    unfolding pairs by auto
  have lvl: "r \<in> rc_id ` set (receptors base) \<Longrightarrow>
      currentLevel nt = min (min (circadianRhythm base hour + m1 * 0.3) 100 + m2 * 0.3) 100"
    unfolding nt f2(2) f1(2) ids resetNT_fields by simp
  have stat: "r \<in> rc_id ` set (receptors base) \<Longrightarrow> status nt = Enhanced"
    unfolding nt f2(3) ids by simp
  have circ: "circadianRhythm nt = circadianRhythm base"
    unfolding nt f2(4) f1(4) resetNT_fields ..
  have cap: "min (min (c + m1 * 0.3) 100 + m2 * 0.3) 100 = min (c + (m1 + m2) * 0.3) 100" for c :: real
  proof -
    have "0 \<le> m2 * 0.3" using m2 by simp
    from min_cap_add[OF this, of "c + m1 * 0.3"]
    have X: "min (min (c + m1 * 0.3) 100 + m2 * 0.3) 100 = min (c + m1 * 0.3 + m2 * 0.3) 100" .
    have Y: "c + m1 * 0.3 + m2 * 0.3 = c + (m1 + m2) * 0.3" by (simp add: algebra_simps)
    show ?thesis unfolding X Y ..
  qed
  show ?thesis
  proof (cases "rc_id rc = r")
    case True
    with rb have "r \<in> rc_id ` set (receptors base)" by auto
    from lvl[OF this, unfolded cap] stat[OF this] rb True circ show ?thesis by simp
  next
    case False
    with rb show ?thesis by simp
  qed
qed

lemma scenario:
  assumes c1: "catalog (substanceId l1) = Some s1" and c2: "catalog (substanceId l2) = Some s2"
    and i1: "receptorInteractions s1 = [mkInteraction r n1 Agonist m1]"
    and i2: "receptorInteractions s2 = [mkInteraction r n2 Agonist m2]"
    and m1: "0 \<le> m1" "m1 \<le> 100" and m2: "0 \<le> m2" "m2 \<le> 100"
    and a1: "expectedClearance l1 > now" and a2: "expectedClearance l2 > now"
    and e1: "getEffectiveness l1 s1 now = 100" and e2: "getEffectiveness l2 s2 now = 100"
  shows "\<forall>nt \<in> set (recomputeOn catalog defaultNeurotransmitters now hour [l1, l2]).
           \<forall>rc \<in> set (receptors nt).
             if rc_id rc = r
             then statusEffects rc =
                    [\<lparr>se_type = Agonist, source = sub_name s1, se_magnitude = m1, startTime = timestamp l1\<rparr>,
                     \<lparr>se_type = Agonist, source = sub_name s2, se_magnitude = m2, startTime = timestamp l2\<rparr>] \<and>
                  currentLevel nt = min (circadianRhythm nt hour + (m1 + m2) * 0.3) 100 \<and>
                  status nt = Enhanced
             else statusEffects rc = []"
proof (intro ballI)
  fix nt rc
  assume nt: "nt \<in> set (recomputeOn catalog defaultNeurotransmitters now hour [l1, l2])"
    and rc: "rc \<in> set (receptors nt)"
  have im1: "calculateReceptorImpact (receptorInteractions s1) 100 = [r \<mapsto> m1]"
    unfolding i1 scenario_impact using m1 by simp
  have im2: "calculateReceptorImpact (receptorInteractions s2) 100 = [r \<mapsto> m2]"
    unfolding i2 scenario_impact using m2 by simp
  have "recomputeOn catalog defaultNeurotransmitters now hour [l1, l2] =
     map (\<lambda>base. applyToNT s2 [r \<mapsto> m2] l2 (applyToNT s1 [r \<mapsto> m1] l1 (resetNT hour base)))
       defaultNeurotransmitters"
    using a1 a2 c1 c2 e1 e2 im1 im2 by (simp add: recomputeOn_def applyLog_def comp_def)
  with nt obtain base where base: "base \<in> set defaultNeurotransmitters"
    and eq: "nt = applyToNT s2 [r \<mapsto> m2] l2 (applyToNT s1 [r \<mapsto> m1] l1 (resetNT hour base))"
    by auto
  from scenario_nt[OF i1 i2 m2(1) defaults_distinct_receptors[OF base] eq rc]
  show "if rc_id rc = r
             then statusEffects rc =
                    [\<lparr>se_type = Agonist, source = sub_name s1, se_magnitude = m1, startTime = timestamp l1\<rparr>,
                     \<lparr>se_type = Agonist, source = sub_name s2, se_magnitude = m2, startTime = timestamp l2\<rparr>] \<and>
                  currentLevel nt = min (circadianRhythm nt hour + (m1 + m2) * 0.3) 100 \<and>
                  status nt = Enhanced
             else statusEffects rc = []" .
qed

text \<open>
  The catalog's own instance: nicotine and flmodafinil are both agonists of D1, with
  magnitudes 55 and 50. When a log of each is fully effective, the snapshot's dopamine
  carries both status effects on D1, 105 in all, and the three dopamine impacts
  (nicotine acts on D2 as well, with 45) all raise its level.
\<close>

lemma substanceMap_nicotine: "substanceMap ''nicotine'' = Some nicotine"
  by (simp add: catalog_defs)

lemma substanceMap_flmodafinil: "substanceMap ''flmodafinil'' = Some flmodafinil"
  by (simp add: catalog_defs)

lemma nicotine_impacts:
  "calculateReceptorImpact (receptorInteractions nicotine) 100 = [''d1'' \<mapsto> 55, ''d2'' \<mapsto> 45]"
  by (simp add: calculateReceptorImpact_def impactStep_def nicotine_def mkInteraction_def)

lemma flmodafinil_impacts:
  "calculateReceptorImpact (receptorInteractions flmodafinil) 100 =
     [''d1'' \<mapsto> 50, ''a2a'' \<mapsto> 25, ''5ht1a'' \<mapsto> 12]"
  by (simp add: calculateReceptorImpact_def impactStep_def flmodafinil_def mkInteraction_def)

lemma nicotine_flmodafinil_dopamine:
  assumes "substanceId k1 = ''nicotine''" and "substanceId k2 = ''flmodafinil''"
    and "expectedClearance k1 > now" and "expectedClearance k2 > now"
    and "getEffectiveness k1 nicotine now = 100" and "getEffectiveness k2 flmodafinil now = 100"
  shows "receptorEffects (recompute now hour [k1, k2] ! 1) =
           [(''d1'', [\<lparr>se_type = Agonist, source = ''Nicotine'', se_magnitude = 55,
                       startTime = timestamp k1\<rparr>,
                     \<lparr>se_type = Agonist, source = ''Flmodafinil'', se_magnitude = 50,
                       startTime = timestamp k2\<rparr>]),
            (''d2'', [\<lparr>se_type = Agonist, source = ''Nicotine'', se_magnitude = 45,
                       startTime = timestamp k1\<rparr>])]"
    and "currentLevel (recompute now hour [k1, k2] ! 1) =
           min (dopamine_getLevel hour + (55 + 45 + 50) * 0.3) 100"
proof -
  have R: "recompute now hour [k1, k2] ! 1 =
      applyToNT flmodafinil [''d1'' \<mapsto> 50, ''a2a'' \<mapsto> 25, ''5ht1a'' \<mapsto> 12] k2
        (applyToNT nicotine [''d1'' \<mapsto> 55, ''d2'' \<mapsto> 45] k1 (resetNT hour nt_dopamine))"
    using assms
    by (simp add: recompute_def recomputeOn_def applyLog_def defaultNeurotransmitters_def
        substanceMap_nicotine substanceMap_flmodafinil nicotine_impacts flmodafinil_impacts)
  have N: "applyToNT nicotine [''d1'' \<mapsto> 55, ''d2'' \<mapsto> 45] k1 (resetNT hour nt_dopamine) =
      (resetNT hour nt_dopamine)\<lparr>currentLevel := min (min (dopamine_getLevel hour + 16.5) 100 + 13.5) 100,
         status := Enhanced,
         receptors :=
           [(resetReceptor nt_dopamine hour (mkReceptor ''d1'' ''D1'' ''D1 (Motivation)'' 100 50))
              \<lparr>statusEffects := [\<lparr>se_type = Agonist, source = ''Nicotine'', se_magnitude = 55,
                       startTime = timestamp k1\<rparr>]\<rparr>,
            (resetReceptor nt_dopamine hour (mkReceptor ''d2'' ''D2'' ''D2 (Reward)'' 100 50))
              \<lparr>statusEffects := [\<lparr>se_type = Agonist, source = ''Nicotine'', se_magnitude = 45,
                       startTime = timestamp k1\<rparr>]\<rparr>]\<rparr>"
    by (simp add: applyToNT_def receptorStep_def applyInteraction_def Let_def nicotine_def
        mkInteraction_def resetNT_def resetReceptor_def nt_dopamine_def mkReceptor_def)
  have F: "receptorEffects (recompute now hour [k1, k2] ! 1) =
           [(''d1'', [\<lparr>se_type = Agonist, source = ''Nicotine'', se_magnitude = 55,
                       startTime = timestamp k1\<rparr>,
                     \<lparr>se_type = Agonist, source = ''Flmodafinil'', se_magnitude = 50,
                       startTime = timestamp k2\<rparr>]),
            (''d2'', [\<lparr>se_type = Agonist, source = ''Nicotine'', se_magnitude = 45,
                       startTime = timestamp k1\<rparr>])] \<and>
     currentLevel (recompute now hour [k1, k2] ! 1) =
       min (min (min (dopamine_getLevel hour + 16.5) 100 + 13.5) 100 + 15) 100"
    unfolding R N
    by (simp add: applyToNT_def receptorStep_def applyInteraction_def Let_def flmodafinil_def
        mkInteraction_def resetNT_def resetReceptor_def nt_dopamine_def mkReceptor_def
        receptorEffects_def)
  from F show "receptorEffects (recompute now hour [k1, k2] ! 1) =
           [(''d1'', [\<lparr>se_type = Agonist, source = ''Nicotine'', se_magnitude = 55,
                       startTime = timestamp k1\<rparr>,
                     \<lparr>se_type = Agonist, source = ''Flmodafinil'', se_magnitude = 50,
                       startTime = timestamp k2\<rparr>]),
            (''d2'', [\<lparr>se_type = Agonist, source = ''Nicotine'', se_magnitude = 45,
                       startTime = timestamp k1\<rparr>])]" by simp
  from F show "currentLevel (recompute now hour [k1, k2] ! 1) =
           min (dopamine_getLevel hour + (55 + 45 + 50) * 0.3) 100"
    by (simp add: min_def)
qed
text \<open>
  Claim C3. For interactions of magnitude at least 0 and an effectiveness at least 0, the
  impact on a receptor is the sum of the substance's own interactions on that receptor,
  each scaled by \<open>effectivenessPercent / 100\<close>, capped at 100. Across substances there is
  no cap, in four statements. For every catalog, history and time, the status effects of a
  receptor are those that each active log pushes by itself, in history order: the
  magnitude recorded for a log is the impact of its own substance and does not depend on
  the other logs. When the active logs are those of two fully effective substances whose
  only interaction is an agonist one on the same receptor, of magnitudes \<open>m1\<close> and \<open>m2\<close>
  between 0 and 100 (40 and 30 in the claim, and as well 80 and 70, which add up to more
  than 100), the snapshot records exactly these two status effects on that receptor, with
  magnitudes \<open>m1\<close> and \<open>m2\<close>, and none on any other, and the level of the neurotransmitter
  that owns it is its circadian level plus \<open>(m1 + m2) * 0.3\<close>, or 100 if that is less. And
  on the catalog of the code, fully effective logs of nicotine and of flmodafinil leave
  on D1 two status effects of magnitudes 55 and 50, 105 together, and dopamine (the second
  neurotransmitter of the snapshot) at its circadian level plus \<open>(55 + 45 + 50) * 0.3\<close>,
  or 100 if that is less.
\<close>

theorem impact_cap_per_substance_only:
  "((\<forall>i \<in> set is. 0 \<le> magnitude i) \<and> 0 \<le> e \<longrightarrow>
      calculateReceptorImpact is e rid =
        (if rid \<in> receptorId ` set is
         then Some (min (\<Sum>i \<leftarrow> filter (\<lambda>i. receptorId i = rid) is. magnitude i * e / 100) 100)
         else None)) \<and>
   (\<forall>nt \<in> set (recomputeOn catalog defaults now hour logs).
      \<forall>rc \<in> set (receptors nt).
        statusEffects rc =
          concat (map (\<lambda>l. logEffects catalog now l (rc_id rc))
                   (filter (\<lambda>l. now < expectedClearance l) logs))) \<and>
   (catalog (substanceId l1) = Some s1 \<and> catalog (substanceId l2) = Some s2 \<and>
    receptorInteractions s1 = [mkInteraction r n1 Agonist m1] \<and>
    receptorInteractions s2 = [mkInteraction r n2 Agonist m2] \<and>
    0 \<le> m1 \<and> m1 \<le> 100 \<and> 0 \<le> m2 \<and> m2 \<le> 100 \<and>
    expectedClearance l1 > now \<and> expectedClearance l2 > now \<and>
    getEffectiveness l1 s1 now = 100 \<and> getEffectiveness l2 s2 now = 100 \<longrightarrow>
      (\<forall>nt \<in> set (recomputeOn catalog defaultNeurotransmitters now hour [l1, l2]).
         \<forall>rc \<in> set (receptors nt).
           if rc_id rc = r
           then statusEffects rc =
                  [\<lparr>se_type = Agonist, source = sub_name s1, se_magnitude = m1,
                    startTime = timestamp l1\<rparr>,
                   \<lparr>se_type = Agonist, source = sub_name s2, se_magnitude = m2,
                    startTime = timestamp l2\<rparr>] \<and>
                currentLevel nt = min (circadianRhythm nt hour + (m1 + m2) * 0.3) 100 \<and>
                status nt = Enhanced
           else statusEffects rc = [])) \<and>
   (substanceId k1 = ''nicotine'' \<and> substanceId k2 = ''flmodafinil'' \<and>
    expectedClearance k1 > now \<and> expectedClearance k2 > now \<and>
    getEffectiveness k1 nicotine now = 100 \<and> getEffectiveness k2 flmodafinil now = 100 \<longrightarrow>
      receptorEffects (recompute now hour [k1, k2] ! 1) =
        [(''d1'', [\<lparr>se_type = Agonist, source = ''Nicotine'', se_magnitude = 55,
                    startTime = timestamp k1\<rparr>,
                  \<lparr>se_type = Agonist, source = ''Flmodafinil'', se_magnitude = 50,
                    startTime = timestamp k2\<rparr>]),
         (''d2'', [\<lparr>se_type = Agonist, source = ''Nicotine'', se_magnitude = 45,
                    startTime = timestamp k1\<rparr>])] \<and>
      currentLevel (recompute now hour [k1, k2] ! 1) =
        min (dopamine_getLevel hour + (55 + 45 + 50) * 0.3) 100)"
  using calculateReceptorImpact_closed[of "is" e rid]
    recomputeOn_effects[of _ catalog defaults now hour logs]
    scenario[of catalog l1 s1 l2 s2 r n1 m1 n2 m2 now hour]
    nicotine_flmodafinil_dopamine[of k1 k2 now hour]
  by blast

lemma scenario_fully_effective:
  "getEffectiveness (scenarioLog i) (scenarioSubstance j (mkPK 1 0 0 1 1) m) 0 = 100"
  by (simp add: getEffectiveness_def scenarioLog_def scenarioSubstance_def mkPK_def)

lemma scenario_hypotheses:
  "mkSubstanceMap [scenarioSubstance ''x'' pk m1, scenarioSubstance ''y'' pk m2]
     (substanceId (scenarioLog ''x'')) = Some (scenarioSubstance ''x'' pk m1)"
  "mkSubstanceMap [scenarioSubstance ''x'' pk m1, scenarioSubstance ''y'' pk m2]
     (substanceId (scenarioLog ''y'')) = Some (scenarioSubstance ''y'' pk m2)"
  "receptorInteractions (scenarioSubstance i pk m) = [mkInteraction ''d1'' ''dopamine'' Agonist m]"
  "expectedClearance (scenarioLog i) > 0"
  "sub_name (scenarioSubstance i pk m) = i"
  by (simp_all add: mkSubstanceMap_def scenarioSubstance_def scenarioLog_def)

lemma nicotine_flmodafinil_at_peak:
  "getEffectiveness \<lparr>log_id = ''n1'', substanceId = ''nicotine'', dosage = 1,
      timestamp = 9900000, expectedClearance = 40860000\<rparr> nicotine 10800000 = 100"
  "getEffectiveness \<lparr>log_id = ''f1'', substanceId = ''flmodafinil'', dosage = 25,
      timestamp = 0, expectedClearance = 185760000\<rparr> flmodafinil 10800000 = 100"
  by (simp_all add: getEffectiveness_def nicotine_low flmodafinil_low mkPK_def)

theorem impact_cap_per_substance_witness:
  "calculateReceptorImpact
     [mkInteraction ''d1'' ''dopamine'' Agonist 60, mkInteraction ''d2'' ''dopamine'' Agonist 45,
      mkInteraction ''d1'' ''dopamine'' Agonist 70] 100 ''d1'' = Some 100 \<and>
   currentLevel
     (recomputeOn (mkSubstanceMap [scenarioSubstance ''x'' (mkPK 1 0 0 1 1) 40, scenarioSubstance ''y'' (mkPK 1 0 0 1 1) 30])
        defaultNeurotransmitters 0 12 [scenarioLog ''x'', scenarioLog ''y''] ! 1) = 91 \<and>
   map se_magnitude (statusEffects (hd (receptors
     (recomputeOn (mkSubstanceMap [scenarioSubstance ''x'' (mkPK 1 0 0 1 1) 40, scenarioSubstance ''y'' (mkPK 1 0 0 1 1) 30])
        defaultNeurotransmitters 0 12 [scenarioLog ''x'', scenarioLog ''y''] ! 1)))) = [40, 30] \<and>
   currentLevel
     (recomputeOn (mkSubstanceMap [scenarioSubstance ''x'' (mkPK 1 0 0 1 1) 80, scenarioSubstance ''y'' (mkPK 1 0 0 1 1) 70])
        defaultNeurotransmitters 0 0 [scenarioLog ''x'', scenarioLog ''y''] ! 1) = 85 \<and>
   map se_magnitude (statusEffects (hd (receptors
     (recomputeOn (mkSubstanceMap [scenarioSubstance ''x'' (mkPK 1 0 0 1 1) 80, scenarioSubstance ''y'' (mkPK 1 0 0 1 1) 70])
        defaultNeurotransmitters 0 0 [scenarioLog ''x'', scenarioLog ''y''] ! 1)))) = [80, 70] \<and>
   map (\<lambda>(i, es). (i, map se_magnitude es))
     (receptorEffects (recompute 10800000 3
        [\<lparr>log_id = ''n1'', substanceId = ''nicotine'', dosage = 1, timestamp = 9900000,
          expectedClearance = 40860000\<rparr>,
         \<lparr>log_id = ''f1'', substanceId = ''flmodafinil'', dosage = 25, timestamp = 0,
          expectedClearance = 185760000\<rparr>] ! 1)) = [(''d1'', [55, 50]), (''d2'', [45])] \<and>
   currentLevel (recompute 10800000 3
        [\<lparr>log_id = ''n1'', substanceId = ''nicotine'', dosage = 1, timestamp = 9900000,
          expectedClearance = 40860000\<rparr>,
         \<lparr>log_id = ''f1'', substanceId = ''flmodafinil'', dosage = 25, timestamp = 0,
          expectedClearance = 185760000\<rparr>] ! 1) = 85 \<and>
   statusEffects (hd (receptors (recompute 10800000 3
        [\<lparr>log_id = ''n1'', substanceId = ''nicotine'', dosage = 1, timestamp = 9900000,
          expectedClearance = 40860000\<rparr>,
         \<lparr>log_id = ''f1'', substanceId = ''flmodafinil'', dosage = 25, timestamp = 0,
          expectedClearance = 185760000\<rparr>] ! 1))) =
     logEffects substanceMap 10800000
        \<lparr>log_id = ''n1'', substanceId = ''nicotine'', dosage = 1, timestamp = 9900000,
          expectedClearance = 40860000\<rparr> ''d1'' @
     logEffects substanceMap 10800000
        \<lparr>log_id = ''f1'', substanceId = ''flmodafinil'', dosage = 25, timestamp = 0,
          expectedClearance = 185760000\<rparr> ''d1''"
proof -
  let ?pk = "mkPK 1 0 0 1 1"
  let ?is = "[mkInteraction ''d1'' ''dopamine'' Agonist 60, mkInteraction ''d2'' ''dopamine'' Agonist 45,
      mkInteraction ''d1'' ''dopamine'' Agonist 70]"
  let ?k1 = "\<lparr>log_id = ''n1'', substanceId = ''nicotine'', dosage = 1, timestamp = 9900000,
          expectedClearance = 40860000\<rparr>"
  let ?k2 = "\<lparr>log_id = ''f1'', substanceId = ''flmodafinil'', dosage = 25, timestamp = 0,
          expectedClearance = 185760000\<rparr>"
  have two: "currentLevel
       (recomputeOn (mkSubstanceMap [scenarioSubstance ''x'' ?pk m1, scenarioSubstance ''y'' ?pk m2])
          defaultNeurotransmitters 0 hour [scenarioLog ''x'', scenarioLog ''y''] ! 1) =
         min (dopamine_getLevel hour + (m1 + m2) * 0.3) 100 \<and>
       map se_magnitude (statusEffects (hd (receptors
       (recomputeOn (mkSubstanceMap [scenarioSubstance ''x'' ?pk m1, scenarioSubstance ''y'' ?pk m2])
          defaultNeurotransmitters 0 hour [scenarioLog ''x'', scenarioLog ''y''] ! 1)))) = [m1, m2]"
    if m: "0 \<le> m1" "m1 \<le> 100" "0 \<le> m2" "m2 \<le> 100" for m1 m2 hour :: real
  proof -
    let ?cat = "mkSubstanceMap [scenarioSubstance ''x'' ?pk m1, scenarioSubstance ''y'' ?pk m2]"
    let ?res = "recomputeOn ?cat defaultNeurotransmitters 0 hour [scenarioLog ''x'', scenarioLog ''y'']"
    note T = impact_cap_per_substance_only[of ?is 100 "''d1''" ?cat defaultNeurotransmitters 0 hour
        "[scenarioLog ''x'', scenarioLog ''y'']" "scenarioLog ''x''" "scenarioSubstance ''x'' ?pk m1"
        "scenarioLog ''y''" "scenarioSubstance ''y'' ?pk m2" "''d1''" "''dopamine''" m1 "''dopamine''" m2
        ?k1 ?k2]
    from T scenario_hypotheses scenario_fully_effective m
    have B: "\<forall>nt \<in> set ?res. \<forall>rc \<in> set (receptors nt).
           if rc_id rc = ''d1''
           then statusEffects rc =
                  [\<lparr>se_type = Agonist, source = sub_name (scenarioSubstance ''x'' ?pk m1), se_magnitude = m1,
                    startTime = timestamp (scenarioLog ''x'')\<rparr>,
                   \<lparr>se_type = Agonist, source = sub_name (scenarioSubstance ''y'' ?pk m2), se_magnitude = m2,
                    startTime = timestamp (scenarioLog ''y'')\<rparr>] \<and>
                currentLevel nt = min (circadianRhythm nt hour + (m1 + m2) * 0.3) 100 \<and>
                status nt = Enhanced
           else statusEffects rc = []"
      by blast
    note d = snapshot_dopamine_d1[OF refl, of ?cat 0 hour "[scenarioLog ''x'', scenarioLog ''y'']"]
    from B d(1,2,3) have
      "statusEffects (hd (receptors (?res ! 1))) =
                  [\<lparr>se_type = Agonist, source = sub_name (scenarioSubstance ''x'' ?pk m1), se_magnitude = m1,
                    startTime = timestamp (scenarioLog ''x'')\<rparr>,
                   \<lparr>se_type = Agonist, source = sub_name (scenarioSubstance ''y'' ?pk m2), se_magnitude = m2,
                    startTime = timestamp (scenarioLog ''y'')\<rparr>]"
      "currentLevel (?res ! 1) = min (circadianRhythm (?res ! 1) hour + (m1 + m2) * 0.3) 100"
      by (metis (no_types, lifting))+
    then show ?thesis using d(4) by simp
  qed
  note T = impact_cap_per_substance_only[of ?is 100 "''d1''" substanceMap defaultNeurotransmitters
      10800000 3 "[?k1, ?k2]" "scenarioLog ''x''" "scenarioSubstance ''x'' ?pk 40"
      "scenarioLog ''y''" "scenarioSubstance ''y'' ?pk 30" "''d1''" "''dopamine''" 40 "''dopamine''" 30
      ?k1 ?k2]
  have a: "calculateReceptorImpact ?is 100 ''d1'' = Some 100"
    using T by (simp add: mkInteraction_def)
  from T nicotine_flmodafinil_at_peak
  have c: "receptorEffects (recompute 10800000 3 [?k1, ?k2] ! 1) =
        [(''d1'', [\<lparr>se_type = Agonist, source = ''Nicotine'', se_magnitude = 55,
                    startTime = timestamp ?k1\<rparr>,
                  \<lparr>se_type = Agonist, source = ''Flmodafinil'', se_magnitude = 50,
                    startTime = timestamp ?k2\<rparr>]),
         (''d2'', [\<lparr>se_type = Agonist, source = ''Nicotine'', se_magnitude = 45,
                    startTime = timestamp ?k1\<rparr>])]"
     "currentLevel (recompute 10800000 3 [?k1, ?k2] ! 1) =
        min (dopamine_getLevel 3 + (55 + 45 + 50) * 0.3) 100"
    by simp_all
  note d = snapshot_dopamine_d1[OF recompute_def, of 10800000 3 "[?k1, ?k2]"]
  from T have "\<forall>nt \<in> set (recompute 10800000 3 [?k1, ?k2]). \<forall>rc \<in> set (receptors nt).
        statusEffects rc =
          concat (map (\<lambda>l. logEffects substanceMap 10800000 l (rc_id rc))
                   (filter (\<lambda>l. 10800000 < expectedClearance l) [?k1, ?k2]))"
    unfolding recompute_def by blast
  with d(1,2) have "statusEffects (hd (receptors (recompute 10800000 3 [?k1, ?k2] ! 1))) =
          concat (map (\<lambda>l. logEffects substanceMap 10800000 l
                              (rc_id (hd (receptors (recompute 10800000 3 [?k1, ?k2] ! 1)))))
                   (filter (\<lambda>l. 10800000 < expectedClearance l) [?k1, ?k2]))"
    by blast
  then have e: "statusEffects (hd (receptors (recompute 10800000 3 [?k1, ?k2] ! 1))) =
      logEffects substanceMap 10800000 ?k1 ''d1'' @ logEffects substanceMap 10800000 ?k2 ''d1''"
    unfolding d(3) by simp
  from two[of 40 30 12] two[of 80 70 0] a c e show ?thesis
    by (simp add: dopamine_getLevel_def)
qed

section \<open>The effectiveness curve (claim C2)\<close>


lemma getEffectiveness_before: "now < timestamp lg \<Longrightarrow> getEffectiveness lg s now = 0"
  by (simp add: getEffectiveness_def Let_def)

lemma getEffectiveness_ramp:
  assumes "timestamp lg \<le> now" "now \<le> timestamp lg + peakTime (getDosePK s (dosage lg)) * 60000"
    and "0 < peakTime (getDosePK s (dosage lg))"
  shows "getEffectiveness lg s now =
           sin ((pi / 2) * ((now - timestamp lg) / 60000 / peakTime (getDosePK s (dosage lg)))) * 100"
proof -
  let ?p = "peakTime (getDosePK s (dosage lg))"
  let ?e = "(now - timestamp lg) / 60000"
  have e: "0 \<le> ?e" "?e \<le> ?p" using assms by (simp_all add: field_simps)
  then have "?e / ?p \<le> 1" using assms(3) by (simp add: field_simps)
  then have "min (?e / ?p) 1 = ?e / ?p" by simp
  with e assms(3) show ?thesis by (simp add: getEffectiveness_def Let_def not_less)
qed

lemma getEffectiveness_peak:
  assumes "0 \<le> peakTime (getDosePK s (dosage lg))"
  shows "getEffectiveness lg s (timestamp lg + peakTime (getDosePK s (dosage lg)) * 60000) = 100"
  using assms by (simp add: getEffectiveness_def Let_def not_less)

lemma getEffectiveness_decay:
  assumes "timestamp lg + peakTime (getDosePK s (dosage lg)) * 60000 < now"
    and "0 \<le> peakTime (getDosePK s (dosage lg))"
  shows "getEffectiveness lg s now =
           100 * (0.5 powr (((now - timestamp lg) / 60000 - peakTime (getDosePK s (dosage lg))) / 60
                    / halfLife (getDosePK s (dosage lg))))"
proof -
  let ?p = "peakTime (getDosePK s (dosage lg))"
  let ?e = "(now - timestamp lg) / 60000"
  have e: "?p < ?e" using assms by (simp add: field_simps)
  with assms(2) have "\<not> ?e < 0" "\<not> ?e \<le> ?p" by simp_all
  moreover have "\<not> (?e - ?p) / 60 < 0" using e by simp
  ultimately show ?thesis by (simp add: getEffectiveness_def Let_def calculateDecay_def)
qed

lemma getEffectiveness_range:
  assumes "0 < halfLife (getDosePK s (dosage lg))"
  shows "0 \<le> getEffectiveness lg s now \<and> getEffectiveness lg s now \<le> 100"
proof -
  let ?p = "peakTime (getDosePK s (dosage lg))"
  let ?h = "halfLife (getDosePK s (dosage lg))"
  let ?e = "(now - timestamp lg) / 60000"
  consider "?e < 0" | "0 \<le> ?e" "?e \<le> ?p" | "0 \<le> ?e" "?p < ?e" by linarith
  then show ?thesis
  proof cases
    case 1
    then show ?thesis by (simp add: getEffectiveness_def Let_def)
  next
    case 2
    define q where "q = min (if 0 < ?p then ?e / ?p else 1) 1"
    have q: "0 \<le> q" "q \<le> 1" using 2 by (auto simp: q_def)
    have "pi / 2 * q \<le> pi / 2 * 1" using q pi_ge_zero by (intro mult_left_mono) simp_all
    then have "pi / 2 * q \<le> pi" using pi_ge_zero by simp
    moreover have "0 \<le> pi / 2 * q" using q pi_ge_zero by (intro mult_nonneg_nonneg) simp_all
    ultimately have "0 \<le> sin (pi / 2 * q)" by (intro sin_ge_zero)
    moreover have "sin (pi / 2 * q) \<le> 1" by (rule sin_le_one)
    moreover have "getEffectiveness lg s now = sin (pi / 2 * q) * 100"
      using 2 by (simp add: getEffectiveness_def Let_def q_def not_less)
    ultimately show ?thesis by simp
  next
    case 3
    define y where "y = (?e - ?p) / 60 / ?h"
    have y: "0 \<le> y" using 3 assms by (simp add: y_def)
    have "(0.5::real) powr y \<le> 1" using y by (intro powr_le1) simp_all
    moreover have "0 \<le> (0.5::real) powr y" by simp
    moreover have "getEffectiveness lg s now = 100 * (0.5 powr y)"
      using 3 by (simp add: getEffectiveness_def Let_def calculateDecay_def y_def not_less)
    ultimately show ?thesis by simp
  qed
qed

lemma getEffectiveness_ramp_mono:
  assumes "timestamp lg \<le> a" "a \<le> b" "b \<le> timestamp lg + peakTime (getDosePK s (dosage lg)) * 60000"
  shows "getEffectiveness lg s a \<le> getEffectiveness lg s b"
proof (cases "0 < peakTime (getDosePK s (dosage lg))")
  case True
  let ?p = "peakTime (getDosePK s (dosage lg))"
  let ?qa = "(a - timestamp lg) / 60000 / ?p"
  let ?qb = "(b - timestamp lg) / 60000 / ?p"
  have qa: "0 \<le> ?qa" using assms True by simp
  have qab: "?qa \<le> ?qb" using assms True by (simp add: divide_right_mono)
  have qb: "?qb \<le> 1" using assms True by (simp add: field_simps)
  have "0 \<le> pi / 2 * ?qa" using qa pi_ge_zero by (intro mult_nonneg_nonneg) simp_all
  then have "- (pi / 2) \<le> pi / 2 * ?qa" using pi_ge_zero by linarith
  moreover have "pi / 2 * ?qa \<le> pi / 2 * ?qb" using qab pi_ge_zero
    by (intro mult_left_mono) simp_all
  moreover have "pi / 2 * ?qb \<le> pi / 2 * 1" using qb pi_ge_zero
    by (intro mult_left_mono) simp_all
  then have "pi / 2 * ?qb \<le> pi / 2" by simp
  ultimately have "sin (pi / 2 * ?qa) \<le> sin (pi / 2 * ?qb)" by (rule sin_monotone_2pi_le)
  moreover have "getEffectiveness lg s a = sin (pi / 2 * ?qa) * 100"
    using assms True by (intro getEffectiveness_ramp) simp_all
  moreover have "getEffectiveness lg s b = sin (pi / 2 * ?qb) * 100"
    using assms True by (intro getEffectiveness_ramp) simp_all
  ultimately show ?thesis by simp
next
  case False
  then have "peakTime (getDosePK s (dosage lg)) * 60000 \<le> 0" by simp
  with assms have "a = b" by linarith
  then show ?thesis by simp
qed

lemma getEffectiveness_decay_mono:
  assumes "0 < halfLife (getDosePK s (dosage lg))" "0 \<le> peakTime (getDosePK s (dosage lg))"
    and "timestamp lg + peakTime (getDosePK s (dosage lg)) * 60000 \<le> a" "a \<le> b"
  shows "getEffectiveness lg s b \<le> getEffectiveness lg s a"
proof (cases "timestamp lg + peakTime (getDosePK s (dosage lg)) * 60000 = a")
  case True
  then have "getEffectiveness lg s a = 100" using getEffectiveness_peak[OF assms(2)] by simp
  then show ?thesis by (simp add: getEffectiveness_range[OF assms(1)])
next
  case False
  let ?p = "peakTime (getDosePK s (dosage lg))"
  let ?h = "halfLife (getDosePK s (dosage lg))"
  let ?ya = "((a - timestamp lg) / 60000 - ?p) / 60 / ?h"
  let ?yb = "((b - timestamp lg) / 60000 - ?p) / 60 / ?h"
  from False assms have lt: "timestamp lg + ?p * 60000 < a" "timestamp lg + ?p * 60000 < b" by simp_all
  have "?ya \<le> ?yb" using assms(1,4) by (simp add: divide_right_mono)
  then have "(0.5::real) powr ?yb \<le> 0.5 powr ?ya" by (intro powr_mono') simp_all
  then show ?thesis
    by (simp add: getEffectiveness_decay[OF lt(1) assms(2)] getEffectiveness_decay[OF lt(2) assms(2)])
qed


lemma getEffectiveness_at_timestamp:
  "0 \<le> peakTime (getDosePK s (dosage lg)) \<Longrightarrow>
   getEffectiveness lg s (timestamp lg) = (if 0 < peakTime (getDosePK s (dosage lg)) then 0 else 100)"
  by (simp add: getEffectiveness_def Let_def)


lemma Math_round_ge: "of_int lo \<le> x \<Longrightarrow> of_int lo \<le> Math_round x"
  unfolding Math_round_def by (simp add: le_floor_iff)

lemma r1_ge: "of_int lo / 10 \<le> x \<Longrightarrow> of_int lo / 10 \<le> r1 x"
  using Math_round_ge[of lo "x * 10"] by (simp add: r1_def)

lemma lerp_ge: "a \<le> b \<Longrightarrow> a \<le> lerp a b t"
  using lerp_between by blast

lemma caffeine_positive:
  "0 < halfLife (getDosePK caffeine dose) \<and> 0 < peakTime (getDosePK caffeine dose)"
  using caffeine_halfLife_range[of dose] caffeine_peakTime_range[of dose] by simp

lemma theanine_positive:
  "0 < halfLife (getDosePK theanine dose) \<and> 0 < peakTime (getDosePK theanine dose)"
  by (simp add: theanine_def theanine_getDosePK_def Let_def mkPK_def)

lemma nicotine_positive:
  "0 < halfLife (getDosePK nicotine dose) \<and> 0 < peakTime (getDosePK nicotine dose)"
  by (simp add: nicotine_def nicotine_getDosePK_def Let_def mkPK_def)

lemma tyrosine_positive:
  "0 < halfLife (getDosePK tyrosine dose) \<and> 0 < peakTime (getDosePK tyrosine dose)"
proof -
  have "(1.8::real) \<le> lerp 1.8 2.5 ((dose - 250) / 750)" by (rule lerp_ge) simp
  then have "(1.8::real) \<le> r1 (lerp 1.8 2.5 ((dose - 250) / 750))"
    using r1_ge[of 18 "lerp 1.8 2.5 ((dose - 250) / 750)"] by simp
  moreover have "(75::real) \<le> lerp 75 120 ((dose - 250) / 750)" by (rule lerp_ge) simp
  then have "(75::real) \<le> Math_round (lerp 75 120 ((dose - 250) / 750))"
    using Math_round_ge[of 75 "lerp 75 120 ((dose - 250) / 750)"] by simp
  ultimately show ?thesis by (simp add: tyrosine_def tyrosine_getDosePK_def Let_def mkPK_def)
qed

lemma flmodafinil_positive:
  "0 < halfLife (getDosePK flmodafinil dose) \<and> 0 < peakTime (getDosePK flmodafinil dose)"
proof -
  have "(12::real) \<le> lerp 12 15 ((dose - 25) / 75)" by (rule lerp_ge) simp
  then have "(12::real) \<le> r1 (lerp 12 15 ((dose - 25) / 75))"
    using r1_ge[of 120 "lerp 12 15 ((dose - 25) / 75)"] by simp
  moreover have "(180::real) \<le> lerp 180 300 ((dose - 25) / 75)" by (rule lerp_ge) simp
  then have "(180::real) \<le> Math_round (lerp 180 300 ((dose - 25) / 75))"
    using Math_round_ge[of 180 "lerp 180 300 ((dose - 25) / 75)"] by simp
  ultimately show ?thesis by (simp add: flmodafinil_def flmodafinil_getDosePK_def Let_def mkPK_def)
qed

lemma bromantane_positive:
  "0 < halfLife (getDosePK bromantane dose) \<and> 0 < peakTime (getDosePK bromantane dose)"
proof -
  have "(165::real) \<le> lerp 165 210 ((dose - 25) / 75)" by (rule lerp_ge) simp
  then have "(165::real) \<le> Math_round (lerp 165 210 ((dose - 25) / 75))"
    using Math_round_ge[of 165 "lerp 165 210 ((dose - 25) / 75)"] by simp
  then show ?thesis by (simp add: bromantane_def bromantane_getDosePK_def Let_def mkPK_def)
qed

lemma shilajit_positive:
  "0 < halfLife (getDosePK shilajit dose) \<and> 0 < peakTime (getDosePK shilajit dose)"
proof -
  have "(150::real) \<le> lerp 150 210 ((dose - 250) / 250)" by (rule lerp_ge) simp
  then have "(150::real) \<le> Math_round (lerp 150 210 ((dose - 250) / 250))"
    using Math_round_ge[of 150 "lerp 150 210 ((dose - 250) / 250)"] by simp
  then show ?thesis by (simp add: shilajit_def shilajit_getDosePK_def Let_def mkPK_def)
qed

lemma catalog_kinetics_positive:
  "s \<in> set substances \<Longrightarrow>
   0 < halfLife (getDosePK s dose) \<and> 0 < peakTime (getDosePK s dose)"
  using caffeine_positive theanine_positive nicotine_positive tyrosine_positive
    flmodafinil_positive bromantane_positive shilajit_positive
  by (auto simp: substances_def)

text \<open>
  Claim C2, as amended. Let the kinetics resolved at the log's dose have a half-life above
  0 and a peak time of at least 0 minutes. Then the effectiveness is 0 at every time
  before the log's timestamp; at the timestamp itself it is 0 when the peak time is
  positive and 100 when the peak time is 0 (instantaneous onset); it is non-decreasing
  from the timestamp to the peak, \<open>peakTime * 60000\<close> ms later, where it is 100; it is
  non-increasing from the peak on; and it always lies in \<open>[0,100]\<close>. Every substance of
  the catalog has a positive half-life and a positive peak time at every dose.
\<close>

theorem effectiveness_rises_to_peak_then_decays:
  assumes "0 < halfLife (getDosePK s (dosage lg))" and "0 \<le> peakTime (getDosePK s (dosage lg))"
  shows "(now < timestamp lg \<longrightarrow> getEffectiveness lg s now = 0) \<and>
         getEffectiveness lg s (timestamp lg) =
           (if 0 < peakTime (getDosePK s (dosage lg)) then 0 else 100) \<and>
         (timestamp lg \<le> a \<and> a \<le> b \<and>
          b \<le> timestamp lg + peakTime (getDosePK s (dosage lg)) * 60000 \<longrightarrow>
            getEffectiveness lg s a \<le> getEffectiveness lg s b) \<and>
         getEffectiveness lg s (timestamp lg + peakTime (getDosePK s (dosage lg)) * 60000) = 100 \<and>
         (timestamp lg + peakTime (getDosePK s (dosage lg)) * 60000 \<le> a \<and> a \<le> b \<longrightarrow>
            getEffectiveness lg s b \<le> getEffectiveness lg s a) \<and>
         0 \<le> getEffectiveness lg s now \<and> getEffectiveness lg s now \<le> 100 \<and>
         (s' \<in> set substances \<longrightarrow>
            0 < halfLife (getDosePK s' dose) \<and> 0 < peakTime (getDosePK s' dose))"
  using getEffectiveness_before[of now lg s] getEffectiveness_at_timestamp[OF assms(2)]
    getEffectiveness_ramp_mono[of lg a b s] getEffectiveness_peak[OF assms(2)]
    getEffectiveness_decay_mono[OF assms, of a b] getEffectiveness_range[OF assms(1), of now]
    catalog_kinetics_positive[of s' dose]
  by blast

lemma caffeine_100: "getDosePK caffeine 100 = mkPK 4.8 15 41 10.6 5"
  by (simp add: caffeine_def caffeine_getDosePK_def lerp_def r1_def Math_round_def Let_def)

theorem effectiveness_shape_witness:
  "getEffectiveness
     \<lparr>log_id = ''k'', substanceId = ''caffeine'', dosage = 100, timestamp = 0,
       expectedClearance = 74304000\<rparr> caffeine (- 1) = 0 \<and>
   getEffectiveness
     \<lparr>log_id = ''k'', substanceId = ''caffeine'', dosage = 100, timestamp = 0,
       expectedClearance = 74304000\<rparr> caffeine 0 = 0 \<and>
   getEffectiveness
     \<lparr>log_id = ''k'', substanceId = ''caffeine'', dosage = 100, timestamp = 0,
       expectedClearance = 74304000\<rparr> caffeine 60000 \<le>
   getEffectiveness
     \<lparr>log_id = ''k'', substanceId = ''caffeine'', dosage = 100, timestamp = 0,
       expectedClearance = 74304000\<rparr> caffeine 120000 \<and>
   getEffectiveness
     \<lparr>log_id = ''k'', substanceId = ''caffeine'', dosage = 100, timestamp = 0,
       expectedClearance = 74304000\<rparr> caffeine (41 * 60000) = 100 \<and>
   getEffectiveness
     \<lparr>log_id = ''k'', substanceId = ''caffeine'', dosage = 100, timestamp = 0,
       expectedClearance = 74304000\<rparr> caffeine 7200000 \<le> 100"
proof -
  let ?lg = "\<lparr>log_id = ''k'', substanceId = ''caffeine'', dosage = 100, timestamp = 0,
       expectedClearance = 74304000\<rparr>"
  have pk: "halfLife (getDosePK caffeine (dosage ?lg)) = 4.8"
    "peakTime (getDosePK caffeine (dosage ?lg)) = 41"
    by (simp_all add: caffeine_100 mkPK_def)
  have h: "0 < halfLife (getDosePK caffeine (dosage ?lg))"
    "0 \<le> peakTime (getDosePK caffeine (dosage ?lg))"
    unfolding pk by simp_all
  from effectiveness_rises_to_peak_then_decays[OF h, of "- 1" 60000 120000]
    effectiveness_rises_to_peak_then_decays[OF h, of 7200000 60000 120000]
  show ?thesis unfolding pk by simp
qed

text \<open>
  The claim as stated fails for a substance whose peak time is 0: its half-life is
  positive, and at \<open>now = timestamp\<close> its effectiveness is 100, not 0.
\<close>

theorem effectiveness_at_timestamp_counterexample:
  "0 < halfLife (getDosePK (scenarioSubstance ''x'' (mkPK 1 0 0 1 1) 40) (dosage (scenarioLog ''x''))) \<and>
   (0::real) \<le> timestamp (scenarioLog ''x'') \<and>
   getEffectiveness (scenarioLog ''x'') (scenarioSubstance ''x'' (mkPK 1 0 0 1 1) 40) 0 = 100"
  by (simp add: getEffectiveness_def scenarioLog_def scenarioSubstance_def mkPK_def)

section \<open>The timeline samples (claim C7)\<close>

lemma timelineLoop_round:
  "timelineLoop lg s iv T m points =
     (if m \<le> T then timelineLoop lg s iv T (f64 (m + iv)) (points @ [timelinePoint lg s m])
      else Some points)"
  by (subst timelineLoop.simps) (simp add: timelinePoint_def Let_def)

lemma counterAt_Suc: "counterAt iv (Suc k) = f64 (counterAt iv k + iv)"
  by (simp add: counterAt_def)

text \<open>
  The loop returns when its counter exceeds the bound, with one point for each value
  that the counter took before.
\<close>

lemma timelineLoop_counter:
  assumes below: "\<forall>k < n. counterAt iv k \<le> T" and above: "\<not> counterAt iv n \<le> T"
  shows "i \<le> n \<Longrightarrow>
         timelineLoop lg s iv T (counterAt iv i) points =
           Some (points @ map (\<lambda>k. timelinePoint lg s (counterAt iv k)) [i..<n])"
proof (induction "n - i" arbitrary: i points)
  case 0
  then have "i = n" by simp
  then show ?case using above by (subst timelineLoop_round) simp
next
  case (Suc d)
  then have lt: "i < n" and d: "d = n - Suc i" and le: "Suc i \<le> n" by simp_all
  from below lt have c: "counterAt iv i \<le> T" by simp
  from Suc.hyps(1)[OF d le]
  have "timelineLoop lg s iv T (counterAt iv (Suc i)) (points @ [timelinePoint lg s (counterAt iv i)]) =
        Some ((points @ [timelinePoint lg s (counterAt iv i)]) @
              map (\<lambda>k. timelinePoint lg s (counterAt iv k)) [Suc i..<n])" .
  then show ?case
    using c lt by (subst timelineLoop_round) (simp add: counterAt_Suc upt_conv_Cons)
qed

lemma generateTimeline_counter:
  assumes "\<forall>k < n. counterAt iv k \<le> loopBound lg s" and "\<not> counterAt iv n \<le> loopBound lg s"
  shows "generateTimeline lg s iv =
           Some (map (\<lambda>k. timelinePoint lg s (counterAt iv k)) [0..<n])"
proof -
  have z: "counterAt iv 0 = 0" by (simp add: counterAt_def)
  from timelineLoop_counter[OF assms, of 0 lg s "[]"]
  show ?thesis by (simp add: generateTimeline_def loopBound_def Let_def z)
qed

text \<open>
  With an interval of a whole number of minutes the counter is exact, as long as it stays
  below \<open>2 ^ 53\<close>: after \<open>k\<close> rounds it is \<open>k\<close> times the interval.
\<close>

lemma counterAt_whole: "k * j < 2 ^ 53 \<Longrightarrow> counterAt (real j) k = real (k * j)"
proof (induction k)
  case 0
  show ?case by (simp add: counterAt_def)
next
  case (Suc k)
  have "k * j \<le> Suc k * j" by simp
  with Suc.prems have "k * j < 2 ^ 53" by linarith
  from Suc.IH[OF this] have "counterAt (real j) (Suc k) = f64 (real (Suc k * j))"
    by (simp add: counterAt_Suc add.commute)
  also have "\<dots> = real (Suc k * j)" by (rule f64_of_nat[OF Suc.prems])
  finally show ?case .
qed

lemma sampleCount_multiples:
  assumes "0 < j"
  shows "(k < sampleCount T (real j)) = (real (k * j) \<le> T)"
proof (cases "0 \<le> T")
  case True
  have "0 \<le> \<lfloor>T / real j\<rfloor>" using True by simp
  then have "(k < sampleCount T (real j)) = (int k \<le> \<lfloor>T / real j\<rfloor>)"
    using True by (simp add: sampleCount_def less_Suc_eq_le le_nat_iff)
  also have "\<dots> = (real k \<le> T / real j)" by (simp add: le_floor_iff)
  also have "\<dots> = (real (k * j) \<le> T)" using assms by (simp add: pos_le_divide_eq)
  finally show ?thesis .
next
  case False
  have "0 \<le> real (k * j)" by simp
  with False have "\<not> real (k * j) \<le> T" by linarith
  with False show ?thesis by (simp only: sampleCount_def if_False not_less_zero)
qed

lemma generateTimeline_whole:
  assumes j: "0 < j" and b: "loopBound lg s + real j < 2 ^ 53"
  shows "generateTimeline lg s (real j) =
           Some (map (\<lambda>k. timelinePoint lg s (real (k * j)))
                   [0..<sampleCount (loopBound lg s) (real j)])"
proof -
  let ?B = "loopBound lg s"
  let ?n = "sampleCount ?B (real j)"
  have small: "k * j < 2 ^ 53" if "k \<le> ?n" for k
  proof (cases k)
    case 0
    then show ?thesis by simp
  next
    case (Suc k')
    with that have "k' < ?n" by simp
    then have "real (k' * j) \<le> ?B" by (simp add: sampleCount_multiples[OF j])
    then have "real (k * j) \<le> ?B + real j" using Suc by (simp add: algebra_simps)
    with b have "real (k * j) < 2 ^ 53" by linarith
    then show ?thesis by (simp only: of_nat_less_numeral_power_cancel_iff)
  qed
  have below: "\<forall>k < ?n. counterAt (real j) k \<le> ?B"
  proof (intro allI impI)
    fix k assume k: "k < ?n"
    then have "counterAt (real j) k = real (k * j)" by (intro counterAt_whole small) simp
    with k show "counterAt (real j) k \<le> ?B" by (simp add: sampleCount_multiples[OF j])
  qed
  have "counterAt (real j) ?n = real (?n * j)" by (intro counterAt_whole small) simp
  moreover have "\<not> real (?n * j) \<le> ?B"
    using sampleCount_multiples[OF j, of ?n ?B] by simp
  ultimately have above: "\<not> counterAt (real j) ?n \<le> ?B" by simp
  have "map (\<lambda>k. timelinePoint lg s (counterAt (real j) k)) [0..<?n] =
        map (\<lambda>k. timelinePoint lg s (real (k * j))) [0..<?n]"
  proof (intro map_cong refl)
    fix k assume "k \<in> set [0..<?n]"
    then have "k \<le> ?n" by simp
    from counterAt_whole[OF small[OF this]]
    show "timelinePoint lg s (counterAt (real j) k) = timelinePoint lg s (real (k * j))"
      by (simp only:)
  qed
  with generateTimeline_counter[OF below above] show ?thesis by simp
qed

text \<open>
  The time of a sample is exact when the log's timestamp is a whole number of
  milliseconds, as \<open>Date.now()\<close> is, and the counter a whole number of minutes.
\<close>

lemma timelinePoint_time:
  assumes z: "timestamp lg = of_int z" and b: "\<bar>z\<bar> + int (i * 60000) < 2 ^ 53"
  shows "time (timelinePoint lg s (real i)) = timestamp lg + real i * 60000"
proof -
  have i: "i * 60000 < 2 ^ 53"
  proof -
    from b have "int (i * 60000) < 2 ^ 53" by linarith
    then show ?thesis by (simp only: of_nat_less_numeral_power_cancel_iff)
  qed
  then have i60: "i * 60 < 2 ^ 53" by simp
  have e1: "real i * 60 = real (i * 60)" and e2: "real (i * 60) * 1000 = real (i * 60000)"
    and e3: "of_int z + real (i * 60000) = of_int (z + int (i * 60000))"
    and e4: "real i * 60000 = real (i * 60000)"
    by simp_all
  have a: "f64 (real i * 60) = real (i * 60)" unfolding e1 by (rule f64_of_nat[OF i60])
  have c: "f64 (real (i * 60) * 1000) = real (i * 60000)" unfolding e2 by (rule f64_of_nat[OF i])
  have "\<bar>z + int (i * 60000)\<bar> < 2 ^ 53" using b by linarith
  from f64_of_int[OF this]
  have d: "f64 (of_int z + real (i * 60000)) = of_int z + real (i * 60000)"
    unfolding e3 .
  have "time (timelinePoint lg s (real i)) = f64 (timestamp lg + f64 (f64 (real i * 60) * 1000))"
    by (simp add: timelinePoint_def)
  then show ?thesis unfolding a c z d e4 .
qed

lemma nicotine_1: "getDosePK nicotine 1 = mkPK 2 5 15 3.5 12"
  by (rule nicotine_low) simp

lemma nicotine_3: "getDosePK nicotine 3 = mkPK 2 5 15 4.1 12"
  by (simp add: nicotine_def nicotine_getDosePK_def lerp_def r1_def Math_round_def Let_def)

lemma total_41: "f64 (f64 4.1 * 60) = 8655355533852671 / 2 ^ 45"
  unfolding f64_41 by (subst f64_eval[of 7]) (simp_all add: roundToEven_def Let_def)

lemma total_99: "f64 (f64 9.9 * 60) = 594"
  unfolding f64_99 by (subst f64_eval[of 9]) (simp_all add: roundToEven_def Let_def)

text \<open>
  Claim C7, as amended. The bound of the loop is \<open>duration * 60\<close> as the code rounds it
  (245.99999999999997 for a duration of 4.1 h), taken below \<open>2 ^ 53\<close>, and the interval
  is a double. When the counter of the loop (0, then the rounded sum of the counter and
  the interval) exceeds the bound after \<open>n\<close> rounds and not before, the loop returns \<open>n\<close>
  samples, one for each value that the counter took, in that order. With an interval of a whole number
  \<open>j > 0\<close> of minutes, and while the numbers stay below \<open>2 ^ 53\<close>, the counter is exact:
  the samples are those at the elapsed minutes \<open>k * j\<close> for every multiple of the interval
  that is at most the bound, and no other, starting with elapsed 0; so the sample at the
  bound itself is present exactly when the bound is a multiple of the interval. The time
  of the sample at elapsed \<open>i\<close> whole minutes of a log stamped with a whole number of
  milliseconds is the timestamp plus \<open>i * 60000\<close>, and the level of every sample is the
  effectiveness at its time.
\<close>

theorem generateTimeline_samples:
  "(f64 iv = iv \<and> loopBound lg s < 2 ^ 53 \<and>
    (\<forall>k < n. counterAt iv k \<le> loopBound lg s) \<and> \<not> counterAt iv n \<le> loopBound lg s \<longrightarrow>
      generateTimeline lg s iv =
        Some (map (\<lambda>k. timelinePoint lg s (counterAt iv k)) [0..<n])) \<and>
   (0 < j \<and> loopBound lg s + real j < 2 ^ 53 \<longrightarrow>
      generateTimeline lg s (real j) =
        Some (map (\<lambda>k. timelinePoint lg s (real (k * j)))
                [0..<sampleCount (loopBound lg s) (real j)]) \<and>
      (\<forall>k. (k < sampleCount (loopBound lg s) (real j)) = (real (k * j) \<le> loopBound lg s)) \<and>
      ((\<exists>k < sampleCount (loopBound lg s) (real j). real (k * j) = loopBound lg s) =
       (\<exists>k. real (k * j) = loopBound lg s))) \<and>
   (timestamp lg = of_int z \<and> \<bar>z\<bar> + int (i * 60000) < 2 ^ 53 \<longrightarrow>
      time (timelinePoint lg s (real i)) = timestamp lg + real i * 60000) \<and>
   level (timelinePoint lg s m) = getEffectiveness lg s (time (timelinePoint lg s m)) \<and>
   loopBound lg s = f64 (f64 (duration (getDosePK s (dosage lg))) * 60)"
proof -
  have a: "generateTimeline lg s iv =
        Some (map (\<lambda>k. timelinePoint lg s (counterAt iv k)) [0..<n])"
    if "\<forall>k < n. counterAt iv k \<le> loopBound lg s" "\<not> counterAt iv n \<le> loopBound lg s"
    using that by (rule generateTimeline_counter)
  have b: "generateTimeline lg s (real j) =
        Some (map (\<lambda>k. timelinePoint lg s (real (k * j)))
                [0..<sampleCount (loopBound lg s) (real j)])"
    if "0 < j" "loopBound lg s + real j < 2 ^ 53"
    using that by (rule generateTimeline_whole)
  have c: "\<forall>k. (k < sampleCount (loopBound lg s) (real j)) = (real (k * j) \<le> loopBound lg s)"
    if "0 < j"
    using sampleCount_multiples[OF that] by simp
  have d: "(\<exists>k < sampleCount (loopBound lg s) (real j). real (k * j) = loopBound lg s) =
       (\<exists>k. real (k * j) = loopBound lg s)"
    if "0 < j"
  proof
    assume "\<exists>k < sampleCount (loopBound lg s) (real j). real (k * j) = loopBound lg s"
    then show "\<exists>k. real (k * j) = loopBound lg s" by blast
  next
    assume "\<exists>k. real (k * j) = loopBound lg s"
    then obtain k where k: "real (k * j) = loopBound lg s" ..
    then have "real (k * j) \<le> loopBound lg s" by simp
    then have "k < sampleCount (loopBound lg s) (real j)"
      by (simp only: sampleCount_multiples[OF that])
    with k show "\<exists>k < sampleCount (loopBound lg s) (real j). real (k * j) = loopBound lg s"
      by blast
  qed
  have e: "time (timelinePoint lg s (real i)) = timestamp lg + real i * 60000"
    if "timestamp lg = of_int z" "\<bar>z\<bar> + int (i * 60000) < 2 ^ 53"
    using that by (rule timelinePoint_time)
  have f: "level (timelinePoint lg s m) = getEffectiveness lg s (time (timelinePoint lg s m))"
    by (simp add: timelinePoint_def)
  have g: "loopBound lg s = f64 (f64 (duration (getDosePK s (dosage lg))) * 60)"
    by (simp add: loopBound_def)
  from a b c d e f g show ?thesis by blast
qed

theorem generateTimeline_samples_witness:
  "loopBound \<lparr>log_id = ''k'', substanceId = ''nicotine'', dosage = 3, timestamp = 1000,
       expectedClearance = 30961000\<rparr> nicotine = 246 - 1 / 2 ^ 45 \<and>
   generateTimeline
     \<lparr>log_id = ''k'', substanceId = ''nicotine'', dosage = 3, timestamp = 1000,
       expectedClearance = 30961000\<rparr> nicotine 82 =
   Some (map (\<lambda>t. \<lparr>time = t,
                    level = getEffectiveness
                      \<lparr>log_id = ''k'', substanceId = ''nicotine'', dosage = 3, timestamp = 1000,
                        expectedClearance = 30961000\<rparr> nicotine t\<rparr>)
          [1000, 4921000, 9841000]) \<and>
   generateTimeline
     \<lparr>log_id = ''k'', substanceId = ''nicotine'', dosage = 3, timestamp = 1000,
       expectedClearance = 30961000\<rparr> nicotine 82 =
   Some (map (\<lambda>k. timelinePoint
                    \<lparr>log_id = ''k'', substanceId = ''nicotine'', dosage = 3, timestamp = 1000,
                      expectedClearance = 30961000\<rparr> nicotine (counterAt 82 k)) [0..<3]) \<and>
   map (counterAt 82) [0..<4] = [0, 82, 164, 246]"
proof -
  let ?lg = "\<lparr>log_id = ''k'', substanceId = ''nicotine'', dosage = 3, timestamp = 1000,
       expectedClearance = 30961000\<rparr>"
  have c: "counterAt 82 k = real (k * 82)" if "k < 5" for k
    using counterAt_whole[of k 82] that by simp
  have cs: "map (counterAt 82) [0..<4] = [0, 82, 164, 246]"
    by (simp add: upt_conv_Cons c)
  have B: "loopBound ?lg nicotine = 246 - 1 / 2 ^ 45"
    unfolding loopBound_def using total_41 by (simp add: nicotine_3 mkPK_def)
  have n: "sampleCount (246 - 1 / 2 ^ 45) (real 82) = 3" by (simp add: sampleCount_def)
  have h: "0 < (82::nat) \<and> loopBound ?lg nicotine + real 82 < 2 ^ 53" unfolding B by simp
  note T = generateTimeline_samples[where lg = "?lg" and s = nicotine and j = 82 and z = 1000]
  from T h have "generateTimeline ?lg nicotine (real 82) =
        Some (map (\<lambda>k. timelinePoint ?lg nicotine (real (k * 82)))
                [0..<sampleCount (loopBound ?lg nicotine) (real 82)])"
    by blast
  then have g: "generateTimeline ?lg nicotine 82 =
        Some [timelinePoint ?lg nicotine (real 0), timelinePoint ?lg nicotine (real 82),
              timelinePoint ?lg nicotine (real 164)]"
    unfolding B n by (simp add: upt_conv_Cons)
  have z: "timestamp ?lg = of_int 1000" by simp
  have t: "time (timelinePoint ?lg nicotine (real i)) = timestamp ?lg + real i * 60000"
    if "\<bar>1000\<bar> + int (i * 60000) < 2 ^ 53" for i
    using generateTimeline_samples[where lg = "?lg" and s = nicotine and z = 1000 and i = i] z that by blast
  have l: "level (timelinePoint ?lg nicotine m) =
      getEffectiveness ?lg nicotine (time (timelinePoint ?lg nicotine m))" for m
    using generateTimeline_samples[where lg = "?lg" and s = nicotine and m = m] by blast
  have p: "timelinePoint ?lg nicotine (real i) =
      \<lparr>time = timestamp ?lg + real i * 60000,
       level = getEffectiveness ?lg nicotine (timestamp ?lg + real i * 60000)\<rparr>"
    if "\<bar>1000\<bar> + int (i * 60000) < 2 ^ 53" for i
    using t[OF that] l[of "real i"] by (cases "timelinePoint ?lg nicotine (real i)") simp
  have "timelinePoint ?lg nicotine (real 0) =
          \<lparr>time = 1000, level = getEffectiveness ?lg nicotine 1000\<rparr>"
       "timelinePoint ?lg nicotine (real 82) =
          \<lparr>time = 4921000, level = getEffectiveness ?lg nicotine 4921000\<rparr>"
       "timelinePoint ?lg nicotine (real 164) =
          \<lparr>time = 9841000, level = getEffectiveness ?lg nicotine 9841000\<rparr>"
    by (subst p, simp, simp)+
  with g B have first: "loopBound ?lg nicotine = 246 - 1 / 2 ^ 45 \<and>
      generateTimeline ?lg nicotine 82 =
        Some (map (\<lambda>t. \<lparr>time = t, level = getEffectiveness ?lg nicotine t\<rparr>)
               [1000, 4921000, 9841000])"
    by simp
  have "f64 82 = 82 \<and> loopBound ?lg nicotine < 2 ^ 53 \<and>
        (\<forall>k < 3. counterAt 82 k \<le> loopBound ?lg nicotine) \<and>
        \<not> counterAt 82 3 \<le> loopBound ?lg nicotine"
  proof (intro conjI allI impI)
    show "f64 82 = 82" using f64_of_nat[of 82] by simp
  next
    show "loopBound ?lg nicotine < 2 ^ 53" unfolding B by simp
  next
    fix k :: nat assume k: "k < 3"
    then have "real (k * 82) \<le> 164" by simp
    with c[of k] k show "counterAt 82 k \<le> loopBound ?lg nicotine" unfolding B by simp
  next
    show "\<not> counterAt 82 3 \<le> loopBound ?lg nicotine" using c[of 3] unfolding B by simp
  qed
  with generateTimeline_samples[where lg = "?lg" and s = nicotine and n = 3 and iv = 82]
  have "generateTimeline ?lg nicotine 82 =
      Some (map (\<lambda>k. timelinePoint ?lg nicotine (counterAt 82 k)) [0..<3])"
    by blast
  with first cs show ?thesis by (simp only:)
qed

text \<open>
  The claim as stated fails: 50 mg of caffeine lasts 9.9 h, and the bound of the loop is
  594 minutes; at the default interval of 15 minutes the 40 samples end at minute 585, and
  no sample is taken at minute 594.
\<close>

theorem timeline_endpoint_counterexample:
  "loopBound \<lparr>log_id = ''k'', substanceId = ''caffeine'', dosage = 50, timestamp = 0,
         expectedClearance = 69660000\<rparr> caffeine = 594 \<and>
   map time (the (generateTimeline
       \<lparr>log_id = ''k'', substanceId = ''caffeine'', dosage = 50, timestamp = 0,
         expectedClearance = 69660000\<rparr> caffeine 15)) =
     map (\<lambda>k. real k * 900000) [0..<40] \<and>
   594 * 60 * 1000 \<notin> set (map time (the (generateTimeline
       \<lparr>log_id = ''k'', substanceId = ''caffeine'', dosage = 50, timestamp = 0,
         expectedClearance = 69660000\<rparr> caffeine 15)))"
proof -
  let ?lg = "\<lparr>log_id = ''k'', substanceId = ''caffeine'', dosage = 50, timestamp = 0,
         expectedClearance = 69660000\<rparr>"
  have B: "loopBound ?lg caffeine = 594"
    unfolding loopBound_def using total_99 by (simp add: caffeine_50 mkPK_def)
  have n: "sampleCount 594 (real 15) = 40" by (simp add: sampleCount_def)
  have "generateTimeline ?lg caffeine (real 15) =
          Some (map (\<lambda>k. timelinePoint ?lg caffeine (real (k * 15))) [0..<40])"
    using generateTimeline_whole[of 15 ?lg caffeine] unfolding B n by simp
  then have g: "map time (the (generateTimeline ?lg caffeine 15)) =
      map (\<lambda>k. time (timelinePoint ?lg caffeine (real (k * 15)))) [0..<40]"
    by (simp add: comp_def del: upt_Suc)
  have "map (\<lambda>k. time (timelinePoint ?lg caffeine (real (k * 15)))) [0..<40] =
      map (\<lambda>k. real k * 900000) [0..<40]"
  proof (intro map_cong refl)
    fix k assume "k \<in> set [0..<40]"
    then have k: "k < 40" by simp
    have z: "timestamp ?lg = of_int 0" by simp
    have "\<bar>0\<bar> + int (k * 15 * 60000) < 2 ^ 53" using k by simp
    from timelinePoint_time[OF z this, of caffeine]
    show "time (timelinePoint ?lg caffeine (real (k * 15))) = real k * 900000" by simp
  qed
  with g have t: "map time (the (generateTimeline ?lg caffeine 15)) =
      map (\<lambda>k. real k * 900000) [0..<40]" by simp
  have "real k * 900000 \<noteq> 594 * 60 * 1000" for k :: nat
  proof
    assume "real k * 900000 = 594 * 60 * 1000"
    then have "real (k * 900000) = real 35640000" by simp
    then have "k * 900000 = 35640000" by (simp only: of_nat_eq_iff)
    then have "5 * k = 198" by simp
    then show False by presburger
  qed
  then have "594 * 60 * 1000 \<notin> set (map (\<lambda>k. real k * 900000) [0..<40])" by (auto simp del: upt_Suc)
  with B t show ?thesis by (simp only:) simp
qed

section \<open>The tolerance score (claim C6)\<close>

lemma of_char_digitChar: "n < 10 \<Longrightarrow> of_char (digitChar n) = 48 + n"
  by (simp add: digitChar_def)

lemma digitChar_inj: "n < 10 \<Longrightarrow> m < 10 \<Longrightarrow> digitChar n = digitChar m \<Longrightarrow> n = m"
  using of_char_digitChar[of n] of_char_digitChar[of m] by (metis add_left_cancel)

lemma digitChar_not_minus: "n < 10 \<Longrightarrow> digitChar n \<noteq> CHR ''-''"
proof
  assume "n < 10" "digitChar n = CHR ''-''"
  then have "(of_char (digitChar n) :: nat) = of_char (CHR ''-'')" by simp
  with \<open>n < 10\<close> show False by (simp add: of_char_digitChar)
qed

lemma showNat_nonempty: "showNat n \<noteq> []"
  by (subst showNat.simps) simp

lemma showNat_no_minus: "CHR ''-'' \<notin> set (showNat n)"
proof (induction n rule: showNat.induct)
  case (1 n)
  show ?case
  proof (cases "n < 10")
    case True
    then show ?thesis using digitChar_not_minus[of n] by (subst showNat.simps) auto
  next
    case False
    then show ?thesis using "1.IH" digitChar_not_minus[of "n mod 10"]
      by (subst showNat.simps) auto
  qed
qed

lemma showNat_inj: "showNat n = showNat m \<Longrightarrow> n = m"
proof (induction n arbitrary: m rule: showNat.induct)
  case (1 n)
  show ?case
  proof (cases "n < 10")
    case n: True
    show ?thesis
    proof (cases "m < 10")
      case True
      have "showNat n = [digitChar n]" using n by (subst showNat.simps) simp
      moreover have "showNat m = [digitChar m]" using True by (subst showNat.simps) simp
      ultimately have "digitChar n = digitChar m" using "1.prems" by simp
      with n True show ?thesis by (intro digitChar_inj)
    next
      case False
      have "showNat n = [digitChar n]" using n by (subst showNat.simps) simp
      moreover have "showNat m = showNat (m div 10) @ [digitChar (m mod 10)]"
        using False by (subst showNat.simps) simp
      ultimately show ?thesis using "1.prems" showNat_nonempty[of "m div 10"] by simp
    qed
  next
    case n: False
    have sn: "showNat n = showNat (n div 10) @ [digitChar (n mod 10)]"
      using n by (subst showNat.simps) simp
    show ?thesis
    proof (cases "m < 10")
      case True
      then have "showNat m = [digitChar m]" by (subst showNat.simps) simp
      with sn "1.prems" showNat_nonempty[of "n div 10"] show ?thesis by simp
    next
      case False
      then have "showNat m = showNat (m div 10) @ [digitChar (m mod 10)]"
        by (subst showNat.simps) simp
      with sn "1.prems" have a: "showNat (n div 10) = showNat (m div 10)"
        and b: "digitChar (n mod 10) = digitChar (m mod 10)" by simp_all
      from "1.IH"[OF n a] have "n div 10 = m div 10" .
      moreover from b have "n mod 10 = m mod 10" by (intro digitChar_inj) simp_all
      ultimately show ?thesis by (metis div_mult_mod_eq)
    qed
  qed
qed

lemma showInt_inj: "showInt i = showInt j \<Longrightarrow> i = j"
proof -
  assume e: "showInt i = showInt j"
  have hd_nat: "hd (showNat n) \<noteq> CHR ''-''" for n
    using showNat_no_minus[of n] showNat_nonempty[of n] by (cases "showNat n") auto
  show ?thesis
  proof (cases "i < 0")
    case i: True
    show ?thesis
    proof (cases "j < 0")
      case True
      with i e have "showNat (nat (- i)) = showNat (nat (- j))" by (simp add: showInt_def)
      then have "nat (- i) = nat (- j)" by (rule showNat_inj)
      with i True show ?thesis by simp
    next
      case False
      with i e have "CHR ''-'' # showNat (nat (- i)) = showNat (nat j)" by (simp add: showInt_def)
      then have "hd (showNat (nat j)) = CHR ''-''" by (metis list.sel(1))
      with hd_nat show ?thesis by blast
    qed
  next
    case i: False
    show ?thesis
    proof (cases "j < 0")
      case True
      with i e have "showNat (nat i) = CHR ''-'' # showNat (nat (- j))" by (simp add: showInt_def)
      then have "hd (showNat (nat i)) = CHR ''-''" by (metis list.sel(1))
      with hd_nat show ?thesis by blast
    next
      case False
      with i e have "showNat (nat i) = showNat (nat j)" by (simp add: showInt_def)
      then have "nat i = nat j" by (rule showNat_inj)
      with i False show ?thesis by simp
    qed
  qed
qed

lemma split_at_first:
  "c \<notin> set xs \<Longrightarrow> c \<notin> set xs' \<Longrightarrow> xs @ c # ys = xs' @ c # ys' \<Longrightarrow> xs = xs' \<and> ys = ys'"
proof (induction xs arbitrary: xs')
  case Nil
  then show ?case by (cases xs') auto
next
  case (Cons x xs)
  then show ?case by (cases xs') auto
qed

lemma split_at_last:
  assumes "c \<notin> set ys" "c \<notin> set ys'" "xs @ c # ys = xs' @ c # ys'"
  shows "xs = xs' \<and> ys = ys'"
proof -
  from assms(3) have "rev (xs @ c # ys) = rev (xs' @ c # ys')" by simp
  then have "rev ys @ c # rev xs = rev ys' @ c # rev xs'" by simp
  with assms(1,2) have "rev ys = rev ys' \<and> rev xs = rev xs'"
    by (intro split_at_first) simp_all
  then show ?thesis by simp
qed

lemma dayKey_inj:
  assumes "0 \<le> month d" "0 \<le> date d" "0 \<le> month d'" "0 \<le> date d'"
    and "dayKey d = dayKey d'"
  shows "d = d'"
proof -
  have nm: "CHR ''-'' \<notin> set (showInt i)" if "0 \<le> i" for i
    using that showNat_no_minus by (simp add: showInt_def)
  from assms(5) have
    "(showInt (fullYear d) @ CHR ''-'' # showInt (month d)) @ CHR ''-'' # showInt (date d) =
     (showInt (fullYear d') @ CHR ''-'' # showInt (month d')) @ CHR ''-'' # showInt (date d')"
    by (simp add: dayKey_def)
  from split_at_last[OF nm[OF assms(2)] nm[OF assms(4)] this]
  have a: "showInt (fullYear d) @ CHR ''-'' # showInt (month d) =
           showInt (fullYear d') @ CHR ''-'' # showInt (month d')"
    and b: "showInt (date d) = showInt (date d')" by simp_all
  from split_at_last[OF nm[OF assms(1)] nm[OF assms(3)] a]
  have "showInt (fullYear d) = showInt (fullYear d')" "showInt (month d) = showInt (month d')"
    by simp_all
  with b have "fullYear d = fullYear d'" "month d = month d'" "date d = date d'"
    by (simp_all add: showInt_inj)
  then show ?thesis by simp
qed

lemma sorted_le_last: "sorted xs \<Longrightarrow> x \<in> set xs \<Longrightarrow> x \<le> last xs"
  by (induction xs) auto

lemma last_filter_holds: "xs \<noteq> [] \<Longrightarrow> P (last xs) \<Longrightarrow> last (filter P xs) = last xs"
  by (induction xs rule: rev_induct) auto

lemma last_sort_key:
  fixes f :: "'a \<Rightarrow> real"
  assumes "xs \<noteq> []"
  shows "last (sort_key f xs) = last (filter (\<lambda>x. f x = Max (f ` set xs)) xs)"
proof -
  let ?ys = "sort_key f xs"
  have ne: "?ys \<noteq> []" using assms by (metis length_sort length_0_conv)
  have "f y \<le> f (last ?ys)" if "y \<in> set xs" for y
  proof -
    have "f y \<in> set (map f ?ys)" using that by simp
    from sorted_le_last[OF sorted_sort_key this] show ?thesis using ne by (simp add: last_map)
  qed
  moreover have "last ?ys \<in> set xs" using ne last_in_set[of ?ys] by simp
  ultimately have M: "f (last ?ys) = Max (f ` set xs)"
    by (intro Max_eqI[symmetric]) auto
  then have "last (filter (\<lambda>x. f x = Max (f ` set xs)) ?ys) = last ?ys"
    using ne by (intro last_filter_holds) simp_all
  then show ?thesis by (simp only: sort_key_stable)
qed

lemma fold_insert_image: "fold (\<lambda>l s. insert (k l) s) xs A = k ` set xs \<union> A"
  by (induction xs arbitrary: A) auto

lemma calculateTolerance_closed:
  assumes valid: "\<forall>l \<in> set (recentLogs logs s now).
                   0 \<le> month (localDate (timestamp l)) \<and> 0 \<le> date (localDate (timestamp l))"
  shows "calculateTolerance localDate logs s now =
           (if recentLogs logs s now = [] then 100
            else max (100 - real (card ((\<lambda>l. localDate (timestamp l)) ` set (recentLogs logs s now))) *
                            toleranceRate (getDosePK s (dosage (mostRecent (recentLogs logs s now)))))
                     10)"
proof (cases "recentLogs logs s now = []")
  case True
  then show ?thesis by (simp add: calculateTolerance_def recentLogs_def Let_def)
next
  case False
  let ?rs = "recentLogs logs s now"
  have inj: "inj_on dayKey ((\<lambda>l. localDate (timestamp l)) ` set ?rs)"
    using valid by (intro inj_onI dayKey_inj) auto
  have "(\<lambda>l. dayKey (localDate (timestamp l))) ` set ?rs =
        dayKey ` ((\<lambda>l. localDate (timestamp l)) ` set ?rs)" by (simp add: image_image)
  then have card: "card ((\<lambda>l. dayKey (localDate (timestamp l))) ` set ?rs) =
        card ((\<lambda>l. localDate (timestamp l)) ` set ?rs)"
    using card_image[OF inj] by simp
  have len: "length (sort_key timestamp ?rs) \<noteq> 0" using False by simp
  show ?thesis
    using False len
    unfolding calculateTolerance_def Let_def recentLogs_def[symmetric]
    by (simp only: if_False fold_insert_image set_sort Un_empty_right card
        last_sort_key[OF False] mostRecent_def)
qed

lemma catalog_toleranceRate_nonneg:
  "s \<in> set substances \<Longrightarrow> 0 \<le> toleranceRate (getDosePK s dose)"
  by (auto simp: substances_def caffeine_def theanine_def nicotine_def tyrosine_def
      flmodafinil_def bromantane_def shilajit_def caffeine_getDosePK_def theanine_getDosePK_def
      nicotine_getDosePK_def tyrosine_getDosePK_def flmodafinil_getDosePK_def
      bromantane_getDosePK_def shilajit_getDosePK_def Let_def mkPK_def)

lemma trailingWindow_recentLogs:
  "\<forall>l \<in> set logs. timestamp l \<le> now \<Longrightarrow> trailingWindow logs s now = recentLogs logs s now"
  unfolding trailingWindow_def recentLogs_def by (intro filter_cong) auto

text \<open>
  Claim C6. The program calls \<open>calculateTolerance\<close> with a substance of the catalog, the
  store's history and the present time (\<open>SubstanceCard\<close>); every log of the history was
  stamped with the time of its logging, so no timestamp is after \<open>now\<close>, and no substance
  of the catalog has a negative tolerance rate. For such a history and such a substance
  (and a host calendar whose months and days of the month are not negative, so that the
  day keys are distinct exactly when the dates are) the result is the tolerance of the
  specification: 100 when no log of the substance lies in the 7 days that end at \<open>now\<close>
  (after \<open>now\<close> minus 7 days, up to \<open>now\<close>), and otherwise 100 minus the number of distinct
  local calendar days of those logs times the tolerance rate, resolved at the dose of the
  most recent of them, clamped to \<open>[10,100]\<close>. The result lies in \<open>[10,100]\<close>.
\<close>

theorem tolerance_formula:
  assumes stamped: "\<forall>l \<in> set logs. timestamp l \<le> now"
    and valid: "\<forall>l \<in> set (trailingWindow logs s now).
             0 \<le> month (localDate (timestamp l)) \<and> 0 \<le> date (localDate (timestamp l))"
    and rate: "\<forall>dose. 0 \<le> toleranceRate (getDosePK s dose)"
  shows "calculateTolerance localDate logs s now = toleranceSpec localDate logs s now \<and>
         10 \<le> calculateTolerance localDate logs s now \<and>
         calculateTolerance localDate logs s now \<le> 100 \<and>
         (s' \<in> set substances \<longrightarrow> 0 \<le> toleranceRate (getDosePK s' dose'))"
proof -
  note w = trailingWindow_recentLogs[OF stamped, of s]
  note c = calculateTolerance_closed[OF valid[unfolded w]]
  have nn: "0 \<le> real (card ((\<lambda>l. localDate (timestamp l)) ` set (recentLogs logs s now))) *
              toleranceRate (getDosePK s (dosage (mostRecent (recentLogs logs s now))))"
    using rate by (intro mult_nonneg_nonneg) simp_all
  have le: "calculateTolerance localDate logs s now \<le> 100" using nn unfolding c by simp
  have ge: "10 \<le> calculateTolerance localDate logs s now" unfolding c by simp
  have eq: "calculateTolerance localDate logs s now = toleranceSpec localDate logs s now"
    using nn unfolding c toleranceSpec_def Let_def w clamp_def by (simp add: max.commute)
  show ?thesis using le ge eq catalog_toleranceRate_nonneg[of s' dose'] by simp
qed

lemma nicotine_rate: "toleranceRate (getDosePK nicotine dose) = 12"
  by (simp add: nicotine_def nicotine_getDosePK_def Let_def mkPK_def)

theorem tolerance_formula_witness:
  "calculateTolerance january1970
     [nicotineLog 1000, nicotineLog 86401000, nicotineLog 86402000, nicotineLog 172801000,
      nicotineLog 259201000, nicotineLog 345601000] nicotine 432000000 = 40 \<and>
   toleranceSpec january1970
     [nicotineLog 1000, nicotineLog 86401000, nicotineLog 86402000, nicotineLog 172801000,
      nicotineLog 259201000, nicotineLog 345601000] nicotine 432000000 = 40 \<and>
   calculateTolerance january1970 [nicotineLog 1000] nicotine 604801000 = 100 \<and>
   calculateTolerance january1970 [] nicotine 432000000 = 100"
proof -
  let ?logs = "[nicotineLog 1000, nicotineLog 86401000, nicotineLog 86402000, nicotineLog 172801000,
      nicotineLog 259201000, nicotineLog 345601000]"
  have s: "\<forall>l \<in> set ?logs. timestamp l \<le> 432000000" by (simp add: nicotineLog_def)
  have w: "trailingWindow ?logs nicotine 432000000 = ?logs"
    by (simp add: trailingWindow_def nicotineLog_def nicotine_def)
  have v: "\<forall>l \<in> set (trailingWindow ?logs nicotine 432000000).
             0 \<le> month (january1970 (timestamp l)) \<and> 0 \<le> date (january1970 (timestamp l))"
    unfolding w by (simp add: nicotineLog_def january1970_def)
  have rt: "\<forall>dose. 0 \<le> toleranceRate (getDosePK nicotine dose)" by (simp add: nicotine_rate)
  have days: "(\<lambda>l. january1970 (timestamp l)) ` set ?logs =
      {\<lparr>fullYear = 1970, month = 0, date = 1\<rparr>, \<lparr>fullYear = 1970, month = 0, date = 2\<rparr>,
       \<lparr>fullYear = 1970, month = 0, date = 3\<rparr>, \<lparr>fullYear = 1970, month = 0, date = 4\<rparr>,
       \<lparr>fullYear = 1970, month = 0, date = 5\<rparr>}"
    by (simp add: nicotineLog_def january1970_def)
  have c: "card ((\<lambda>l. january1970 (timestamp l)) ` set ?logs) = 5"
    unfolding days by simp
  have sp: "toleranceSpec january1970 ?logs nicotine 432000000 = 40"
    unfolding toleranceSpec_def Let_def w c nicotine_rate by (simp add: clamp_def)
  have s1: "\<forall>l \<in> set [nicotineLog 1000]. timestamp l \<le> 604801000" by (simp add: nicotineLog_def)
  have v1: "\<forall>l \<in> set (trailingWindow [nicotineLog 1000] nicotine 604801000).
             0 \<le> month (january1970 (timestamp l)) \<and> 0 \<le> date (january1970 (timestamp l))"
    by (simp add: trailingWindow_def nicotineLog_def january1970_def)
  have sp1: "toleranceSpec january1970 [nicotineLog 1000] nicotine 604801000 = 100"
    by (simp add: toleranceSpec_def trailingWindow_def nicotineLog_def)
  have s0: "\<forall>l \<in> set ([]::SubstanceLog list). timestamp l \<le> 432000000" by simp
  have v0: "\<forall>l \<in> set (trailingWindow [] nicotine 432000000).
             0 \<le> month (january1970 (timestamp l)) \<and> 0 \<le> date (january1970 (timestamp l))"
    by (simp add: trailingWindow_def)
  have sp0: "toleranceSpec january1970 [] nicotine 432000000 = 100"
    by (simp add: toleranceSpec_def trailingWindow_def)
  from tolerance_formula[OF s v rt] tolerance_formula[OF s1 v1 rt] tolerance_formula[OF s0 v0 rt]
  show ?thesis using sp sp1 sp0 by simp
qed

section \<open>A recomputation writes fresh objects only (claim C4)\<close>

lemma sameShape_refl: "sameShape h h"
  by (simp add: sameShape_def)

lemma sameShape_trans: "sameShape h h1 \<Longrightarrow> sameShape h1 h2 \<Longrightarrow> sameShape h h2"
  by (simp add: sameShape_def)

lemma agreesOutside_refl: "agreesOutside N R A h h"
  by (simp add: agreesOutside_def)

lemma agreesOutside_trans:
  "agreesOutside N R A h h1 \<Longrightarrow> agreesOutside N R A h1 h2 \<Longrightarrow> agreesOutside N R A h h2"
  by (simp add: agreesOutside_def)

lemma agreesOutside_mono:
  "agreesOutside N R A h h' \<Longrightarrow> N \<subseteq> N' \<Longrightarrow> R \<subseteq> R' \<Longrightarrow> A \<subseteq> A' \<Longrightarrow>
   agreesOutside N' R' A' h h'"
  by (auto simp: agreesOutside_def)

lemma readReceptor_agrees:
  "agreesOutside N R A h h' \<Longrightarrow> b \<notin> R \<Longrightarrow> arrOf h b \<notin> A \<Longrightarrow>
   readReceptor h' b = readReceptor h b"
  by (simp add: agreesOutside_def readReceptor_def arrOf_def)

lemma readNT_agrees:
  assumes "agreesOutside N R A h h'" "n \<notin> N" "set (recsOf h n) \<inter> R = {}"
    "arrOf h ` set (recsOf h n) \<inter> A = {}"
  shows "readNT h' n = readNT h n"
proof -
  have o: "ntObjs h' n = ntObjs h n" using assms(1,2) by (simp add: agreesOutside_def)
  have "readReceptor h' b = readReceptor h b" if "b \<in> set (recsOf h n)" for b
    using that assms(3,4) by (intro readReceptor_agrees[OF assms(1)]) auto
  then have "map (readReceptor h') (n_receptors (ntObjs h n)) =
             map (readReceptor h) (n_receptors (ntObjs h n))"
    by (simp add: recsOf_def)
  with o show ?thesis by (simp add: readNT_def)
qed

text \<open>One round of the innermost loop, on the objects and on the values.\<close>

lemma objReceptorStep_refines:
  assumes "receptorStep s imp lg (n_currentLevel (ntObjs h n), n_status (ntObjs h n))
             (readReceptor h b) = ((lvl', stat'), r')"
  shows "objReceptorStep s imp lg n b h =
           h\<lparr>arrays := (arrays h)(arrOf h b := statusEffects r'),
             rcObjs := (rcObjs h)(b := (rcObjs h b)\<lparr>o_sensitivity := sensitivity r'\<rparr>),
             ntObjs := (ntObjs h)(n := (ntObjs h n)\<lparr>n_currentLevel := lvl', n_status := stat'\<rparr>)\<rparr>"
proof (cases "imp (o_id (rcObjs h b))")
  case None
  with assms show ?thesis
    by (auto simp: objReceptorStep_def receptorStep_def readReceptor_def arrOf_def)
next
  case (Some impact)
  show ?thesis
  proof (cases "find (\<lambda>i. receptorId i = o_id (rcObjs h b)) (receptorInteractions s)")
    case None
    with Some assms show ?thesis
      by (auto simp: objReceptorStep_def receptorStep_def readReceptor_def arrOf_def)
  next
    case (Some interaction)
    with \<open>imp (o_id (rcObjs h b)) = Some impact\<close> assms show ?thesis
      by (cases "ri_type interaction")
         (auto simp: objReceptorStep_def receptorStep_def readReceptor_def arrOf_def
            applyInteraction_def Let_def fun_upd_twist)
  qed
qed

lemma objReceptorStep_effect:
  assumes "receptorStep s imp lg (n_currentLevel (ntObjs h n), n_status (ntObjs h n))
             (readReceptor h b) = ((lvl', stat'), r')"
  shows "ntObjs (objReceptorStep s imp lg n b h) =
           (ntObjs h)(n := (ntObjs h n)\<lparr>n_currentLevel := lvl', n_status := stat'\<rparr>)"
    and "readReceptor (objReceptorStep s imp lg n b h) b = r'"
    and "sameShape h (objReceptorStep s imp lg n b h)"
    and "agreesOutside {n} {b} {arrOf h b} h (objReceptorStep s imp lg n b h)"
proof -
  note eq = objReceptorStep_refines[OF assms]
  show "ntObjs (objReceptorStep s imp lg n b h) =
           (ntObjs h)(n := (ntObjs h n)\<lparr>n_currentLevel := lvl', n_status := stat'\<rparr>)"
    by (simp add: eq)
  have id: "rc_id r' = rc_id (readReceptor h b)" "subtype r' = subtype (readReceptor h b)"
    "label r' = label (readReceptor h b)" "occupancy r' = occupancy (readReceptor h b)"
    using assms
    by (auto simp: receptorStep_def applyInteraction_def Let_def
        split: option.splits StatusEffectType.splits)
  then show "readReceptor (objReceptorStep s imp lg n b h) b = r'"
    by (simp add: eq readReceptor_def arrOf_def)
  show "sameShape h (objReceptorStep s imp lg n b h)"
    by (auto simp: eq sameShape_def recsOf_def arrOf_def fun_eq_iff)
  show "agreesOutside {n} {b} {arrOf h b} h (objReceptorStep s imp lg n b h)"
    by (simp add: eq agreesOutside_def)
qed

lemma sameShape_arrOf: "sameShape h h' \<Longrightarrow> arrOf h' b = arrOf h b"
  by (simp add: sameShape_def)

lemma sameShape_recsOf: "sameShape h h' \<Longrightarrow> recsOf h' n = recsOf h n"
  by (simp add: sameShape_def)

text \<open>The loop over the receptors of one neurotransmitter.\<close>

lemma objReceptorLoop_refines:
  assumes "distinct bs" "distinct (map (arrOf h) bs)"
    and "receptorLoop s imp lg (n_currentLevel (ntObjs h n), n_status (ntObjs h n))
           (map (readReceptor h) bs) = ((lvl', stat'), rs')"
  shows "ntObjs (fold (objReceptorStep s imp lg n) bs h) =
           (ntObjs h)(n := (ntObjs h n)\<lparr>n_currentLevel := lvl', n_status := stat'\<rparr>) \<and>
         map (readReceptor (fold (objReceptorStep s imp lg n) bs h)) bs = rs' \<and>
         sameShape h (fold (objReceptorStep s imp lg n) bs h) \<and>
         agreesOutside {n} (set bs) (arrOf h ` set bs) h (fold (objReceptorStep s imp lg n) bs h)"
  using assms
proof (induction bs arbitrary: h lvl' stat' rs')
  case Nil
  then show ?case by (auto simp: sameShape_refl agreesOutside_refl)
next
  case (Cons b bs)
  let ?st = "(n_currentLevel (ntObjs h n), n_status (ntObjs h n))"
  obtain lvl1 stat1 r1 where s1: "receptorStep s imp lg ?st (readReceptor h b) = ((lvl1, stat1), r1)"
    by (metis surj_pair)
  let ?h1 = "objReceptorStep s imp lg n b h"
  note e = objReceptorStep_effect[OF s1]
  have st1: "(n_currentLevel (ntObjs ?h1 n), n_status (ntObjs ?h1 n)) = (lvl1, stat1)"
    by (simp add: e(1))
  have arr1: "arrOf ?h1 = arrOf h" using e(3) by (simp add: sameShape_def)
  from Cons.prems(1,2) have nb: "b \<notin> set bs" and na: "arrOf h b \<notin> arrOf h ` set bs"
    by auto
  have same: "map (readReceptor ?h1) bs = map (readReceptor h) bs"
  proof (rule map_cong[OF refl])
    fix x assume "x \<in> set bs"
    with nb na have "x \<notin> {b}" "arrOf h x \<notin> {arrOf h b}" by (auto simp: image_iff)
    then show "readReceptor ?h1 x = readReceptor h x" by (rule readReceptor_agrees[OF e(4)])
  qed
  obtain lvl2 stat2 rs2 where s2:
    "receptorLoop s imp lg (lvl1, stat1) (map (readReceptor h) bs) = ((lvl2, stat2), rs2)"
    by (metis surj_pair)
  from Cons.prems(3) s1 s2 have res: "lvl' = lvl2" "stat' = stat2" "rs' = r1 # rs2" by simp_all
  have d1: "distinct bs" "distinct (map (arrOf ?h1) bs)"
    using Cons.prems(1,2) by (simp_all add: arr1)
  have s2': "receptorLoop s imp lg (n_currentLevel (ntObjs ?h1 n), n_status (ntObjs ?h1 n))
               (map (readReceptor ?h1) bs) = ((lvl2, stat2), rs2)"
    using s2 by (simp add: st1 same)
  let ?h2 = "fold (objReceptorStep s imp lg n) bs ?h1"
  note IH = Cons.IH[OF d1 s2']
  note i1 = IH[THEN conjunct1] and i2 = IH[THEN conjunct2, THEN conjunct1]
    and i3 = IH[THEN conjunct2, THEN conjunct2, THEN conjunct1]
    and i4 = IH[THEN conjunct2, THEN conjunct2, THEN conjunct2]
  have "readReceptor ?h2 b = readReceptor ?h1 b"
    using nb na by (intro readReceptor_agrees[OF i4]) (simp_all add: arr1)
  then have rb: "readReceptor ?h2 b = r1" by (simp add: e(2))
  have a: "ntObjs ?h2 = (ntObjs h)(n := (ntObjs h n)\<lparr>n_currentLevel := lvl2, n_status := stat2\<rparr>)"
    unfolding i1 e(1) by (auto simp: fun_eq_iff)
  have b: "agreesOutside {n} (set (b # bs)) (arrOf h ` set (b # bs)) h ?h2"
  proof (rule agreesOutside_trans)
    show "agreesOutside {n} (set (b # bs)) (arrOf h ` set (b # bs)) h ?h1"
      by (rule agreesOutside_mono[OF e(4)]) auto
    show "agreesOutside {n} (set (b # bs)) (arrOf h ` set (b # bs)) ?h1 ?h2"
      by (rule agreesOutside_mono[OF i4]) (auto simp: arr1)
  qed
  show ?case
    using a rb i2 sameShape_trans[OF e(3) i3] b by (simp add: res)
qed

lemma objApplyToNT_refines:
  assumes "distinct (recsOf h n)" "distinct (map (arrOf h) (recsOf h n))"
  shows "readNT (objApplyToNT s imp lg n h) n = applyToNT s imp lg (readNT h n)"
    and "sameShape h (objApplyToNT s imp lg n h)"
    and "agreesOutside {n} (set (recsOf h n)) (arrOf h ` set (recsOf h n)) h
           (objApplyToNT s imp lg n h)"
proof -
  let ?bs = "recsOf h n"
  let ?h' = "objApplyToNT s imp lg n h"
  obtain lvl' stat' rs' where l:
    "receptorLoop s imp lg (n_currentLevel (ntObjs h n), n_status (ntObjs h n))
       (map (readReceptor h) ?bs) = ((lvl', stat'), rs')"
    by (metis surj_pair)
  have h': "?h' = fold (objReceptorStep s imp lg n) ?bs h"
    by (simp add: objApplyToNT_def recsOf_def)
  note L = objReceptorLoop_refines[OF assms l, folded h']
  note a = L[THEN conjunct1] and b = L[THEN conjunct2, THEN conjunct1]
    and c = L[THEN conjunct2, THEN conjunct2, THEN conjunct1]
    and d = L[THEN conjunct2, THEN conjunct2, THEN conjunct2]
  show "sameShape h ?h'" by (rule c)
  show "agreesOutside {n} (set ?bs) (arrOf h ` set ?bs) h ?h'" by (rule d)
  have "n_receptors (ntObjs ?h' n) = ?bs" using a by (simp add: recsOf_def)
  then show "readNT ?h' n = applyToNT s imp lg (readNT h n)"
    using a b l by (simp add: readNT_def applyToNT_def recsOf_def)
qed

lemma sameShape_rcsOfList: "sameShape h h' \<Longrightarrow> rcsOfList h' us = rcsOfList h us"
  by (simp add: rcsOfList_def sameShape_def)

lemma sameShape_owned: "sameShape h h' \<Longrightarrow> owned h' us = owned h us"
  using sameShape_rcsOfList[of h h' us] by (simp add: owned_def sameShape_def)

lemma owned_Cons:
  assumes "owned h (v # vs)"
  shows "owned h vs" "distinct (recsOf h v)" "distinct (map (arrOf h) (recsOf h v))"
    "v \<notin> set vs" "set (recsOf h v) \<inter> set (rcsOfList h vs) = {}"
    "arrOf h ` set (recsOf h v) \<inter> arrOf h ` set (rcsOfList h vs) = {}"
proof -
  from assms have d: "distinct (v # vs)" "distinct (recsOf h v @ rcsOfList h vs)"
    "distinct (map (arrOf h) (recsOf h v) @ map (arrOf h) (rcsOfList h vs))"
    by (simp_all add: owned_def rcsOfList_def)
  show "owned h vs" using d by (simp add: owned_def)
  show "distinct (recsOf h v)" using d(2) by simp
  show "distinct (map (arrOf h) (recsOf h v))" using d(3) by simp
  show "v \<notin> set vs" using d(1) by simp
  show "set (recsOf h v) \<inter> set (rcsOfList h vs) = {}" using d(2) by simp
  show "arrOf h ` set (recsOf h v) \<inter> arrOf h ` set (rcsOfList h vs) = {}" using d(3) by simp
qed

lemma rcsOfList_mem: "w \<in> set vs \<Longrightarrow> set (recsOf h w) \<subseteq> set (rcsOfList h vs)"
  by (auto simp: rcsOfList_def)

text \<open>The loop over the neurotransmitters of the snapshot, for one log.\<close>

lemma objApplyToNTs_refines:
  assumes "owned h us"
  shows "map (readNT (fold (objApplyToNT s imp lg) us h)) us =
           map (applyToNT s imp lg) (map (readNT h) us) \<and>
         sameShape h (fold (objApplyToNT s imp lg) us h) \<and>
         agreesOutside (set us) (set (rcsOfList h us)) (arrOf h ` set (rcsOfList h us)) h
           (fold (objApplyToNT s imp lg) us h)"
  using assms
proof (induction us arbitrary: h)
  case Nil
  show ?case by (simp add: sameShape_refl agreesOutside_refl)
next
  case (Cons v vs)
  note o = owned_Cons[OF Cons.prems]
  let ?h1 = "objApplyToNT s imp lg v h"
  let ?h2 = "fold (objApplyToNT s imp lg) vs ?h1"
  note n = objApplyToNT_refines[OF o(2,3), of s imp lg]
  have shape1: "recsOf ?h1 = recsOf h" "arrOf ?h1 = arrOf h" "rcsOfList ?h1 vs = rcsOfList h vs"
    using n(2) sameShape_rcsOfList[OF n(2)] by (simp_all add: sameShape_def)
  have o1: "owned ?h1 vs" using o(1) by (simp only: sameShape_owned[OF n(2)])
  note IH = Cons.IH[OF o1]
  note i1 = IH[THEN conjunct1] and i2 = IH[THEN conjunct2, THEN conjunct1]
    and i3 = IH[THEN conjunct2, THEN conjunct2, unfolded shape1]
  have others: "readNT ?h1 w = readNT h w" if "w \<in> set vs" for w
  proof (rule readNT_agrees[OF n(3)])
    show "w \<notin> {v}" using that o(4) by auto
    show "set (recsOf h w) \<inter> set (recsOf h v) = {}"
      using rcsOfList_mem[OF that, of h] o(5) by (simp add: disjoint_iff subset_iff) metis
    have "arrOf h ` set (recsOf h w) \<subseteq> arrOf h ` set (rcsOfList h vs)"
      by (rule image_mono[OF rcsOfList_mem[OF that]])
    with o(6) show "arrOf h ` set (recsOf h w) \<inter> arrOf h ` set (recsOf h v) = {}"
      by (simp add: disjoint_iff subset_iff) metis
  qed
  then have others': "map (readNT ?h1) vs = map (readNT h) vs"
    by (intro map_cong[OF refl])
  have first: "readNT ?h2 v = readNT ?h1 v"
  proof (rule readNT_agrees[OF i3])
    show "v \<notin> set vs" by (rule o(4))
    show "set (recsOf ?h1 v) \<inter> set (rcsOfList h vs) = {}" using o(5) by (simp add: shape1)
    show "arrOf ?h1 ` set (recsOf ?h1 v) \<inter> arrOf h ` set (rcsOfList h vs) = {}"
      using o(6) by (simp add: shape1)
  qed
  have m: "map (readNT ?h2) (v # vs) = map (applyToNT s imp lg) (map (readNT h) (v # vs))"
    using i1 first n(1) by (simp add: others')
  have fp: "set (rcsOfList h (v # vs)) = set (recsOf h v) \<union> set (rcsOfList h vs)"
    by (simp add: rcsOfList_def)
  have ag: "agreesOutside (set (v # vs)) (set (rcsOfList h (v # vs)))
              (arrOf h ` set (rcsOfList h (v # vs))) h ?h2"
  proof (rule agreesOutside_trans)
    show "agreesOutside (set (v # vs)) (set (rcsOfList h (v # vs)))
              (arrOf h ` set (rcsOfList h (v # vs))) h ?h1"
      by (rule agreesOutside_mono[OF n(3)]) (auto simp: fp)
    show "agreesOutside (set (v # vs)) (set (rcsOfList h (v # vs)))
              (arrOf h ` set (rcsOfList h (v # vs))) ?h1 ?h2"
      by (rule agreesOutside_mono[OF i3]) (auto simp: fp)
  qed
  show ?case using m sameShape_trans[OF n(2) i2] ag by simp
qed

text \<open>One round of the loop over the active logs, and the whole loop.\<close>

lemma objApplyLog_refines:
  assumes "owned h us"
  shows "map (readNT (objApplyLog catalog now us lg h)) us =
           applyLog catalog now lg (map (readNT h) us) \<and>
         sameShape h (objApplyLog catalog now us lg h) \<and>
         agreesOutside (set us) (set (rcsOfList h us)) (arrOf h ` set (rcsOfList h us)) h
           (objApplyLog catalog now us lg h)"
proof (cases "catalog (substanceId lg)")
  case None
  then show ?thesis
    by (simp add: objApplyLog_def applyLog_def sameShape_refl agreesOutside_refl)
next
  case (Some s)
  show ?thesis
  proof (cases "getEffectiveness lg s now < 1")
    case True
    with Some show ?thesis
      by (simp add: objApplyLog_def applyLog_def sameShape_refl agreesOutside_refl)
  next
    case False
    with Some objApplyToNTs_refines[OF assms, of s _ lg] show ?thesis
      by (simp add: objApplyLog_def applyLog_def Let_def)
  qed
qed

lemma objApplyLogs_refines:
  assumes "owned h us"
  shows "map (readNT (fold (objApplyLog catalog now us) ls h)) us =
           fold (applyLog catalog now) ls (map (readNT h) us) \<and>
         sameShape h (fold (objApplyLog catalog now us) ls h) \<and>
         agreesOutside (set us) (set (rcsOfList h us)) (arrOf h ` set (rcsOfList h us)) h
           (fold (objApplyLog catalog now us) ls h)"
  using assms
proof (induction ls arbitrary: h)
  case Nil
  show ?case by (simp add: sameShape_refl agreesOutside_refl)
next
  case (Cons l ls)
  let ?h1 = "objApplyLog catalog now us l h"
  note s = objApplyLog_refines[OF Cons.prems, of catalog now l]
  note s1 = s[THEN conjunct1] and s2 = s[THEN conjunct2, THEN conjunct1]
    and s3 = s[THEN conjunct2, THEN conjunct2]
  have shape1: "arrOf ?h1 = arrOf h" "rcsOfList ?h1 us = rcsOfList h us"
    using s2 sameShape_rcsOfList[OF s2] by (simp_all add: sameShape_def)
  have o1: "owned ?h1 us" using Cons.prems by (simp only: sameShape_owned[OF s2])
  note IH = Cons.IH[OF o1]
  note i1 = IH[THEN conjunct1] and i2 = IH[THEN conjunct2, THEN conjunct1]
    and i3 = IH[THEN conjunct2, THEN conjunct2, unfolded shape1]
  show ?case
    using i1 s1 sameShape_trans[OF s2 i2] agreesOutside_trans[OF s3 i3] by simp
qed

lemma extends_refl: "extends h h"
  by (simp add: extends_def)

lemma extends_trans: "extends h h1 \<Longrightarrow> extends h1 h2 \<Longrightarrow> extends h h2"
  by (auto simp: extends_def)

lemma extends_closed:
  assumes "extends h h'" "ntClosed h n"
  shows "readNT h' n = readNT h n" "ntClosed h' n" "recsOf h' n = recsOf h n"
    "\<forall>b \<in> set (recsOf h n). arrOf h' b = arrOf h b"
proof -
  from assms have n: "ntObjs h' n = ntObjs h n" by (simp add: extends_def ntClosed_def)
  then show r: "recsOf h' n = recsOf h n" by (simp add: recsOf_def)
  have b: "rcObjs h' b = rcObjs h b \<and> arrays h' (arrOf h b) = arrays h (arrOf h b)"
    if "b \<in> set (recsOf h n)" for b
    using that assms by (simp add: extends_def ntClosed_def)
  then show a: "\<forall>b \<in> set (recsOf h n). arrOf h' b = arrOf h b" by (simp add: arrOf_def)
  have "map (readReceptor h') (recsOf h n) = map (readReceptor h) (recsOf h n)"
    using b by (intro map_cong[OF refl]) (simp add: readReceptor_def arrOf_def)
  then show "readNT h' n = readNT h n" using n by (simp add: readNT_def recsOf_def)
  show "ntClosed h' n" using assms r a by (auto simp: ntClosed_def extends_def)
qed

lemma freshIn_closed: "freshIn lo h us \<Longrightarrow> n \<in> set us \<Longrightarrow> ntClosed h n"
  by (auto simp: freshIn_def ntClosed_def)

text \<open>Copying one receptor, and the receptors of one neurotransmitter.\<close>

lemma copyReceptor_effect:
  assumes "copyReceptor baseNT hour r h = (h', b)"
  shows "b = Suc (nextRef h)" "arrOf h' b = nextRef h" "nextRef h' = Suc (Suc (nextRef h))"
    "extends h h'" "ntObjs h' = ntObjs h"
    "readReceptor h' b =
       \<lparr>rc_id = o_id (rcObjs h r), subtype = o_subtype (rcObjs h r), label = o_label (rcObjs h r),
        sensitivity = 100,
        occupancy = n_circadianRhythm baseNT hour * (o_occupancy (rcObjs h r) / n_baselineLevel baseNT),
        statusEffects = []\<rparr>"
  using assms
  by (auto simp: copyReceptor_def newArray_def newReceptor_def arrOf_def extends_def
      readReceptor_def)

lemma copyReceptors_effect:
  assumes "copyReceptors baseNT hour rs h = (h', bs)" "\<forall>r \<in> set rs. r < nextRef h"
  shows "extends h h' \<and> ntObjs h' = ntObjs h \<and>
         map (readReceptor h') bs =
           map (\<lambda>r. \<lparr>rc_id = o_id (rcObjs h r), subtype = o_subtype (rcObjs h r),
                      label = o_label (rcObjs h r), sensitivity = 100,
                      occupancy = n_circadianRhythm baseNT hour *
                                    (o_occupancy (rcObjs h r) / n_baselineLevel baseNT),
                      statusEffects = []\<rparr>) rs \<and>
         (\<forall>b \<in> set bs. nextRef h \<le> b \<and> b < nextRef h' \<and>
                        nextRef h \<le> arrOf h' b \<and> arrOf h' b < nextRef h') \<and>
         distinct bs \<and> distinct (map (arrOf h') bs)"
  using assms
proof (induction rs arbitrary: h h' bs)
  case Nil
  then show ?case by (auto simp: extends_refl)
next
  case (Cons r rs)
  obtain h1 b where c1: "copyReceptor baseNT hour r h = (h1, b)" by (metis surj_pair)
  obtain h2 bs2 where c2: "copyReceptors baseNT hour rs h1 = (h2, bs2)" by (metis surj_pair)
  from Cons.prems(1) c1 c2 have res: "h' = h2" "bs = b # bs2" by simp_all
  note e = copyReceptor_effect[OF c1]
  have lt: "\<forall>r \<in> set rs. r < nextRef h1" using Cons.prems(2) e(3) by auto
  note IH = Cons.IH[OF c2 lt]
  note i1 = IH[THEN conjunct1] and i2 = IH[THEN conjunct2, THEN conjunct1]
    and i3 = IH[THEN conjunct2, THEN conjunct2, THEN conjunct1]
    and i4 = IH[THEN conjunct2, THEN conjunct2, THEN conjunct2, THEN conjunct1]
    and i5 = IH[THEN conjunct2, THEN conjunct2, THEN conjunct2, THEN conjunct2, THEN conjunct1]
    and i6 = IH[THEN conjunct2, THEN conjunct2, THEN conjunct2, THEN conjunct2, THEN conjunct2]
  have old: "rcObjs h1 x = rcObjs h x" if "x \<in> set (r # rs)" for x
    using that Cons.prems(2) e(4) by (auto simp: extends_def)
  have b_keep: "rcObjs h2 b = rcObjs h1 b" "arrays h2 (arrOf h1 b) = arrays h1 (arrOf h1 b)"
    using i1 e(1,2,3) by (simp_all add: extends_def)
  then have rb: "readReceptor h2 b = readReceptor h1 b" "arrOf h2 b = arrOf h1 b"
    by (simp_all add: readReceptor_def arrOf_def)
  have m: "map (readReceptor h2) (b # bs2) =
           map (\<lambda>r. \<lparr>rc_id = o_id (rcObjs h r), subtype = o_subtype (rcObjs h r),
                      label = o_label (rcObjs h r), sensitivity = 100,
                      occupancy = n_circadianRhythm baseNT hour *
                                    (o_occupancy (rcObjs h r) / n_baselineLevel baseNT),
                      statusEffects = []\<rparr>) (r # rs)"
    using i3 rb(1) e(6) old by (simp cong: map_cong)
  have rng: "\<forall>x \<in> set (b # bs2). nextRef h \<le> x \<and> x < nextRef h2 \<and>
                        nextRef h \<le> arrOf h2 x \<and> arrOf h2 x < nextRef h2"
    using i4 i1 e(1,2,3) rb(2) by (auto simp: extends_def)
  have d: "distinct (b # bs2)" "distinct (map (arrOf h2) (b # bs2))"
    using i4 i5 i6 e(1,2,3) rb(2) by (auto simp: image_iff)
  show ?case
    using extends_trans[OF e(4) i1] i2 e(5) m rng d by (simp add: res)
qed

lemma resetReceptor_read:
  "resetReceptor (readNT h n) hour (readReceptor h r) =
     \<lparr>rc_id = o_id (rcObjs h r), subtype = o_subtype (rcObjs h r), label = o_label (rcObjs h r),
      sensitivity = 100,
      occupancy = n_circadianRhythm (ntObjs h n) hour *
                    (o_occupancy (rcObjs h r) / n_baselineLevel (ntObjs h n)),
      statusEffects = []\<rparr>"
  by (simp add: resetReceptor_def readNT_def readReceptor_def)

text \<open>Copying one neurotransmitter, and all of them.\<close>

lemma copyNT_effect:
  assumes "copyNT hour n h = (h', m)" "ntClosed h n"
  shows "extends h h'" "nextRef h \<le> m" "m < nextRef h'"
    "readNT h' m = resetNT hour (readNT h n)"
    "\<forall>b \<in> set (recsOf h' m). nextRef h \<le> b \<and> b < nextRef h' \<and>
                                nextRef h \<le> arrOf h' b \<and> arrOf h' b < nextRef h'"
    "distinct (recsOf h' m)" "distinct (map (arrOf h') (recsOf h' m))"
proof -
  obtain h1 bs where c: "copyReceptors (ntObjs h n) hour (recsOf h n) h = (h1, bs)"
    by (metis surj_pair)
  have lt: "\<forall>r \<in> set (recsOf h n). r < nextRef h" using assms(2) by (simp add: ntClosed_def)
  note E = copyReceptors_effect[OF c lt]
  note e1 = E[THEN conjunct1] and e2 = E[THEN conjunct2, THEN conjunct1]
    and e3 = E[THEN conjunct2, THEN conjunct2, THEN conjunct1]
    and e4 = E[THEN conjunct2, THEN conjunct2, THEN conjunct2, THEN conjunct1]
    and e5 = E[THEN conjunct2, THEN conjunct2, THEN conjunct2, THEN conjunct2, THEN conjunct1]
    and e6 = E[THEN conjunct2, THEN conjunct2, THEN conjunct2, THEN conjunct2, THEN conjunct2]
  let ?ob = "(ntObjs h n)\<lparr>n_currentLevel := n_circadianRhythm (ntObjs h n) hour,
               n_receptors := bs, n_status := Stable\<rparr>"
  from assms(1) c have h': "h' = h1\<lparr>ntObjs := (ntObjs h1)(nextRef h1 := ?ob), nextRef := Suc (nextRef h1)\<rparr>"
    and m: "m = nextRef h1"
    by (auto simp: copyNT_def recsOf_def newNeurotransmitter_def)
  have same: "rcObjs h' = rcObjs h1" "arrays h' = arrays h1" "arrOf h' = arrOf h1"
    "readReceptor h' = readReceptor h1"
    by (simp_all add: h' arrOf_def readReceptor_def fun_eq_iff)
  have recs: "recsOf h' m = bs" by (simp add: h' m recsOf_def)
  have "extends h1 h'" by (simp add: h' extends_def)
  with e1 show "extends h h'" by (rule extends_trans)
  show "nextRef h \<le> m" using e1 by (simp add: m extends_def)
  show "m < nextRef h'" by (simp add: h' m)
  show "\<forall>b \<in> set (recsOf h' m). nextRef h \<le> b \<and> b < nextRef h' \<and>
                                nextRef h \<le> arrOf h' b \<and> arrOf h' b < nextRef h'"
    using e4 unfolding recs same by (auto simp: h')
  show "distinct (recsOf h' m)" using e5 by (simp add: recs)
  show "distinct (map (arrOf h') (recsOf h' m))" using e6 by (simp add: recs same)
  have "map (readReceptor h') bs =
        map (resetReceptor (readNT h n) hour) (map (readReceptor h) (recsOf h n))"
    unfolding same e3 by (simp add: resetReceptor_read comp_def)
  then show "readNT h' m = resetNT hour (readNT h n)"
    by (simp add: readNT_def[of h' m] recs[unfolded recsOf_def] resetNT_def)
       (simp add: h' m readNT_def recsOf_def)
qed

lemma copyNTs_effect:
  assumes "copyNTs hour ns h = (h', ms)" "\<forall>n \<in> set ns. ntClosed h n"
  shows "extends h h' \<and>
         map (readNT h') ms = map (resetNT hour) (map (readNT h) ns) \<and>
         freshIn (nextRef h) h' ms \<and> owned h' ms"
  using assms
proof (induction ns arbitrary: h h' ms)
  case Nil
  then show ?case by (auto simp: extends_refl freshIn_def owned_def rcsOfList_def)
next
  case (Cons n ns)
  obtain h1 m where c1: "copyNT hour n h = (h1, m)" by (metis surj_pair)
  obtain h2 ms2 where c2: "copyNTs hour ns h1 = (h2, ms2)" by (metis surj_pair)
  from Cons.prems(1) c1 c2 have res: "h' = h2" "ms = m # ms2" by simp_all
  have cn: "ntClosed h n" using Cons.prems(2) by simp
  note e = copyNT_effect[OF c1 cn]
  have cl1: "\<forall>x \<in> set ns. ntClosed h1 x"
    using Cons.prems(2) extends_closed(2)[OF e(1)] by simp
  note IH = Cons.IH[OF c2 cl1]
  note i1 = IH[THEN conjunct1] and i2 = IH[THEN conjunct2, THEN conjunct1]
    and i3 = IH[THEN conjunct2, THEN conjunct2, THEN conjunct1]
    and i4 = IH[THEN conjunct2, THEN conjunct2, THEN conjunct2]
  have n01: "nextRef h \<le> nextRef h1" "nextRef h1 \<le> nextRef h2"
    using e(1) i1 by (simp_all add: extends_def)
  have cm: "ntClosed h1 m" using e(3,5) by (auto simp: ntClosed_def)
  note k = extends_closed[OF i1 cm]
  have old: "map (readNT h1) ns = map (readNT h) ns"
    using Cons.prems(2) extends_closed(1)[OF e(1)] by (intro map_cong[OF refl]) simp
  have m1: "map (readNT h2) (m # ms2) = map (resetNT hour) (map (readNT h) (n # ns))"
    using i2 k(1) e(4) old by simp
  have fr: "freshIn (nextRef h) h2 (m # ms2)"
    using i3 e(2,3,5) k(3,4) n01 by (fastforce simp: freshIn_def)
  have arrs_m: "map (arrOf h2) (recsOf h2 m) = map (arrOf h1) (recsOf h1 m)"
    using k(3,4) by (simp cong: map_cong)
  from i4 have o2: "distinct ms2" "distinct (rcsOfList h2 ms2)"
    "distinct (map (arrOf h2) (rcsOfList h2 ms2))" by (simp_all add: owned_def)
  have low_m: "m < nextRef h1"
    "\<forall>b \<in> set (recsOf h2 m). b < nextRef h1 \<and> arrOf h2 b < nextRef h1"
    using e(3,5) k(3,4) by auto
  have high: "\<forall>x \<in> set ms2. nextRef h1 \<le> x"
    "\<forall>b \<in> set (rcsOfList h2 ms2). nextRef h1 \<le> b \<and> nextRef h1 \<le> arrOf h2 b"
    using i3 by (auto simp: freshIn_def rcsOfList_def)
  have "distinct (m # ms2)" using o2(1) low_m(1) high(1) by auto
  moreover have "distinct (recsOf h2 m @ rcsOfList h2 ms2)"
    using o2(2) e(6) k(3) low_m(2) high(2) by fastforce
  moreover have "set (map (arrOf h2) (recsOf h2 m)) \<inter> set (map (arrOf h2) (rcsOfList h2 ms2)) = {}"
    using low_m(2) high(2) by fastforce
  then have "distinct (map (arrOf h2) (recsOf h2 m) @ map (arrOf h2) (rcsOfList h2 ms2))"
    using o2(3) e(7) arrs_m by (simp only: distinct_append)
  ultimately have ow: "owned h2 (m # ms2)" by (simp add: owned_def rcsOfList_def)
  show ?case using extends_trans[OF e(1) i1] m1 fr ow by (simp add: res)
qed

lemmas load_defs = nt_defs emptyHeap_def loadNT_def loadReceptor_def newArray_def
  newReceptor_def newNeurotransmitter_def

lemma defaultRefs_eq: "defaultRefs = [4, 9, 14, 19]"
  by (simp add: defaultRefs_def load_defs)

lemma moduleHeap_loaded: "moduleLoaded moduleHeap"
  unfolding moduleLoaded_def defaultRefs_eq
  by (simp add: moduleHeap_def load_defs readNT_def readReceptor_def ntClosed_def recsOf_def
      arrOf_def)

lemma objRecompute_refines:
  assumes cl: "\<forall>n \<in> set defaults. ntClosed h n"
    and run: "objRecompute catalog defaults now hour logs h = (h', us)"
  shows "map (readNT h') us = recomputeOn catalog (map (readNT h) defaults) now hour logs"
    and "extends h h'"
    and "\<forall>n \<in> set us. ntClosed h' n"
proof -
  obtain h1 us1 where c: "copyNTs hour defaults h = (h1, us1)" by (metis surj_pair)
  let ?active = "filter (\<lambda>l. expectedClearance l > now) logs"
  from run c have h': "h' = fold (objApplyLog catalog now us) ?active h1" and us: "us1 = us"
    by (auto simp: objRecompute_def Let_def)
  note C = copyNTs_effect[OF c[unfolded us] cl]
  note c1 = C[THEN conjunct1] and c2 = C[THEN conjunct2, THEN conjunct1]
    and c3 = C[THEN conjunct2, THEN conjunct2, THEN conjunct1]
    and c4 = C[THEN conjunct2, THEN conjunct2, THEN conjunct2]
  note L = objApplyLogs_refines[OF c4, of catalog now ?active, folded h']
  note l1 = L[THEN conjunct1] and l2 = L[THEN conjunct2, THEN conjunct1]
    and l3 = L[THEN conjunct2, THEN conjunct2]
  show "map (readNT h') us = recomputeOn catalog (map (readNT h) defaults) now hour logs"
    unfolding l1 c2 by (simp add: recomputeOn_def Let_def)
  have shape: "nextRef h' = nextRef h1" "recsOf h' = recsOf h1" "arrOf h' = arrOf h1"
    using l2 by (simp_all add: sameShape_def)
  show "\<forall>n \<in> set us. ntClosed h' n"
    using c3 by (auto simp: ntClosed_def freshIn_def shape)
  have out: "x \<notin> set us \<and> x \<notin> set (rcsOfList h1 us) \<and> x \<notin> arrOf h1 ` set (rcsOfList h1 us)"
    if "x < nextRef h" for x
    using that c3 by (fastforce simp: freshIn_def rcsOfList_def)
  show "extends h h'"
    unfolding extends_def
  proof (intro conjI allI impI)
    show "nextRef h \<le> nextRef h'" using c1 by (simp add: shape extends_def)
  next
    fix x assume x: "x < nextRef h"
    from l3 out[OF x] have "ntObjs h' x = ntObjs h1 x" by (simp add: agreesOutside_def)
    with c1 x show "ntObjs h' x = ntObjs h x" by (simp add: extends_def)
  next
    fix x assume x: "x < nextRef h"
    from l3 out[OF x] have "rcObjs h' x = rcObjs h1 x" by (simp add: agreesOutside_def)
    with c1 x show "rcObjs h' x = rcObjs h x" by (simp add: extends_def)
  next
    fix x assume x: "x < nextRef h"
    from l3 out[OF x] have "arrays h' x = arrays h1 x" by (simp add: agreesOutside_def)
    with c1 x show "arrays h' x = arrays h x" by (simp add: extends_def)
  qed
qed

lemma moduleLoaded_extends:
  assumes "moduleLoaded h" "extends h h'"
  shows "moduleLoaded h'"
proof -
  from assms(1) have cl: "\<forall>n \<in> set defaultRefs. ntClosed h n"
    and v: "map (readNT h) defaultRefs = defaultNeurotransmitters"
    by (simp_all add: moduleLoaded_def)
  have "map (readNT h') defaultRefs = map (readNT h) defaultRefs"
    using cl extends_closed(1)[OF assms(2)] by (intro map_cong[OF refl]) simp
  moreover have "\<forall>n \<in> set defaultRefs. ntClosed h' n"
    using cl extends_closed(2)[OF assms(2)] by simp
  ultimately show ?thesis using v by (simp add: moduleLoaded_def)
qed

text \<open>
  Claim C4. Let the module constant be loaded in the object store, in any store that
  earlier calls have left. A recomputation returns a snapshot whose value is
  \<open>recompute now hour logs\<close>, a function of its three arguments alone; so it returns the
  same value whether or not another recomputation, with any arguments, ran before it. It
  writes no object that existed before the call: the default neurotransmitters stay as
  loaded, and a snapshot returned earlier keeps its value. On the store's state this
  reads: the snapshot that \<open>updateNTLevels\<close> stores depends on the clock readings and on
  the log history only.
\<close>

theorem recompute_objects_no_hidden_state:
  assumes "moduleLoaded h"
    and "objRecompute substanceMap defaultRefs now0 hour0 logs0 h = (h1, us1)"
    and "objRecompute substanceMap defaultRefs now hour logs h1 = (h2, us2)"
    and "objRecompute substanceMap defaultRefs now hour logs h = (h3, us3)"
  shows "map (readNT h2) us2 = recompute now hour logs \<and>
         map (readNT h2) us2 = map (readNT h3) us3 \<and>
         map (readNT h2) us1 = map (readNT h1) us1 \<and>
         extends h1 h2 \<and>
         moduleLoaded h2 \<and>
         neurotransmitters (updateNTLevels now hour (updateNTLevels now0 hour0 st)) =
           recompute now hour (substanceLogs st) \<and>
         (substanceLogs st1 = substanceLogs st2 \<longrightarrow>
            neurotransmitters (updateNTLevels now hour st1) =
            neurotransmitters (updateNTLevels now hour st2))"
proof -
  from assms(1) have cl: "\<forall>n \<in> set defaultRefs. ntClosed h n"
    and v: "map (readNT h) defaultRefs = defaultNeurotransmitters"
    by (simp_all add: moduleLoaded_def)
  note r1 = objRecompute_refines[OF cl assms(2)]
  have m1: "moduleLoaded h1" by (rule moduleLoaded_extends[OF assms(1) r1(2)])
  then have cl1: "\<forall>n \<in> set defaultRefs. ntClosed h1 n"
    and v1: "map (readNT h1) defaultRefs = defaultNeurotransmitters"
    by (simp_all add: moduleLoaded_def)
  note r2 = objRecompute_refines[OF cl1 assms(3)]
  note r3 = objRecompute_refines[OF cl assms(4)]
  have a: "map (readNT h2) us2 = recompute now hour logs"
    unfolding r2(1) v1 by (simp add: recompute_def)
  have b: "map (readNT h3) us3 = recompute now hour logs"
    unfolding r3(1) v by (simp add: recompute_def)
  have c: "map (readNT h2) us1 = map (readNT h1) us1"
    using r1(3) extends_closed(1)[OF r2(2)] by (intro map_cong[OF refl]) simp
  have d: "moduleLoaded h2" by (rule moduleLoaded_extends[OF m1 r2(2)])
  show ?thesis using a b c d r2(2) by (simp add: updateNTLevels_snapshot updateNTLevels_logs)
qed

theorem recompute_objects_witness:
  "map (readNT (fst (objRecompute substanceMap defaultRefs 5 12 []
                       (fst (objRecompute substanceMap defaultRefs 1 3 [] moduleHeap)))))
       (snd (objRecompute substanceMap defaultRefs 5 12 []
               (fst (objRecompute substanceMap defaultRefs 1 3 [] moduleHeap)))) =
     recompute 5 12 [] \<and>
   map (readNT (fst (objRecompute substanceMap defaultRefs 5 12 []
                       (fst (objRecompute substanceMap defaultRefs 1 3 [] moduleHeap)))))
       (snd (objRecompute substanceMap defaultRefs 1 3 [] moduleHeap)) =
     recompute 1 3 []"
proof -
  let ?r1 = "objRecompute substanceMap defaultRefs 1 3 [] moduleHeap"
  let ?r2 = "objRecompute substanceMap defaultRefs 5 12 [] (fst ?r1)"
  let ?r3 = "objRecompute substanceMap defaultRefs 5 12 [] moduleHeap"
  have e1: "?r1 = (fst ?r1, snd ?r1)" and e2: "?r2 = (fst ?r2, snd ?r2)"
    and e3: "?r3 = (fst ?r3, snd ?r3)" by simp_all
  note T = recompute_objects_no_hidden_state[OF moduleHeap_loaded e1 e2 e3]
  let ?r4 = "objRecompute substanceMap defaultRefs 1 3 [] (fst ?r3)"
  have e4: "?r4 = (fst ?r4, snd ?r4)" by simp
  note T0 = recompute_objects_no_hidden_state[OF moduleHeap_loaded e3 e4 e1]
  from T have a: "map (readNT (fst ?r2)) (snd ?r2) = recompute 5 12 []"
    and b: "map (readNT (fst ?r2)) (snd ?r1) = map (readNT (fst ?r1)) (snd ?r1)" by blast+
  from T0 have "map (readNT (fst ?r1)) (snd ?r1) = recompute 1 3 []" by metis
  with a b show ?thesis by simp
qed

end
